theory Spec2Isabelle
  imports Complex_Main
begin

section \<open>JavaScript strings\<close>

text \<open>
  A JavaScript string is modelled as the \<^typ>\<open>string\<close> of its UTF-8 bytes: an ASCII character is
  one byte below 128, every other character a lead byte from 192 on with the continuation
  bytes (128 to 191) that follow it. The keyword tables and file extensions of the program
  are plain ASCII.
\<close>

definition startsWith :: "string \<Rightarrow> string \<Rightarrow> bool" where
  "startsWith s p = (take (length p) s = p)"

text \<open>\<open>String.prototype.includes\<close>: the keyword occurs at some position of the string.\<close>

fun str_includes :: "string \<Rightarrow> string \<Rightarrow> bool" where
  "str_includes [] k = (k = [])"
| "str_includes (c # cs) k = (startsWith (c # cs) k \<or> str_includes cs k)"

text \<open>The characters of a string, each as its bytes, and the code point of a character.\<close>

definition is_continuation :: "char \<Rightarrow> bool" where
  "is_continuation c = (128 \<le> (of_char c :: nat) \<and> (of_char c :: nat) < 192)"

function utf8_chars :: "string \<Rightarrow> string list" where
  "utf8_chars [] = []"
| "utf8_chars (c # cs) =
     (if (of_char c :: nat) < 192 then [c] # utf8_chars cs
      else (c # takeWhile is_continuation cs) # utf8_chars (dropWhile is_continuation cs))"
  by pat_completeness auto
termination
  by (relation "measure length") (auto simp: length_dropWhile_le less_Suc_eq_le)

definition continuation_bits :: "char \<Rightarrow> nat" where
  "continuation_bits c = (of_char c :: nat) - 128"

fun utf8_decode :: "string \<Rightarrow> nat option" where
  "utf8_decode [a] = (if (of_char a :: nat) < 128 then Some (of_char a) else None)"
| "utf8_decode [a, b] =
     (if 192 \<le> (of_char a :: nat) \<and> (of_char a :: nat) < 224
      then Some (((of_char a :: nat) - 192) * 64 + continuation_bits b)
      else None)"
| "utf8_decode [a, b, c] =
     (if 224 \<le> (of_char a :: nat) \<and> (of_char a :: nat) < 240
      then Some ((((of_char a :: nat) - 224) * 64 + continuation_bits b) * 64 + continuation_bits c)
      else None)"
| "utf8_decode [a, b, c, d] =
     (if 240 \<le> (of_char a :: nat) \<and> (of_char a :: nat) < 248
      then Some (((((of_char a :: nat) - 240) * 64 + continuation_bits b) * 64 + continuation_bits c) * 64
                 + continuation_bits d)
      else None)"
| "utf8_decode ch = None"

definition utf8_encode :: "nat \<Rightarrow> string" where
  "utf8_encode n =
     (if n < 128 then [char_of n]
      else if n < 2048 then [char_of (192 + n div 64), char_of (128 + n mod 64)]
      else if n < 65536 then
        [char_of (224 + n div 4096), char_of (128 + n div 64 mod 64), char_of (128 + n mod 64)]
      else
        [char_of (240 + n div 262144), char_of (128 + n div 4096 mod 64),
         char_of (128 + n div 64 mod 64), char_of (128 + n mod 64)])"

text \<open>
  The lower-case mapping of the Unicode Character Database (version 14.0) outside ASCII: the
  characters that have a lower-case form of one character other than themselves, each with
  that form, as code points, by blocks of 256 code points. The one character with a longer
  lower-case form, U+0130, is treated where the table is used.
\<close>

definition lower_pairs :: "nat \<Rightarrow> (nat \<times> nat) list" where
  "lower_pairs block =
     (if block = 0x0 then
        [(0xC0, 0xE0), (0xC1, 0xE1), (0xC2, 0xE2), (0xC3, 0xE3), (0xC4, 0xE4),
         (0xC5, 0xE5), (0xC6, 0xE6), (0xC7, 0xE7), (0xC8, 0xE8), (0xC9, 0xE9),
         (0xCA, 0xEA), (0xCB, 0xEB), (0xCC, 0xEC), (0xCD, 0xED), (0xCE, 0xEE),
         (0xCF, 0xEF), (0xD0, 0xF0), (0xD1, 0xF1), (0xD2, 0xF2), (0xD3, 0xF3),
         (0xD4, 0xF4), (0xD5, 0xF5), (0xD6, 0xF6), (0xD8, 0xF8), (0xD9, 0xF9),
         (0xDA, 0xFA), (0xDB, 0xFB), (0xDC, 0xFC), (0xDD, 0xFD), (0xDE, 0xFE)]
      else if block = 0x1 then
        [(0x100, 0x101), (0x102, 0x103), (0x104, 0x105), (0x106, 0x107), (0x108, 0x109),
         (0x10A, 0x10B), (0x10C, 0x10D), (0x10E, 0x10F), (0x110, 0x111), (0x112, 0x113),
         (0x114, 0x115), (0x116, 0x117), (0x118, 0x119), (0x11A, 0x11B), (0x11C, 0x11D),
         (0x11E, 0x11F), (0x120, 0x121), (0x122, 0x123), (0x124, 0x125), (0x126, 0x127),
         (0x128, 0x129), (0x12A, 0x12B), (0x12C, 0x12D), (0x12E, 0x12F), (0x132, 0x133),
         (0x134, 0x135), (0x136, 0x137), (0x139, 0x13A), (0x13B, 0x13C), (0x13D, 0x13E),
         (0x13F, 0x140), (0x141, 0x142), (0x143, 0x144), (0x145, 0x146), (0x147, 0x148),
         (0x14A, 0x14B), (0x14C, 0x14D), (0x14E, 0x14F), (0x150, 0x151), (0x152, 0x153),
         (0x154, 0x155), (0x156, 0x157), (0x158, 0x159), (0x15A, 0x15B), (0x15C, 0x15D),
         (0x15E, 0x15F), (0x160, 0x161), (0x162, 0x163), (0x164, 0x165), (0x166, 0x167),
         (0x168, 0x169), (0x16A, 0x16B), (0x16C, 0x16D), (0x16E, 0x16F), (0x170, 0x171),
         (0x172, 0x173), (0x174, 0x175), (0x176, 0x177), (0x178, 0xFF), (0x179, 0x17A),
         (0x17B, 0x17C), (0x17D, 0x17E), (0x181, 0x253), (0x182, 0x183), (0x184, 0x185),
         (0x186, 0x254), (0x187, 0x188), (0x189, 0x256), (0x18A, 0x257), (0x18B, 0x18C),
         (0x18E, 0x1DD), (0x18F, 0x259), (0x190, 0x25B), (0x191, 0x192), (0x193, 0x260),
         (0x194, 0x263), (0x196, 0x269), (0x197, 0x268), (0x198, 0x199), (0x19C, 0x26F),
         (0x19D, 0x272), (0x19F, 0x275), (0x1A0, 0x1A1), (0x1A2, 0x1A3), (0x1A4, 0x1A5),
         (0x1A6, 0x280), (0x1A7, 0x1A8), (0x1A9, 0x283), (0x1AC, 0x1AD), (0x1AE, 0x288),
         (0x1AF, 0x1B0), (0x1B1, 0x28A), (0x1B2, 0x28B), (0x1B3, 0x1B4), (0x1B5, 0x1B6),
         (0x1B7, 0x292), (0x1B8, 0x1B9), (0x1BC, 0x1BD), (0x1C4, 0x1C6), (0x1C5, 0x1C6),
         (0x1C7, 0x1C9), (0x1C8, 0x1C9), (0x1CA, 0x1CC), (0x1CB, 0x1CC), (0x1CD, 0x1CE),
         (0x1CF, 0x1D0), (0x1D1, 0x1D2), (0x1D3, 0x1D4), (0x1D5, 0x1D6), (0x1D7, 0x1D8),
         (0x1D9, 0x1DA), (0x1DB, 0x1DC), (0x1DE, 0x1DF), (0x1E0, 0x1E1), (0x1E2, 0x1E3),
         (0x1E4, 0x1E5), (0x1E6, 0x1E7), (0x1E8, 0x1E9), (0x1EA, 0x1EB), (0x1EC, 0x1ED),
         (0x1EE, 0x1EF), (0x1F1, 0x1F3), (0x1F2, 0x1F3), (0x1F4, 0x1F5), (0x1F6, 0x195),
         (0x1F7, 0x1BF), (0x1F8, 0x1F9), (0x1FA, 0x1FB), (0x1FC, 0x1FD), (0x1FE, 0x1FF)]
      else if block = 0x2 then
        [(0x200, 0x201), (0x202, 0x203), (0x204, 0x205), (0x206, 0x207), (0x208, 0x209),
         (0x20A, 0x20B), (0x20C, 0x20D), (0x20E, 0x20F), (0x210, 0x211), (0x212, 0x213),
         (0x214, 0x215), (0x216, 0x217), (0x218, 0x219), (0x21A, 0x21B), (0x21C, 0x21D),
         (0x21E, 0x21F), (0x220, 0x19E), (0x222, 0x223), (0x224, 0x225), (0x226, 0x227),
         (0x228, 0x229), (0x22A, 0x22B), (0x22C, 0x22D), (0x22E, 0x22F), (0x230, 0x231),
         (0x232, 0x233), (0x23A, 0x2C65), (0x23B, 0x23C), (0x23D, 0x19A), (0x23E, 0x2C66),
         (0x241, 0x242), (0x243, 0x180), (0x244, 0x289), (0x245, 0x28C), (0x246, 0x247),
         (0x248, 0x249), (0x24A, 0x24B), (0x24C, 0x24D), (0x24E, 0x24F)]
      else if block = 0x3 then
        [(0x370, 0x371), (0x372, 0x373), (0x376, 0x377), (0x37F, 0x3F3), (0x386, 0x3AC),
         (0x388, 0x3AD), (0x389, 0x3AE), (0x38A, 0x3AF), (0x38C, 0x3CC), (0x38E, 0x3CD),
         (0x38F, 0x3CE), (0x391, 0x3B1), (0x392, 0x3B2), (0x393, 0x3B3), (0x394, 0x3B4),
         (0x395, 0x3B5), (0x396, 0x3B6), (0x397, 0x3B7), (0x398, 0x3B8), (0x399, 0x3B9),
         (0x39A, 0x3BA), (0x39B, 0x3BB), (0x39C, 0x3BC), (0x39D, 0x3BD), (0x39E, 0x3BE),
         (0x39F, 0x3BF), (0x3A0, 0x3C0), (0x3A1, 0x3C1), (0x3A3, 0x3C3), (0x3A4, 0x3C4),
         (0x3A5, 0x3C5), (0x3A6, 0x3C6), (0x3A7, 0x3C7), (0x3A8, 0x3C8), (0x3A9, 0x3C9),
         (0x3AA, 0x3CA), (0x3AB, 0x3CB), (0x3CF, 0x3D7), (0x3D8, 0x3D9), (0x3DA, 0x3DB),
         (0x3DC, 0x3DD), (0x3DE, 0x3DF), (0x3E0, 0x3E1), (0x3E2, 0x3E3), (0x3E4, 0x3E5),
         (0x3E6, 0x3E7), (0x3E8, 0x3E9), (0x3EA, 0x3EB), (0x3EC, 0x3ED), (0x3EE, 0x3EF),
         (0x3F4, 0x3B8), (0x3F7, 0x3F8), (0x3F9, 0x3F2), (0x3FA, 0x3FB), (0x3FD, 0x37B),
         (0x3FE, 0x37C), (0x3FF, 0x37D)]
      else if block = 0x4 then
        [(0x400, 0x450), (0x401, 0x451), (0x402, 0x452), (0x403, 0x453), (0x404, 0x454),
         (0x405, 0x455), (0x406, 0x456), (0x407, 0x457), (0x408, 0x458), (0x409, 0x459),
         (0x40A, 0x45A), (0x40B, 0x45B), (0x40C, 0x45C), (0x40D, 0x45D), (0x40E, 0x45E),
         (0x40F, 0x45F), (0x410, 0x430), (0x411, 0x431), (0x412, 0x432), (0x413, 0x433),
         (0x414, 0x434), (0x415, 0x435), (0x416, 0x436), (0x417, 0x437), (0x418, 0x438),
         (0x419, 0x439), (0x41A, 0x43A), (0x41B, 0x43B), (0x41C, 0x43C), (0x41D, 0x43D),
         (0x41E, 0x43E), (0x41F, 0x43F), (0x420, 0x440), (0x421, 0x441), (0x422, 0x442),
         (0x423, 0x443), (0x424, 0x444), (0x425, 0x445), (0x426, 0x446), (0x427, 0x447),
         (0x428, 0x448), (0x429, 0x449), (0x42A, 0x44A), (0x42B, 0x44B), (0x42C, 0x44C),
         (0x42D, 0x44D), (0x42E, 0x44E), (0x42F, 0x44F), (0x460, 0x461), (0x462, 0x463),
         (0x464, 0x465), (0x466, 0x467), (0x468, 0x469), (0x46A, 0x46B), (0x46C, 0x46D),
         (0x46E, 0x46F), (0x470, 0x471), (0x472, 0x473), (0x474, 0x475), (0x476, 0x477),
         (0x478, 0x479), (0x47A, 0x47B), (0x47C, 0x47D), (0x47E, 0x47F), (0x480, 0x481),
         (0x48A, 0x48B), (0x48C, 0x48D), (0x48E, 0x48F), (0x490, 0x491), (0x492, 0x493),
         (0x494, 0x495), (0x496, 0x497), (0x498, 0x499), (0x49A, 0x49B), (0x49C, 0x49D),
         (0x49E, 0x49F), (0x4A0, 0x4A1), (0x4A2, 0x4A3), (0x4A4, 0x4A5), (0x4A6, 0x4A7),
         (0x4A8, 0x4A9), (0x4AA, 0x4AB), (0x4AC, 0x4AD), (0x4AE, 0x4AF), (0x4B0, 0x4B1),
         (0x4B2, 0x4B3), (0x4B4, 0x4B5), (0x4B6, 0x4B7), (0x4B8, 0x4B9), (0x4BA, 0x4BB),
         (0x4BC, 0x4BD), (0x4BE, 0x4BF), (0x4C0, 0x4CF), (0x4C1, 0x4C2), (0x4C3, 0x4C4),
         (0x4C5, 0x4C6), (0x4C7, 0x4C8), (0x4C9, 0x4CA), (0x4CB, 0x4CC), (0x4CD, 0x4CE),
         (0x4D0, 0x4D1), (0x4D2, 0x4D3), (0x4D4, 0x4D5), (0x4D6, 0x4D7), (0x4D8, 0x4D9),
         (0x4DA, 0x4DB), (0x4DC, 0x4DD), (0x4DE, 0x4DF), (0x4E0, 0x4E1), (0x4E2, 0x4E3),
         (0x4E4, 0x4E5), (0x4E6, 0x4E7), (0x4E8, 0x4E9), (0x4EA, 0x4EB), (0x4EC, 0x4ED),
         (0x4EE, 0x4EF), (0x4F0, 0x4F1), (0x4F2, 0x4F3), (0x4F4, 0x4F5), (0x4F6, 0x4F7),
         (0x4F8, 0x4F9), (0x4FA, 0x4FB), (0x4FC, 0x4FD), (0x4FE, 0x4FF)]
      else if block = 0x5 then
        [(0x500, 0x501), (0x502, 0x503), (0x504, 0x505), (0x506, 0x507), (0x508, 0x509),
         (0x50A, 0x50B), (0x50C, 0x50D), (0x50E, 0x50F), (0x510, 0x511), (0x512, 0x513),
         (0x514, 0x515), (0x516, 0x517), (0x518, 0x519), (0x51A, 0x51B), (0x51C, 0x51D),
         (0x51E, 0x51F), (0x520, 0x521), (0x522, 0x523), (0x524, 0x525), (0x526, 0x527),
         (0x528, 0x529), (0x52A, 0x52B), (0x52C, 0x52D), (0x52E, 0x52F), (0x531, 0x561),
         (0x532, 0x562), (0x533, 0x563), (0x534, 0x564), (0x535, 0x565), (0x536, 0x566),
         (0x537, 0x567), (0x538, 0x568), (0x539, 0x569), (0x53A, 0x56A), (0x53B, 0x56B),
         (0x53C, 0x56C), (0x53D, 0x56D), (0x53E, 0x56E), (0x53F, 0x56F), (0x540, 0x570),
         (0x541, 0x571), (0x542, 0x572), (0x543, 0x573), (0x544, 0x574), (0x545, 0x575),
         (0x546, 0x576), (0x547, 0x577), (0x548, 0x578), (0x549, 0x579), (0x54A, 0x57A),
         (0x54B, 0x57B), (0x54C, 0x57C), (0x54D, 0x57D), (0x54E, 0x57E), (0x54F, 0x57F),
         (0x550, 0x580), (0x551, 0x581), (0x552, 0x582), (0x553, 0x583), (0x554, 0x584),
         (0x555, 0x585), (0x556, 0x586)]
      else if block = 0x10 then
        [(0x10A0, 0x2D00), (0x10A1, 0x2D01), (0x10A2, 0x2D02), (0x10A3, 0x2D03), (0x10A4, 0x2D04),
         (0x10A5, 0x2D05), (0x10A6, 0x2D06), (0x10A7, 0x2D07), (0x10A8, 0x2D08), (0x10A9, 0x2D09),
         (0x10AA, 0x2D0A), (0x10AB, 0x2D0B), (0x10AC, 0x2D0C), (0x10AD, 0x2D0D), (0x10AE, 0x2D0E),
         (0x10AF, 0x2D0F), (0x10B0, 0x2D10), (0x10B1, 0x2D11), (0x10B2, 0x2D12), (0x10B3, 0x2D13),
         (0x10B4, 0x2D14), (0x10B5, 0x2D15), (0x10B6, 0x2D16), (0x10B7, 0x2D17), (0x10B8, 0x2D18),
         (0x10B9, 0x2D19), (0x10BA, 0x2D1A), (0x10BB, 0x2D1B), (0x10BC, 0x2D1C), (0x10BD, 0x2D1D),
         (0x10BE, 0x2D1E), (0x10BF, 0x2D1F), (0x10C0, 0x2D20), (0x10C1, 0x2D21), (0x10C2, 0x2D22),
         (0x10C3, 0x2D23), (0x10C4, 0x2D24), (0x10C5, 0x2D25), (0x10C7, 0x2D27), (0x10CD, 0x2D2D)]
      else if block = 0x13 then
        [(0x13A0, 0xAB70), (0x13A1, 0xAB71), (0x13A2, 0xAB72), (0x13A3, 0xAB73), (0x13A4, 0xAB74),
         (0x13A5, 0xAB75), (0x13A6, 0xAB76), (0x13A7, 0xAB77), (0x13A8, 0xAB78), (0x13A9, 0xAB79),
         (0x13AA, 0xAB7A), (0x13AB, 0xAB7B), (0x13AC, 0xAB7C), (0x13AD, 0xAB7D), (0x13AE, 0xAB7E),
         (0x13AF, 0xAB7F), (0x13B0, 0xAB80), (0x13B1, 0xAB81), (0x13B2, 0xAB82), (0x13B3, 0xAB83),
         (0x13B4, 0xAB84), (0x13B5, 0xAB85), (0x13B6, 0xAB86), (0x13B7, 0xAB87), (0x13B8, 0xAB88),
         (0x13B9, 0xAB89), (0x13BA, 0xAB8A), (0x13BB, 0xAB8B), (0x13BC, 0xAB8C), (0x13BD, 0xAB8D),
         (0x13BE, 0xAB8E), (0x13BF, 0xAB8F), (0x13C0, 0xAB90), (0x13C1, 0xAB91), (0x13C2, 0xAB92),
         (0x13C3, 0xAB93), (0x13C4, 0xAB94), (0x13C5, 0xAB95), (0x13C6, 0xAB96), (0x13C7, 0xAB97),
         (0x13C8, 0xAB98), (0x13C9, 0xAB99), (0x13CA, 0xAB9A), (0x13CB, 0xAB9B), (0x13CC, 0xAB9C),
         (0x13CD, 0xAB9D), (0x13CE, 0xAB9E), (0x13CF, 0xAB9F), (0x13D0, 0xABA0), (0x13D1, 0xABA1),
         (0x13D2, 0xABA2), (0x13D3, 0xABA3), (0x13D4, 0xABA4), (0x13D5, 0xABA5), (0x13D6, 0xABA6),
         (0x13D7, 0xABA7), (0x13D8, 0xABA8), (0x13D9, 0xABA9), (0x13DA, 0xABAA), (0x13DB, 0xABAB),
         (0x13DC, 0xABAC), (0x13DD, 0xABAD), (0x13DE, 0xABAE), (0x13DF, 0xABAF), (0x13E0, 0xABB0),
         (0x13E1, 0xABB1), (0x13E2, 0xABB2), (0x13E3, 0xABB3), (0x13E4, 0xABB4), (0x13E5, 0xABB5),
         (0x13E6, 0xABB6), (0x13E7, 0xABB7), (0x13E8, 0xABB8), (0x13E9, 0xABB9), (0x13EA, 0xABBA),
         (0x13EB, 0xABBB), (0x13EC, 0xABBC), (0x13ED, 0xABBD), (0x13EE, 0xABBE), (0x13EF, 0xABBF),
         (0x13F0, 0x13F8), (0x13F1, 0x13F9), (0x13F2, 0x13FA), (0x13F3, 0x13FB), (0x13F4, 0x13FC),
         (0x13F5, 0x13FD)]
      else if block = 0x1C then
        [(0x1C90, 0x10D0), (0x1C91, 0x10D1), (0x1C92, 0x10D2), (0x1C93, 0x10D3), (0x1C94, 0x10D4),
         (0x1C95, 0x10D5), (0x1C96, 0x10D6), (0x1C97, 0x10D7), (0x1C98, 0x10D8), (0x1C99, 0x10D9),
         (0x1C9A, 0x10DA), (0x1C9B, 0x10DB), (0x1C9C, 0x10DC), (0x1C9D, 0x10DD), (0x1C9E, 0x10DE),
         (0x1C9F, 0x10DF), (0x1CA0, 0x10E0), (0x1CA1, 0x10E1), (0x1CA2, 0x10E2), (0x1CA3, 0x10E3),
         (0x1CA4, 0x10E4), (0x1CA5, 0x10E5), (0x1CA6, 0x10E6), (0x1CA7, 0x10E7), (0x1CA8, 0x10E8),
         (0x1CA9, 0x10E9), (0x1CAA, 0x10EA), (0x1CAB, 0x10EB), (0x1CAC, 0x10EC), (0x1CAD, 0x10ED),
         (0x1CAE, 0x10EE), (0x1CAF, 0x10EF), (0x1CB0, 0x10F0), (0x1CB1, 0x10F1), (0x1CB2, 0x10F2),
         (0x1CB3, 0x10F3), (0x1CB4, 0x10F4), (0x1CB5, 0x10F5), (0x1CB6, 0x10F6), (0x1CB7, 0x10F7),
         (0x1CB8, 0x10F8), (0x1CB9, 0x10F9), (0x1CBA, 0x10FA), (0x1CBD, 0x10FD), (0x1CBE, 0x10FE),
         (0x1CBF, 0x10FF)]
      else if block = 0x1E then
        [(0x1E00, 0x1E01), (0x1E02, 0x1E03), (0x1E04, 0x1E05), (0x1E06, 0x1E07), (0x1E08, 0x1E09),
         (0x1E0A, 0x1E0B), (0x1E0C, 0x1E0D), (0x1E0E, 0x1E0F), (0x1E10, 0x1E11), (0x1E12, 0x1E13),
         (0x1E14, 0x1E15), (0x1E16, 0x1E17), (0x1E18, 0x1E19), (0x1E1A, 0x1E1B), (0x1E1C, 0x1E1D),
         (0x1E1E, 0x1E1F), (0x1E20, 0x1E21), (0x1E22, 0x1E23), (0x1E24, 0x1E25), (0x1E26, 0x1E27),
         (0x1E28, 0x1E29), (0x1E2A, 0x1E2B), (0x1E2C, 0x1E2D), (0x1E2E, 0x1E2F), (0x1E30, 0x1E31),
         (0x1E32, 0x1E33), (0x1E34, 0x1E35), (0x1E36, 0x1E37), (0x1E38, 0x1E39), (0x1E3A, 0x1E3B),
         (0x1E3C, 0x1E3D), (0x1E3E, 0x1E3F), (0x1E40, 0x1E41), (0x1E42, 0x1E43), (0x1E44, 0x1E45),
         (0x1E46, 0x1E47), (0x1E48, 0x1E49), (0x1E4A, 0x1E4B), (0x1E4C, 0x1E4D), (0x1E4E, 0x1E4F),
         (0x1E50, 0x1E51), (0x1E52, 0x1E53), (0x1E54, 0x1E55), (0x1E56, 0x1E57), (0x1E58, 0x1E59),
         (0x1E5A, 0x1E5B), (0x1E5C, 0x1E5D), (0x1E5E, 0x1E5F), (0x1E60, 0x1E61), (0x1E62, 0x1E63),
         (0x1E64, 0x1E65), (0x1E66, 0x1E67), (0x1E68, 0x1E69), (0x1E6A, 0x1E6B), (0x1E6C, 0x1E6D),
         (0x1E6E, 0x1E6F), (0x1E70, 0x1E71), (0x1E72, 0x1E73), (0x1E74, 0x1E75), (0x1E76, 0x1E77),
         (0x1E78, 0x1E79), (0x1E7A, 0x1E7B), (0x1E7C, 0x1E7D), (0x1E7E, 0x1E7F), (0x1E80, 0x1E81),
         (0x1E82, 0x1E83), (0x1E84, 0x1E85), (0x1E86, 0x1E87), (0x1E88, 0x1E89), (0x1E8A, 0x1E8B),
         (0x1E8C, 0x1E8D), (0x1E8E, 0x1E8F), (0x1E90, 0x1E91), (0x1E92, 0x1E93), (0x1E94, 0x1E95),
         (0x1E9E, 0xDF), (0x1EA0, 0x1EA1), (0x1EA2, 0x1EA3), (0x1EA4, 0x1EA5), (0x1EA6, 0x1EA7),
         (0x1EA8, 0x1EA9), (0x1EAA, 0x1EAB), (0x1EAC, 0x1EAD), (0x1EAE, 0x1EAF), (0x1EB0, 0x1EB1),
         (0x1EB2, 0x1EB3), (0x1EB4, 0x1EB5), (0x1EB6, 0x1EB7), (0x1EB8, 0x1EB9), (0x1EBA, 0x1EBB),
         (0x1EBC, 0x1EBD), (0x1EBE, 0x1EBF), (0x1EC0, 0x1EC1), (0x1EC2, 0x1EC3), (0x1EC4, 0x1EC5),
         (0x1EC6, 0x1EC7), (0x1EC8, 0x1EC9), (0x1ECA, 0x1ECB), (0x1ECC, 0x1ECD), (0x1ECE, 0x1ECF),
         (0x1ED0, 0x1ED1), (0x1ED2, 0x1ED3), (0x1ED4, 0x1ED5), (0x1ED6, 0x1ED7), (0x1ED8, 0x1ED9),
         (0x1EDA, 0x1EDB), (0x1EDC, 0x1EDD), (0x1EDE, 0x1EDF), (0x1EE0, 0x1EE1), (0x1EE2, 0x1EE3),
         (0x1EE4, 0x1EE5), (0x1EE6, 0x1EE7), (0x1EE8, 0x1EE9), (0x1EEA, 0x1EEB), (0x1EEC, 0x1EED),
         (0x1EEE, 0x1EEF), (0x1EF0, 0x1EF1), (0x1EF2, 0x1EF3), (0x1EF4, 0x1EF5), (0x1EF6, 0x1EF7),
         (0x1EF8, 0x1EF9), (0x1EFA, 0x1EFB), (0x1EFC, 0x1EFD), (0x1EFE, 0x1EFF)]
      else if block = 0x1F then
        [(0x1F08, 0x1F00), (0x1F09, 0x1F01), (0x1F0A, 0x1F02), (0x1F0B, 0x1F03), (0x1F0C, 0x1F04),
         (0x1F0D, 0x1F05), (0x1F0E, 0x1F06), (0x1F0F, 0x1F07), (0x1F18, 0x1F10), (0x1F19, 0x1F11),
         (0x1F1A, 0x1F12), (0x1F1B, 0x1F13), (0x1F1C, 0x1F14), (0x1F1D, 0x1F15), (0x1F28, 0x1F20),
         (0x1F29, 0x1F21), (0x1F2A, 0x1F22), (0x1F2B, 0x1F23), (0x1F2C, 0x1F24), (0x1F2D, 0x1F25),
         (0x1F2E, 0x1F26), (0x1F2F, 0x1F27), (0x1F38, 0x1F30), (0x1F39, 0x1F31), (0x1F3A, 0x1F32),
         (0x1F3B, 0x1F33), (0x1F3C, 0x1F34), (0x1F3D, 0x1F35), (0x1F3E, 0x1F36), (0x1F3F, 0x1F37),
         (0x1F48, 0x1F40), (0x1F49, 0x1F41), (0x1F4A, 0x1F42), (0x1F4B, 0x1F43), (0x1F4C, 0x1F44),
         (0x1F4D, 0x1F45), (0x1F59, 0x1F51), (0x1F5B, 0x1F53), (0x1F5D, 0x1F55), (0x1F5F, 0x1F57),
         (0x1F68, 0x1F60), (0x1F69, 0x1F61), (0x1F6A, 0x1F62), (0x1F6B, 0x1F63), (0x1F6C, 0x1F64),
         (0x1F6D, 0x1F65), (0x1F6E, 0x1F66), (0x1F6F, 0x1F67), (0x1F88, 0x1F80), (0x1F89, 0x1F81),
         (0x1F8A, 0x1F82), (0x1F8B, 0x1F83), (0x1F8C, 0x1F84), (0x1F8D, 0x1F85), (0x1F8E, 0x1F86),
         (0x1F8F, 0x1F87), (0x1F98, 0x1F90), (0x1F99, 0x1F91), (0x1F9A, 0x1F92), (0x1F9B, 0x1F93),
         (0x1F9C, 0x1F94), (0x1F9D, 0x1F95), (0x1F9E, 0x1F96), (0x1F9F, 0x1F97), (0x1FA8, 0x1FA0),
         (0x1FA9, 0x1FA1), (0x1FAA, 0x1FA2), (0x1FAB, 0x1FA3), (0x1FAC, 0x1FA4), (0x1FAD, 0x1FA5),
         (0x1FAE, 0x1FA6), (0x1FAF, 0x1FA7), (0x1FB8, 0x1FB0), (0x1FB9, 0x1FB1), (0x1FBA, 0x1F70),
         (0x1FBB, 0x1F71), (0x1FBC, 0x1FB3), (0x1FC8, 0x1F72), (0x1FC9, 0x1F73), (0x1FCA, 0x1F74),
         (0x1FCB, 0x1F75), (0x1FCC, 0x1FC3), (0x1FD8, 0x1FD0), (0x1FD9, 0x1FD1), (0x1FDA, 0x1F76),
         (0x1FDB, 0x1F77), (0x1FE8, 0x1FE0), (0x1FE9, 0x1FE1), (0x1FEA, 0x1F7A), (0x1FEB, 0x1F7B),
         (0x1FEC, 0x1FE5), (0x1FF8, 0x1F78), (0x1FF9, 0x1F79), (0x1FFA, 0x1F7C), (0x1FFB, 0x1F7D),
         (0x1FFC, 0x1FF3)]
      else if block = 0x21 then
        [(0x2126, 0x3C9), (0x212A, 0x6B), (0x212B, 0xE5), (0x2132, 0x214E), (0x2160, 0x2170),
         (0x2161, 0x2171), (0x2162, 0x2172), (0x2163, 0x2173), (0x2164, 0x2174), (0x2165, 0x2175),
         (0x2166, 0x2176), (0x2167, 0x2177), (0x2168, 0x2178), (0x2169, 0x2179), (0x216A, 0x217A),
         (0x216B, 0x217B), (0x216C, 0x217C), (0x216D, 0x217D), (0x216E, 0x217E), (0x216F, 0x217F),
         (0x2183, 0x2184)]
      else if block = 0x24 then
        [(0x24B6, 0x24D0), (0x24B7, 0x24D1), (0x24B8, 0x24D2), (0x24B9, 0x24D3), (0x24BA, 0x24D4),
         (0x24BB, 0x24D5), (0x24BC, 0x24D6), (0x24BD, 0x24D7), (0x24BE, 0x24D8), (0x24BF, 0x24D9),
         (0x24C0, 0x24DA), (0x24C1, 0x24DB), (0x24C2, 0x24DC), (0x24C3, 0x24DD), (0x24C4, 0x24DE),
         (0x24C5, 0x24DF), (0x24C6, 0x24E0), (0x24C7, 0x24E1), (0x24C8, 0x24E2), (0x24C9, 0x24E3),
         (0x24CA, 0x24E4), (0x24CB, 0x24E5), (0x24CC, 0x24E6), (0x24CD, 0x24E7), (0x24CE, 0x24E8),
         (0x24CF, 0x24E9)]
      else if block = 0x2C then
        [(0x2C00, 0x2C30), (0x2C01, 0x2C31), (0x2C02, 0x2C32), (0x2C03, 0x2C33), (0x2C04, 0x2C34),
         (0x2C05, 0x2C35), (0x2C06, 0x2C36), (0x2C07, 0x2C37), (0x2C08, 0x2C38), (0x2C09, 0x2C39),
         (0x2C0A, 0x2C3A), (0x2C0B, 0x2C3B), (0x2C0C, 0x2C3C), (0x2C0D, 0x2C3D), (0x2C0E, 0x2C3E),
         (0x2C0F, 0x2C3F), (0x2C10, 0x2C40), (0x2C11, 0x2C41), (0x2C12, 0x2C42), (0x2C13, 0x2C43),
         (0x2C14, 0x2C44), (0x2C15, 0x2C45), (0x2C16, 0x2C46), (0x2C17, 0x2C47), (0x2C18, 0x2C48),
         (0x2C19, 0x2C49), (0x2C1A, 0x2C4A), (0x2C1B, 0x2C4B), (0x2C1C, 0x2C4C), (0x2C1D, 0x2C4D),
         (0x2C1E, 0x2C4E), (0x2C1F, 0x2C4F), (0x2C20, 0x2C50), (0x2C21, 0x2C51), (0x2C22, 0x2C52),
         (0x2C23, 0x2C53), (0x2C24, 0x2C54), (0x2C25, 0x2C55), (0x2C26, 0x2C56), (0x2C27, 0x2C57),
         (0x2C28, 0x2C58), (0x2C29, 0x2C59), (0x2C2A, 0x2C5A), (0x2C2B, 0x2C5B), (0x2C2C, 0x2C5C),
         (0x2C2D, 0x2C5D), (0x2C2E, 0x2C5E), (0x2C2F, 0x2C5F), (0x2C60, 0x2C61), (0x2C62, 0x26B),
         (0x2C63, 0x1D7D), (0x2C64, 0x27D), (0x2C67, 0x2C68), (0x2C69, 0x2C6A), (0x2C6B, 0x2C6C),
         (0x2C6D, 0x251), (0x2C6E, 0x271), (0x2C6F, 0x250), (0x2C70, 0x252), (0x2C72, 0x2C73),
         (0x2C75, 0x2C76), (0x2C7E, 0x23F), (0x2C7F, 0x240), (0x2C80, 0x2C81), (0x2C82, 0x2C83),
         (0x2C84, 0x2C85), (0x2C86, 0x2C87), (0x2C88, 0x2C89), (0x2C8A, 0x2C8B), (0x2C8C, 0x2C8D),
         (0x2C8E, 0x2C8F), (0x2C90, 0x2C91), (0x2C92, 0x2C93), (0x2C94, 0x2C95), (0x2C96, 0x2C97),
         (0x2C98, 0x2C99), (0x2C9A, 0x2C9B), (0x2C9C, 0x2C9D), (0x2C9E, 0x2C9F), (0x2CA0, 0x2CA1),
         (0x2CA2, 0x2CA3), (0x2CA4, 0x2CA5), (0x2CA6, 0x2CA7), (0x2CA8, 0x2CA9), (0x2CAA, 0x2CAB),
         (0x2CAC, 0x2CAD), (0x2CAE, 0x2CAF), (0x2CB0, 0x2CB1), (0x2CB2, 0x2CB3), (0x2CB4, 0x2CB5),
         (0x2CB6, 0x2CB7), (0x2CB8, 0x2CB9), (0x2CBA, 0x2CBB), (0x2CBC, 0x2CBD), (0x2CBE, 0x2CBF),
         (0x2CC0, 0x2CC1), (0x2CC2, 0x2CC3), (0x2CC4, 0x2CC5), (0x2CC6, 0x2CC7), (0x2CC8, 0x2CC9),
         (0x2CCA, 0x2CCB), (0x2CCC, 0x2CCD), (0x2CCE, 0x2CCF), (0x2CD0, 0x2CD1), (0x2CD2, 0x2CD3),
         (0x2CD4, 0x2CD5), (0x2CD6, 0x2CD7), (0x2CD8, 0x2CD9), (0x2CDA, 0x2CDB), (0x2CDC, 0x2CDD),
         (0x2CDE, 0x2CDF), (0x2CE0, 0x2CE1), (0x2CE2, 0x2CE3), (0x2CEB, 0x2CEC), (0x2CED, 0x2CEE),
         (0x2CF2, 0x2CF3)]
      else if block = 0xA6 then
        [(0xA640, 0xA641), (0xA642, 0xA643), (0xA644, 0xA645), (0xA646, 0xA647), (0xA648, 0xA649),
         (0xA64A, 0xA64B), (0xA64C, 0xA64D), (0xA64E, 0xA64F), (0xA650, 0xA651), (0xA652, 0xA653),
         (0xA654, 0xA655), (0xA656, 0xA657), (0xA658, 0xA659), (0xA65A, 0xA65B), (0xA65C, 0xA65D),
         (0xA65E, 0xA65F), (0xA660, 0xA661), (0xA662, 0xA663), (0xA664, 0xA665), (0xA666, 0xA667),
         (0xA668, 0xA669), (0xA66A, 0xA66B), (0xA66C, 0xA66D), (0xA680, 0xA681), (0xA682, 0xA683),
         (0xA684, 0xA685), (0xA686, 0xA687), (0xA688, 0xA689), (0xA68A, 0xA68B), (0xA68C, 0xA68D),
         (0xA68E, 0xA68F), (0xA690, 0xA691), (0xA692, 0xA693), (0xA694, 0xA695), (0xA696, 0xA697),
         (0xA698, 0xA699), (0xA69A, 0xA69B)]
      else if block = 0xA7 then
        [(0xA722, 0xA723), (0xA724, 0xA725), (0xA726, 0xA727), (0xA728, 0xA729), (0xA72A, 0xA72B),
         (0xA72C, 0xA72D), (0xA72E, 0xA72F), (0xA732, 0xA733), (0xA734, 0xA735), (0xA736, 0xA737),
         (0xA738, 0xA739), (0xA73A, 0xA73B), (0xA73C, 0xA73D), (0xA73E, 0xA73F), (0xA740, 0xA741),
         (0xA742, 0xA743), (0xA744, 0xA745), (0xA746, 0xA747), (0xA748, 0xA749), (0xA74A, 0xA74B),
         (0xA74C, 0xA74D), (0xA74E, 0xA74F), (0xA750, 0xA751), (0xA752, 0xA753), (0xA754, 0xA755),
         (0xA756, 0xA757), (0xA758, 0xA759), (0xA75A, 0xA75B), (0xA75C, 0xA75D), (0xA75E, 0xA75F),
         (0xA760, 0xA761), (0xA762, 0xA763), (0xA764, 0xA765), (0xA766, 0xA767), (0xA768, 0xA769),
         (0xA76A, 0xA76B), (0xA76C, 0xA76D), (0xA76E, 0xA76F), (0xA779, 0xA77A), (0xA77B, 0xA77C),
         (0xA77D, 0x1D79), (0xA77E, 0xA77F), (0xA780, 0xA781), (0xA782, 0xA783), (0xA784, 0xA785),
         (0xA786, 0xA787), (0xA78B, 0xA78C), (0xA78D, 0x265), (0xA790, 0xA791), (0xA792, 0xA793),
         (0xA796, 0xA797), (0xA798, 0xA799), (0xA79A, 0xA79B), (0xA79C, 0xA79D), (0xA79E, 0xA79F),
         (0xA7A0, 0xA7A1), (0xA7A2, 0xA7A3), (0xA7A4, 0xA7A5), (0xA7A6, 0xA7A7), (0xA7A8, 0xA7A9),
         (0xA7AA, 0x266), (0xA7AB, 0x25C), (0xA7AC, 0x261), (0xA7AD, 0x26C), (0xA7AE, 0x26A),
         (0xA7B0, 0x29E), (0xA7B1, 0x287), (0xA7B2, 0x29D), (0xA7B3, 0xAB53), (0xA7B4, 0xA7B5),
         (0xA7B6, 0xA7B7), (0xA7B8, 0xA7B9), (0xA7BA, 0xA7BB), (0xA7BC, 0xA7BD), (0xA7BE, 0xA7BF),
         (0xA7C0, 0xA7C1), (0xA7C2, 0xA7C3), (0xA7C4, 0xA794), (0xA7C5, 0x282), (0xA7C6, 0x1D8E),
         (0xA7C7, 0xA7C8), (0xA7C9, 0xA7CA), (0xA7D0, 0xA7D1), (0xA7D6, 0xA7D7), (0xA7D8, 0xA7D9),
         (0xA7F5, 0xA7F6)]
      else if block = 0xFF then
        [(0xFF21, 0xFF41), (0xFF22, 0xFF42), (0xFF23, 0xFF43), (0xFF24, 0xFF44), (0xFF25, 0xFF45),
         (0xFF26, 0xFF46), (0xFF27, 0xFF47), (0xFF28, 0xFF48), (0xFF29, 0xFF49), (0xFF2A, 0xFF4A),
         (0xFF2B, 0xFF4B), (0xFF2C, 0xFF4C), (0xFF2D, 0xFF4D), (0xFF2E, 0xFF4E), (0xFF2F, 0xFF4F),
         (0xFF30, 0xFF50), (0xFF31, 0xFF51), (0xFF32, 0xFF52), (0xFF33, 0xFF53), (0xFF34, 0xFF54),
         (0xFF35, 0xFF55), (0xFF36, 0xFF56), (0xFF37, 0xFF57), (0xFF38, 0xFF58), (0xFF39, 0xFF59),
         (0xFF3A, 0xFF5A)]
      else if block = 0x104 then
        [(0x10400, 0x10428), (0x10401, 0x10429), (0x10402, 0x1042A), (0x10403, 0x1042B), (0x10404, 0x1042C),
         (0x10405, 0x1042D), (0x10406, 0x1042E), (0x10407, 0x1042F), (0x10408, 0x10430), (0x10409, 0x10431),
         (0x1040A, 0x10432), (0x1040B, 0x10433), (0x1040C, 0x10434), (0x1040D, 0x10435), (0x1040E, 0x10436),
         (0x1040F, 0x10437), (0x10410, 0x10438), (0x10411, 0x10439), (0x10412, 0x1043A), (0x10413, 0x1043B),
         (0x10414, 0x1043C), (0x10415, 0x1043D), (0x10416, 0x1043E), (0x10417, 0x1043F), (0x10418, 0x10440),
         (0x10419, 0x10441), (0x1041A, 0x10442), (0x1041B, 0x10443), (0x1041C, 0x10444), (0x1041D, 0x10445),
         (0x1041E, 0x10446), (0x1041F, 0x10447), (0x10420, 0x10448), (0x10421, 0x10449), (0x10422, 0x1044A),
         (0x10423, 0x1044B), (0x10424, 0x1044C), (0x10425, 0x1044D), (0x10426, 0x1044E), (0x10427, 0x1044F),
         (0x104B0, 0x104D8), (0x104B1, 0x104D9), (0x104B2, 0x104DA), (0x104B3, 0x104DB), (0x104B4, 0x104DC),
         (0x104B5, 0x104DD), (0x104B6, 0x104DE), (0x104B7, 0x104DF), (0x104B8, 0x104E0), (0x104B9, 0x104E1),
         (0x104BA, 0x104E2), (0x104BB, 0x104E3), (0x104BC, 0x104E4), (0x104BD, 0x104E5), (0x104BE, 0x104E6),
         (0x104BF, 0x104E7), (0x104C0, 0x104E8), (0x104C1, 0x104E9), (0x104C2, 0x104EA), (0x104C3, 0x104EB),
         (0x104C4, 0x104EC), (0x104C5, 0x104ED), (0x104C6, 0x104EE), (0x104C7, 0x104EF), (0x104C8, 0x104F0),
         (0x104C9, 0x104F1), (0x104CA, 0x104F2), (0x104CB, 0x104F3), (0x104CC, 0x104F4), (0x104CD, 0x104F5),
         (0x104CE, 0x104F6), (0x104CF, 0x104F7), (0x104D0, 0x104F8), (0x104D1, 0x104F9), (0x104D2, 0x104FA),
         (0x104D3, 0x104FB)]
      else if block = 0x105 then
        [(0x10570, 0x10597), (0x10571, 0x10598), (0x10572, 0x10599), (0x10573, 0x1059A), (0x10574, 0x1059B),
         (0x10575, 0x1059C), (0x10576, 0x1059D), (0x10577, 0x1059E), (0x10578, 0x1059F), (0x10579, 0x105A0),
         (0x1057A, 0x105A1), (0x1057C, 0x105A3), (0x1057D, 0x105A4), (0x1057E, 0x105A5), (0x1057F, 0x105A6),
         (0x10580, 0x105A7), (0x10581, 0x105A8), (0x10582, 0x105A9), (0x10583, 0x105AA), (0x10584, 0x105AB),
         (0x10585, 0x105AC), (0x10586, 0x105AD), (0x10587, 0x105AE), (0x10588, 0x105AF), (0x10589, 0x105B0),
         (0x1058A, 0x105B1), (0x1058C, 0x105B3), (0x1058D, 0x105B4), (0x1058E, 0x105B5), (0x1058F, 0x105B6),
         (0x10590, 0x105B7), (0x10591, 0x105B8), (0x10592, 0x105B9), (0x10594, 0x105BB), (0x10595, 0x105BC)]
      else if block = 0x10C then
        [(0x10C80, 0x10CC0), (0x10C81, 0x10CC1), (0x10C82, 0x10CC2), (0x10C83, 0x10CC3), (0x10C84, 0x10CC4),
         (0x10C85, 0x10CC5), (0x10C86, 0x10CC6), (0x10C87, 0x10CC7), (0x10C88, 0x10CC8), (0x10C89, 0x10CC9),
         (0x10C8A, 0x10CCA), (0x10C8B, 0x10CCB), (0x10C8C, 0x10CCC), (0x10C8D, 0x10CCD), (0x10C8E, 0x10CCE),
         (0x10C8F, 0x10CCF), (0x10C90, 0x10CD0), (0x10C91, 0x10CD1), (0x10C92, 0x10CD2), (0x10C93, 0x10CD3),
         (0x10C94, 0x10CD4), (0x10C95, 0x10CD5), (0x10C96, 0x10CD6), (0x10C97, 0x10CD7), (0x10C98, 0x10CD8),
         (0x10C99, 0x10CD9), (0x10C9A, 0x10CDA), (0x10C9B, 0x10CDB), (0x10C9C, 0x10CDC), (0x10C9D, 0x10CDD),
         (0x10C9E, 0x10CDE), (0x10C9F, 0x10CDF), (0x10CA0, 0x10CE0), (0x10CA1, 0x10CE1), (0x10CA2, 0x10CE2),
         (0x10CA3, 0x10CE3), (0x10CA4, 0x10CE4), (0x10CA5, 0x10CE5), (0x10CA6, 0x10CE6), (0x10CA7, 0x10CE7),
         (0x10CA8, 0x10CE8), (0x10CA9, 0x10CE9), (0x10CAA, 0x10CEA), (0x10CAB, 0x10CEB), (0x10CAC, 0x10CEC),
         (0x10CAD, 0x10CED), (0x10CAE, 0x10CEE), (0x10CAF, 0x10CEF), (0x10CB0, 0x10CF0), (0x10CB1, 0x10CF1),
         (0x10CB2, 0x10CF2)]
      else if block = 0x118 then
        [(0x118A0, 0x118C0), (0x118A1, 0x118C1), (0x118A2, 0x118C2), (0x118A3, 0x118C3), (0x118A4, 0x118C4),
         (0x118A5, 0x118C5), (0x118A6, 0x118C6), (0x118A7, 0x118C7), (0x118A8, 0x118C8), (0x118A9, 0x118C9),
         (0x118AA, 0x118CA), (0x118AB, 0x118CB), (0x118AC, 0x118CC), (0x118AD, 0x118CD), (0x118AE, 0x118CE),
         (0x118AF, 0x118CF), (0x118B0, 0x118D0), (0x118B1, 0x118D1), (0x118B2, 0x118D2), (0x118B3, 0x118D3),
         (0x118B4, 0x118D4), (0x118B5, 0x118D5), (0x118B6, 0x118D6), (0x118B7, 0x118D7), (0x118B8, 0x118D8),
         (0x118B9, 0x118D9), (0x118BA, 0x118DA), (0x118BB, 0x118DB), (0x118BC, 0x118DC), (0x118BD, 0x118DD),
         (0x118BE, 0x118DE), (0x118BF, 0x118DF)]
      else if block = 0x16E then
        [(0x16E40, 0x16E60), (0x16E41, 0x16E61), (0x16E42, 0x16E62), (0x16E43, 0x16E63), (0x16E44, 0x16E64),
         (0x16E45, 0x16E65), (0x16E46, 0x16E66), (0x16E47, 0x16E67), (0x16E48, 0x16E68), (0x16E49, 0x16E69),
         (0x16E4A, 0x16E6A), (0x16E4B, 0x16E6B), (0x16E4C, 0x16E6C), (0x16E4D, 0x16E6D), (0x16E4E, 0x16E6E),
         (0x16E4F, 0x16E6F), (0x16E50, 0x16E70), (0x16E51, 0x16E71), (0x16E52, 0x16E72), (0x16E53, 0x16E73),
         (0x16E54, 0x16E74), (0x16E55, 0x16E75), (0x16E56, 0x16E76), (0x16E57, 0x16E77), (0x16E58, 0x16E78),
         (0x16E59, 0x16E79), (0x16E5A, 0x16E7A), (0x16E5B, 0x16E7B), (0x16E5C, 0x16E7C), (0x16E5D, 0x16E7D),
         (0x16E5E, 0x16E7E), (0x16E5F, 0x16E7F)]
      else if block = 0x1E9 then
        [(0x1E900, 0x1E922), (0x1E901, 0x1E923), (0x1E902, 0x1E924), (0x1E903, 0x1E925), (0x1E904, 0x1E926),
         (0x1E905, 0x1E927), (0x1E906, 0x1E928), (0x1E907, 0x1E929), (0x1E908, 0x1E92A), (0x1E909, 0x1E92B),
         (0x1E90A, 0x1E92C), (0x1E90B, 0x1E92D), (0x1E90C, 0x1E92E), (0x1E90D, 0x1E92F), (0x1E90E, 0x1E930),
         (0x1E90F, 0x1E931), (0x1E910, 0x1E932), (0x1E911, 0x1E933), (0x1E912, 0x1E934), (0x1E913, 0x1E935),
         (0x1E914, 0x1E936), (0x1E915, 0x1E937), (0x1E916, 0x1E938), (0x1E917, 0x1E939), (0x1E918, 0x1E93A),
         (0x1E919, 0x1E93B), (0x1E91A, 0x1E93C), (0x1E91B, 0x1E93D), (0x1E91C, 0x1E93E), (0x1E91D, 0x1E93F),
         (0x1E91E, 0x1E940), (0x1E91F, 0x1E941), (0x1E920, 0x1E942), (0x1E921, 0x1E943)]
      else [])"

text \<open>
  The two properties of the Unicode Character Database that the context of a capital sigma
  is read with, as ranges of code points outside ASCII: the case-ignorable characters, and
  the cased letters that are not case-ignorable.
\<close>

definition case_ignorable_ranges :: "(nat \<times> nat) list" where
  "case_ignorable_ranges =
     [(0xA8, 0xA8), (0xAD, 0xAD), (0xAF, 0xAF), (0xB4, 0xB4), (0xB7, 0xB8),
      (0x2B0, 0x36F), (0x374, 0x375), (0x37A, 0x37A), (0x384, 0x385), (0x387, 0x387),
      (0x483, 0x489), (0x559, 0x559), (0x55F, 0x55F), (0x591, 0x5BD), (0x5BF, 0x5BF),
      (0x5C1, 0x5C2), (0x5C4, 0x5C5), (0x5C7, 0x5C7), (0x5F4, 0x5F4), (0x600, 0x605),
      (0x610, 0x61A), (0x61C, 0x61C), (0x640, 0x640), (0x64B, 0x65F), (0x670, 0x670),
      (0x6D6, 0x6DD), (0x6DF, 0x6E8), (0x6EA, 0x6ED), (0x70F, 0x70F), (0x711, 0x711),
      (0x730, 0x74A), (0x7A6, 0x7B0), (0x7EB, 0x7F5), (0x7FA, 0x7FA), (0x7FD, 0x7FD),
      (0x816, 0x82D), (0x859, 0x85B), (0x888, 0x888), (0x890, 0x891), (0x898, 0x89F),
      (0x8C9, 0x902), (0x93A, 0x93A), (0x93C, 0x93C), (0x941, 0x948), (0x94D, 0x94D),
      (0x951, 0x957), (0x962, 0x963), (0x971, 0x971), (0x981, 0x981), (0x9BC, 0x9BC),
      (0x9C1, 0x9C4), (0x9CD, 0x9CD), (0x9E2, 0x9E3), (0x9FE, 0x9FE), (0xA01, 0xA02),
      (0xA3C, 0xA3C), (0xA41, 0xA42), (0xA47, 0xA48), (0xA4B, 0xA4D), (0xA51, 0xA51),
      (0xA70, 0xA71), (0xA75, 0xA75), (0xA81, 0xA82), (0xABC, 0xABC), (0xAC1, 0xAC5),
      (0xAC7, 0xAC8), (0xACD, 0xACD), (0xAE2, 0xAE3), (0xAFA, 0xAFF), (0xB01, 0xB01),
      (0xB3C, 0xB3C), (0xB3F, 0xB3F), (0xB41, 0xB44), (0xB4D, 0xB4D), (0xB55, 0xB56),
      (0xB62, 0xB63), (0xB82, 0xB82), (0xBC0, 0xBC0), (0xBCD, 0xBCD), (0xC00, 0xC00),
      (0xC04, 0xC04), (0xC3C, 0xC3C), (0xC3E, 0xC40), (0xC46, 0xC48), (0xC4A, 0xC4D),
      (0xC55, 0xC56), (0xC62, 0xC63), (0xC81, 0xC81), (0xCBC, 0xCBC), (0xCBF, 0xCBF),
      (0xCC6, 0xCC6), (0xCCC, 0xCCD), (0xCE2, 0xCE3), (0xD00, 0xD01), (0xD3B, 0xD3C),
      (0xD41, 0xD44), (0xD4D, 0xD4D), (0xD62, 0xD63), (0xD81, 0xD81), (0xDCA, 0xDCA),
      (0xDD2, 0xDD4), (0xDD6, 0xDD6), (0xE31, 0xE31), (0xE34, 0xE3A), (0xE46, 0xE4E),
      (0xEB1, 0xEB1), (0xEB4, 0xEBC), (0xEC6, 0xEC6), (0xEC8, 0xECD), (0xF18, 0xF19),
      (0xF35, 0xF35), (0xF37, 0xF37), (0xF39, 0xF39), (0xF71, 0xF7E), (0xF80, 0xF84),
      (0xF86, 0xF87), (0xF8D, 0xF97), (0xF99, 0xFBC), (0xFC6, 0xFC6), (0x102D, 0x1030),
      (0x1032, 0x1037), (0x1039, 0x103A), (0x103D, 0x103E), (0x1058, 0x1059), (0x105E, 0x1060),
      (0x1071, 0x1074), (0x1082, 0x1082), (0x1085, 0x1086), (0x108D, 0x108D), (0x109D, 0x109D),
      (0x10FC, 0x10FC), (0x135D, 0x135F), (0x1712, 0x1714), (0x1732, 0x1733), (0x1752, 0x1753),
      (0x1772, 0x1773), (0x17B4, 0x17B5), (0x17B7, 0x17BD), (0x17C6, 0x17C6), (0x17C9, 0x17D3),
      (0x17D7, 0x17D7), (0x17DD, 0x17DD), (0x180B, 0x180F), (0x1843, 0x1843), (0x1885, 0x1886),
      (0x18A9, 0x18A9), (0x1920, 0x1922), (0x1927, 0x1928), (0x1932, 0x1932), (0x1939, 0x193B),
      (0x1A17, 0x1A18), (0x1A1B, 0x1A1B), (0x1A56, 0x1A56), (0x1A58, 0x1A5E), (0x1A60, 0x1A60),
      (0x1A62, 0x1A62), (0x1A65, 0x1A6C), (0x1A73, 0x1A7C), (0x1A7F, 0x1A7F), (0x1AA7, 0x1AA7),
      (0x1AB0, 0x1ACE), (0x1B00, 0x1B03), (0x1B34, 0x1B34), (0x1B36, 0x1B3A), (0x1B3C, 0x1B3C),
      (0x1B42, 0x1B42), (0x1B6B, 0x1B73), (0x1B80, 0x1B81), (0x1BA2, 0x1BA5), (0x1BA8, 0x1BA9),
      (0x1BAB, 0x1BAD), (0x1BE6, 0x1BE6), (0x1BE8, 0x1BE9), (0x1BED, 0x1BED), (0x1BEF, 0x1BF1),
      (0x1C2C, 0x1C33), (0x1C36, 0x1C37), (0x1C78, 0x1C7D), (0x1CD0, 0x1CD2), (0x1CD4, 0x1CE0),
      (0x1CE2, 0x1CE8), (0x1CED, 0x1CED), (0x1CF4, 0x1CF4), (0x1CF8, 0x1CF9), (0x1D2C, 0x1D6A),
      (0x1D78, 0x1D78), (0x1D9B, 0x1DFF), (0x1FBD, 0x1FBD), (0x1FBF, 0x1FC1), (0x1FCD, 0x1FCF),
      (0x1FDD, 0x1FDF), (0x1FED, 0x1FEF), (0x1FFD, 0x1FFE), (0x200B, 0x200F), (0x2018, 0x2019),
      (0x2024, 0x2024), (0x2027, 0x2027), (0x202A, 0x202E), (0x2060, 0x2064), (0x2066, 0x206F),
      (0x2071, 0x2071), (0x207F, 0x207F), (0x2090, 0x209C), (0x20D0, 0x20F0), (0x2C7C, 0x2C7D),
      (0x2CEF, 0x2CF1), (0x2D6F, 0x2D6F), (0x2D7F, 0x2D7F), (0x2DE0, 0x2DFF), (0x2E2F, 0x2E2F),
      (0x3005, 0x3005), (0x302A, 0x302D), (0x3031, 0x3035), (0x303B, 0x303B), (0x3099, 0x309E),
      (0x30FC, 0x30FE), (0xA015, 0xA015), (0xA4F8, 0xA4FD), (0xA60C, 0xA60C), (0xA66F, 0xA672),
      (0xA674, 0xA67D), (0xA67F, 0xA67F), (0xA69C, 0xA69F), (0xA6F0, 0xA6F1), (0xA700, 0xA721),
      (0xA770, 0xA770), (0xA788, 0xA78A), (0xA7F2, 0xA7F4), (0xA7F8, 0xA7F9), (0xA802, 0xA802),
      (0xA806, 0xA806), (0xA80B, 0xA80B), (0xA825, 0xA826), (0xA82C, 0xA82C), (0xA8C4, 0xA8C5),
      (0xA8E0, 0xA8F1), (0xA8FF, 0xA8FF), (0xA926, 0xA92D), (0xA947, 0xA951), (0xA980, 0xA982),
      (0xA9B3, 0xA9B3), (0xA9B6, 0xA9B9), (0xA9BC, 0xA9BD), (0xA9CF, 0xA9CF), (0xA9E5, 0xA9E6),
      (0xAA29, 0xAA2E), (0xAA31, 0xAA32), (0xAA35, 0xAA36), (0xAA43, 0xAA43), (0xAA4C, 0xAA4C),
      (0xAA70, 0xAA70), (0xAA7C, 0xAA7C), (0xAAB0, 0xAAB0), (0xAAB2, 0xAAB4), (0xAAB7, 0xAAB8),
      (0xAABE, 0xAABF), (0xAAC1, 0xAAC1), (0xAADD, 0xAADD), (0xAAEC, 0xAAED), (0xAAF3, 0xAAF4),
      (0xAAF6, 0xAAF6), (0xAB5B, 0xAB5F), (0xAB69, 0xAB6B), (0xABE5, 0xABE5), (0xABE8, 0xABE8),
      (0xABED, 0xABED), (0xFB1E, 0xFB1E), (0xFBB2, 0xFBC2), (0xFE00, 0xFE0F), (0xFE13, 0xFE13),
      (0xFE20, 0xFE2F), (0xFE52, 0xFE52), (0xFE55, 0xFE55), (0xFEFF, 0xFEFF), (0xFF07, 0xFF07),
      (0xFF0E, 0xFF0E), (0xFF1A, 0xFF1A), (0xFF3E, 0xFF3E), (0xFF40, 0xFF40), (0xFF70, 0xFF70),
      (0xFF9E, 0xFF9F), (0xFFE3, 0xFFE3), (0xFFF9, 0xFFFB), (0x101FD, 0x101FD), (0x102E0, 0x102E0),
      (0x10376, 0x1037A), (0x10780, 0x10785), (0x10787, 0x107B0), (0x107B2, 0x107BA), (0x10A01, 0x10A03),
      (0x10A05, 0x10A06), (0x10A0C, 0x10A0F), (0x10A38, 0x10A3A), (0x10A3F, 0x10A3F), (0x10AE5, 0x10AE6),
      (0x10D24, 0x10D27), (0x10EAB, 0x10EAC), (0x10F46, 0x10F50), (0x10F82, 0x10F85), (0x11001, 0x11001),
      (0x11038, 0x11046), (0x11070, 0x11070), (0x11073, 0x11074), (0x1107F, 0x11081), (0x110B3, 0x110B6),
      (0x110B9, 0x110BA), (0x110BD, 0x110BD), (0x110C2, 0x110C2), (0x110CD, 0x110CD), (0x11100, 0x11102),
      (0x11127, 0x1112B), (0x1112D, 0x11134), (0x11173, 0x11173), (0x11180, 0x11181), (0x111B6, 0x111BE),
      (0x111C9, 0x111CC), (0x111CF, 0x111CF), (0x1122F, 0x11231), (0x11234, 0x11234), (0x11236, 0x11237),
      (0x1123E, 0x1123E), (0x112DF, 0x112DF), (0x112E3, 0x112EA), (0x11300, 0x11301), (0x1133B, 0x1133C),
      (0x11340, 0x11340), (0x11366, 0x1136C), (0x11370, 0x11374), (0x11438, 0x1143F), (0x11442, 0x11444),
      (0x11446, 0x11446), (0x1145E, 0x1145E), (0x114B3, 0x114B8), (0x114BA, 0x114BA), (0x114BF, 0x114C0),
      (0x114C2, 0x114C3), (0x115B2, 0x115B5), (0x115BC, 0x115BD), (0x115BF, 0x115C0), (0x115DC, 0x115DD),
      (0x11633, 0x1163A), (0x1163D, 0x1163D), (0x1163F, 0x11640), (0x116AB, 0x116AB), (0x116AD, 0x116AD),
      (0x116B0, 0x116B5), (0x116B7, 0x116B7), (0x1171D, 0x1171F), (0x11722, 0x11725), (0x11727, 0x1172B),
      (0x1182F, 0x11837), (0x11839, 0x1183A), (0x1193B, 0x1193C), (0x1193E, 0x1193E), (0x11943, 0x11943),
      (0x119D4, 0x119D7), (0x119DA, 0x119DB), (0x119E0, 0x119E0), (0x11A01, 0x11A0A), (0x11A33, 0x11A38),
      (0x11A3B, 0x11A3E), (0x11A47, 0x11A47), (0x11A51, 0x11A56), (0x11A59, 0x11A5B), (0x11A8A, 0x11A96),
      (0x11A98, 0x11A99), (0x11C30, 0x11C36), (0x11C38, 0x11C3D), (0x11C3F, 0x11C3F), (0x11C92, 0x11CA7),
      (0x11CAA, 0x11CB0), (0x11CB2, 0x11CB3), (0x11CB5, 0x11CB6), (0x11D31, 0x11D36), (0x11D3A, 0x11D3A),
      (0x11D3C, 0x11D3D), (0x11D3F, 0x11D45), (0x11D47, 0x11D47), (0x11D90, 0x11D91), (0x11D95, 0x11D95),
      (0x11D97, 0x11D97), (0x11EF3, 0x11EF4), (0x13430, 0x13438), (0x16AF0, 0x16AF4), (0x16B30, 0x16B36),
      (0x16B40, 0x16B43), (0x16F4F, 0x16F4F), (0x16F8F, 0x16F9F), (0x16FE0, 0x16FE1), (0x16FE3, 0x16FE4),
      (0x1AFF0, 0x1AFF3), (0x1AFF5, 0x1AFFB), (0x1AFFD, 0x1AFFE), (0x1BC9D, 0x1BC9E), (0x1BCA0, 0x1BCA3),
      (0x1CF00, 0x1CF2D), (0x1CF30, 0x1CF46), (0x1D167, 0x1D169), (0x1D173, 0x1D182), (0x1D185, 0x1D18B),
      (0x1D1AA, 0x1D1AD), (0x1D242, 0x1D244), (0x1DA00, 0x1DA36), (0x1DA3B, 0x1DA6C), (0x1DA75, 0x1DA75),
      (0x1DA84, 0x1DA84), (0x1DA9B, 0x1DA9F), (0x1DAA1, 0x1DAAF), (0x1E000, 0x1E006), (0x1E008, 0x1E018),
      (0x1E01B, 0x1E021), (0x1E023, 0x1E024), (0x1E026, 0x1E02A), (0x1E130, 0x1E13D), (0x1E2AE, 0x1E2AE),
      (0x1E2EC, 0x1E2EF), (0x1E8D0, 0x1E8D6), (0x1E944, 0x1E94B), (0x1F3FB, 0x1F3FF), (0xE0001, 0xE0001),
      (0xE0020, 0xE007F), (0xE0100, 0xE01EF)]"

definition cased_ranges :: "(nat \<times> nat) list" where
  "cased_ranges =
     [(0xAA, 0xAA), (0xB5, 0xB5), (0xBA, 0xBA), (0xC0, 0xD6), (0xD8, 0xF6),
      (0xF8, 0x1BA), (0x1BC, 0x1BF), (0x1C4, 0x293), (0x295, 0x2AF), (0x370, 0x373),
      (0x376, 0x377), (0x37B, 0x37D), (0x37F, 0x37F), (0x386, 0x386), (0x388, 0x38A),
      (0x38C, 0x38C), (0x38E, 0x3A1), (0x3A3, 0x3F5), (0x3F7, 0x481), (0x48A, 0x52F),
      (0x531, 0x556), (0x560, 0x588), (0x10A0, 0x10C5), (0x10C7, 0x10C7), (0x10CD, 0x10CD),
      (0x10D0, 0x10FA), (0x10FD, 0x10FF), (0x13A0, 0x13F5), (0x13F8, 0x13FD), (0x1C80, 0x1C88),
      (0x1C90, 0x1CBA), (0x1CBD, 0x1CBF), (0x1D00, 0x1D2B), (0x1D6B, 0x1D77), (0x1D79, 0x1D9A),
      (0x1E00, 0x1F15), (0x1F18, 0x1F1D), (0x1F20, 0x1F45), (0x1F48, 0x1F4D), (0x1F50, 0x1F57),
      (0x1F59, 0x1F59), (0x1F5B, 0x1F5B), (0x1F5D, 0x1F5D), (0x1F5F, 0x1F7D), (0x1F80, 0x1FB4),
      (0x1FB6, 0x1FBC), (0x1FBE, 0x1FBE), (0x1FC2, 0x1FC4), (0x1FC6, 0x1FCC), (0x1FD0, 0x1FD3),
      (0x1FD6, 0x1FDB), (0x1FE0, 0x1FEC), (0x1FF2, 0x1FF4), (0x1FF6, 0x1FFC), (0x2102, 0x2102),
      (0x2107, 0x2107), (0x210A, 0x2113), (0x2115, 0x2115), (0x2119, 0x211D), (0x2124, 0x2124),
      (0x2126, 0x2126), (0x2128, 0x2128), (0x212A, 0x212D), (0x212F, 0x2134), (0x2139, 0x2139),
      (0x213C, 0x213F), (0x2145, 0x2149), (0x214E, 0x214E), (0x2160, 0x217F), (0x2183, 0x2184),
      (0x24B6, 0x24E9), (0x2C00, 0x2C7B), (0x2C7E, 0x2CE4), (0x2CEB, 0x2CEE), (0x2CF2, 0x2CF3),
      (0x2D00, 0x2D25), (0x2D27, 0x2D27), (0x2D2D, 0x2D2D), (0xA640, 0xA66D), (0xA680, 0xA69B),
      (0xA722, 0xA76F), (0xA771, 0xA787), (0xA78B, 0xA78E), (0xA790, 0xA7CA), (0xA7D0, 0xA7D1),
      (0xA7D3, 0xA7D3), (0xA7D5, 0xA7D9), (0xA7F5, 0xA7F6), (0xA7FA, 0xA7FA), (0xAB30, 0xAB5A),
      (0xAB60, 0xAB68), (0xAB70, 0xABBF), (0xFB00, 0xFB06), (0xFB13, 0xFB17), (0xFF21, 0xFF3A),
      (0xFF41, 0xFF5A), (0x10400, 0x1044F), (0x104B0, 0x104D3), (0x104D8, 0x104FB), (0x10570, 0x1057A),
      (0x1057C, 0x1058A), (0x1058C, 0x10592), (0x10594, 0x10595), (0x10597, 0x105A1), (0x105A3, 0x105B1),
      (0x105B3, 0x105B9), (0x105BB, 0x105BC), (0x10C80, 0x10CB2), (0x10CC0, 0x10CF2), (0x118A0, 0x118DF),
      (0x16E40, 0x16E7F), (0x1D400, 0x1D454), (0x1D456, 0x1D49C), (0x1D49E, 0x1D49F), (0x1D4A2, 0x1D4A2),
      (0x1D4A5, 0x1D4A6), (0x1D4A9, 0x1D4AC), (0x1D4AE, 0x1D4B9), (0x1D4BB, 0x1D4BB), (0x1D4BD, 0x1D4C3),
      (0x1D4C5, 0x1D505), (0x1D507, 0x1D50A), (0x1D50D, 0x1D514), (0x1D516, 0x1D51C), (0x1D51E, 0x1D539),
      (0x1D53B, 0x1D53E), (0x1D540, 0x1D544), (0x1D546, 0x1D546), (0x1D54A, 0x1D550), (0x1D552, 0x1D6A5),
      (0x1D6A8, 0x1D6C0), (0x1D6C2, 0x1D6DA), (0x1D6DC, 0x1D6FA), (0x1D6FC, 0x1D714), (0x1D716, 0x1D734),
      (0x1D736, 0x1D74E), (0x1D750, 0x1D76E), (0x1D770, 0x1D788), (0x1D78A, 0x1D7A8), (0x1D7AA, 0x1D7C2),
      (0x1D7C4, 0x1D7CB), (0x1DF00, 0x1DF09), (0x1DF0B, 0x1DF1E), (0x1E900, 0x1E943), (0x1F130, 0x1F149),
      (0x1F150, 0x1F169), (0x1F170, 0x1F189)]"

text \<open>
  \<open>String.prototype.toLowerCase\<close> is the lower-case mapping of Unicode, character by
  character: \<open>A\<close>..\<open>Z\<close> become \<open>a\<close>..\<open>z\<close>, a character of the table above becomes its
  lower-case form, the capital I with dot above U+0130 becomes \<open>i\<close> followed by the
  combining dot above U+0307, and every other character is kept, as is a sequence of bytes
  that is no character. The one rule that reads the context is that of the capital sigma
  U+03A3: it becomes the final small sigma U+03C2 when a cased letter stands before it and
  none after it, case-ignorable characters skipped on either side, and the small sigma
  U+03C3 otherwise.
\<close>

definition is_upper :: "char \<Rightarrow> bool" where
  "is_upper c = (65 \<le> (of_char c :: nat) \<and> (of_char c :: nat) \<le> 90)"

definition lower_char :: "char \<Rightarrow> char" where
  "lower_char c = (if is_upper c then char_of ((of_char c :: nat) + 32) else c)"

definition lower_code :: "nat \<Rightarrow> nat list" where
  "lower_code n =
     (if n = 0x130 then [0x69, 0x307]
      else case map_of (lower_pairs (n div 256)) n of Some l \<Rightarrow> [l] | None \<Rightarrow> [n])"

definition lower_char_of :: "string \<Rightarrow> string" where
  "lower_char_of ch =
     (case utf8_decode ch of
        None \<Rightarrow> ch
      | Some n \<Rightarrow> if n < 128 then map lower_char ch else concat (map utf8_encode (lower_code n)))"

definition in_ranges :: "(nat \<times> nat) list \<Rightarrow> nat \<Rightarrow> bool" where
  "in_ranges rs n = list_ex (\<lambda>(lo, hi). lo \<le> n \<and> n \<le> hi) rs"

definition case_ignorable :: "string \<Rightarrow> bool" where
  "case_ignorable ch =
     (case utf8_decode ch of
        None \<Rightarrow> False
      | Some n \<Rightarrow> if n < 128 then n \<in> {0x27, 0x2E, 0x3A, 0x5E, 0x60} else in_ranges case_ignorable_ranges n)"

definition cased :: "string \<Rightarrow> bool" where
  "cased ch =
     (case utf8_decode ch of
        None \<Rightarrow> False
      | Some n \<Rightarrow>
          if n < 128 then (0x41 \<le> n \<and> n \<le> 0x5A) \<or> (0x61 \<le> n \<and> n \<le> 0x7A)
          else in_ranges cased_ranges n)"

fun followed_by_cased :: "string list \<Rightarrow> bool" where
  "followed_by_cased [] = False"
| "followed_by_cased (ch # chs) = (if case_ignorable ch then followed_by_cased chs else cased ch)"

definition capital_sigma :: string where
  "capital_sigma = [CHR 0xCE, CHR 0xA3]"

definition small_sigma :: string where
  "small_sigma = [CHR 0xCF, CHR 0x83]"

definition final_sigma :: string where
  "final_sigma = [CHR 0xCF, CHR 0x82]"

fun lower_chars :: "bool \<Rightarrow> string list \<Rightarrow> string" where
  "lower_chars after_cased [] = []"
| "lower_chars after_cased (ch # chs) =
     (if ch = capital_sigma
      then (if after_cased \<and> \<not> followed_by_cased chs then final_sigma else small_sigma)
      else lower_char_of ch) @
     lower_chars (if case_ignorable ch then after_cased else cased ch) chs"

definition toLowerCase :: "string \<Rightarrow> string" where
  "toLowerCase s = lower_chars False (utf8_chars s)"

text \<open>
  \<open>String.prototype.trim\<close> removes white space and line terminators from both ends: tab, line
  feed, vertical tab, form feed, carriage return, space, the no-break space U+00A0, U+1680,
  U+2000 to U+200A, the line and paragraph separators U+2028 and U+2029, U+202F, U+205F,
  U+3000 and the byte order mark U+FEFF, here in UTF-8.
\<close>

definition white_space :: "string list" where
  "white_space =
     [[CHR 0x09], [CHR 0x0A], [CHR 0x0B], [CHR 0x0C], [CHR 0x0D], [CHR 0x20],
      [CHR 0xC2, CHR 0xA0], [CHR 0xE1, CHR 0x9A, CHR 0x80],
      [CHR 0xE2, CHR 0x80, CHR 0x80], [CHR 0xE2, CHR 0x80, CHR 0x81], [CHR 0xE2, CHR 0x80, CHR 0x82],
      [CHR 0xE2, CHR 0x80, CHR 0x83], [CHR 0xE2, CHR 0x80, CHR 0x84], [CHR 0xE2, CHR 0x80, CHR 0x85],
      [CHR 0xE2, CHR 0x80, CHR 0x86], [CHR 0xE2, CHR 0x80, CHR 0x87], [CHR 0xE2, CHR 0x80, CHR 0x88],
      [CHR 0xE2, CHR 0x80, CHR 0x89], [CHR 0xE2, CHR 0x80, CHR 0x8A],
      [CHR 0xE2, CHR 0x80, CHR 0xA8], [CHR 0xE2, CHR 0x80, CHR 0xA9], [CHR 0xE2, CHR 0x80, CHR 0xAF],
      [CHR 0xE2, CHR 0x81, CHR 0x9F], [CHR 0xE3, CHR 0x80, CHR 0x80], [CHR 0xEF, CHR 0xBB, CHR 0xBF]]"

function strip_leading :: "string list \<Rightarrow> string \<Rightarrow> string" where
  "strip_leading seqs s =
     (case find (\<lambda>ws. ws \<noteq> [] \<and> startsWith s ws) seqs of
        None \<Rightarrow> s
      | Some ws \<Rightarrow> strip_leading seqs (drop (length ws) s))"
  by pat_completeness auto
termination
proof (relation "measure (\<lambda>(seqs, s). length s)")
  show "wf (measure (\<lambda>(seqs, s). length s))"
    by simp
next
  fix seqs :: "string list" and s ws :: string
  assume "find (\<lambda>ws. ws \<noteq> [] \<and> startsWith s ws) seqs = Some ws"
  then have "ws \<noteq> []" and "take (length ws) s = ws"
    by (auto simp: find_Some_iff startsWith_def)
  then have "s \<noteq> []" and "0 < length ws"
    by auto
  then show "((seqs, drop (length ws) s), (seqs, s)) \<in> measure (\<lambda>(seqs, s). length s)"
    by simp
qed

definition trimStart :: "string \<Rightarrow> string" where
  "trimStart s = strip_leading white_space s"

definition trimEnd :: "string \<Rightarrow> string" where
  "trimEnd s = rev (strip_leading (map rev white_space) (rev s))"

definition trim :: "string \<Rightarrow> string" where
  "trim s = trimEnd (trimStart s)"

text \<open>\<open>filename.split(".").pop()\<close>: the part after the last dot, the whole name when there is none.\<close>

definition last_segment :: "string \<Rightarrow> string" where
  "last_segment s = rev (takeWhile (\<lambda>c. c \<noteq> CHR ''.'') (rev s))"

text \<open>
  \<open>s.replace(/PAT\n?/g, "")\<close> for a literal, non-empty \<open>PAT\<close>: every occurrence of \<open>PAT\<close>,
  found from left to right and together with one line feed directly after it, is removed.
\<close>

function remove_fence :: "string \<Rightarrow> string \<Rightarrow> string" where
  "remove_fence pat s =
     (if s = [] then []
      else if pat \<noteq> [] \<and> startsWith s pat then
        remove_fence pat
          (case drop (length pat) s of
             [] \<Rightarrow> []
           | c # r \<Rightarrow> if c = CHR 0x0A then r else c # r)
      else hd s # remove_fence pat (tl s))"
  by pat_completeness auto
termination
proof (relation "measure (\<lambda>(pat, s). length s)")
  show "wf (measure (\<lambda>(pat, s). length s))"
    by simp
next
  fix pat s :: string
  assume "s \<noteq> []" and "pat \<noteq> [] \<and> startsWith s pat"
  then have "length (drop (length pat) s) < length s"
    by (cases pat) auto
  moreover have "length (case drop (length pat) s of [] \<Rightarrow> [] | c # r \<Rightarrow> if c = CHR 0x0A then r else c # r)
      \<le> length (drop (length pat) s)"
    by (cases "drop (length pat) s") auto
  ultimately show "((pat, case drop (length pat) s of [] \<Rightarrow> [] | c # r \<Rightarrow> if c = CHR 0x0A then r else c # r), (pat, s))
      \<in> measure (\<lambda>(pat, s). length s)"
    by simp
next
  fix pat s :: string
  assume "s \<noteq> []"
  then show "((pat, tl s), (pat, s)) \<in> measure (\<lambda>(pat, s). length s)"
    by (cases s) auto
qed

definition fence_json :: string where
  "fence_json = ''```json''"

definition fence :: string where
  "fence = ''```''"

text \<open>
  The clean-up of \<open>generateQuizWith...\<close> and \<open>generateScheduleWith...\<close>, applied to the
  trimmed text.
\<close>

definition clean_fences :: "string \<Rightarrow> string" where
  "clean_fences text =
     (if startsWith text fence_json then trim (remove_fence fence (remove_fence fence_json text))
      else if startsWith text fence then trim (remove_fence fence text)
      else text)"

section \<open>JavaScript values\<close>

text \<open>
  Values that come out of \<open>JSON.parse\<close>, a request body or an SDK response. \<open>JHost\<close> stands
  for a built-in object that JSON cannot express (a function or a prototype object); it is
  named by a string. In \<open>JObj\<close> the first binding of a key is the property's value.
\<close>

datatype jsval =
    JUndefined
  | JNull
  | JBool bool
  | JNum rat
  | JStr string
  | JArr "jsval list"
  | JObj "(string \<times> jsval) list"
  | JHost string

text \<open>
  A thrown value: an instance of \<open>Error\<close> with its message, or anything else. The message
  texts of engine-raised errors are those of V8.
\<close>

datatype error = Error string | NonError

fun truthy :: "jsval \<Rightarrow> bool" where
  "truthy JUndefined = False"
| "truthy JNull = False"
| "truthy (JBool b) = b"
| "truthy (JNum n) = (n \<noteq> 0)"
| "truthy (JStr s) = (s \<noteq> [])"
| "truthy (JArr xs) = True"
| "truthy (JObj kvs) = True"
| "truthy (JHost h) = True"

text \<open>\<open>a || b\<close>\<close>

definition js_or :: "jsval \<Rightarrow> jsval \<Rightarrow> jsval" where
  "js_or a b = (if truthy a then a else b)"

text \<open>
  \<open>v.key\<close> for the property names this program reads (none of them is defined on a built-in
  prototype, \<open>length\<close> apart): a read on \<open>undefined\<close> or \<open>null\<close> throws a \<open>TypeError\<close>.
\<close>

fun js_get :: "jsval \<Rightarrow> string \<Rightarrow> error + jsval" where
  "js_get JUndefined k = Inl (Error (''Cannot read properties of undefined (reading '' @ [CHR 0x27] @ k @ [CHR 0x27] @ '')''))"
| "js_get JNull k = Inl (Error (''Cannot read properties of null (reading '' @ [CHR 0x27] @ k @ [CHR 0x27] @ '')''))"
| "js_get (JObj kvs) k = Inr (case map_of kvs k of Some v \<Rightarrow> v | None \<Rightarrow> JUndefined)"
| "js_get (JArr xs) k = Inr (if k = ''length'' then JNum (of_nat (length xs)) else JUndefined)"
| "js_get (JStr s) k = Inr (if k = ''length'' then JNum (of_nat (length s)) else JUndefined)"
| "js_get v k = Inr JUndefined"

text \<open>\<open>v?.key\<close>\<close>

definition js_get_opt :: "jsval \<Rightarrow> string \<Rightarrow> jsval" where
  "js_get_opt v k = (case js_get v k of Inl e \<Rightarrow> JUndefined | Inr x \<Rightarrow> x)"

text \<open>\<open>v[0]\<close>\<close>

fun js_first :: "jsval \<Rightarrow> error + jsval" where
  "js_first JUndefined = Inl (Error ''Cannot read properties of undefined (reading '0')'')"
| "js_first JNull = Inl (Error ''Cannot read properties of null (reading '0')'')"
| "js_first (JArr xs) = Inr (case xs of [] \<Rightarrow> JUndefined | x # _ \<Rightarrow> x)"
| "js_first (JObj kvs) = Inr (case map_of kvs ''0'' of Some v \<Rightarrow> v | None \<Rightarrow> JUndefined)"
| "js_first (JStr s) = Inr (case s of [] \<Rightarrow> JUndefined | c # _ \<Rightarrow> JStr [c])"
| "js_first v = Inr JUndefined"

text \<open>
  \<open>ToString\<close>, which a template literal applies to each substitution. The rendering of a
  number is the parameter \<open>nf\<close>. An array joins its elements with commas, \<open>null\<close> and
  \<open>undefined\<close> elements as the empty string. A parsed object with a property of its own
  called \<open>toString\<close> has no callable \<open>toString\<close>, and the inherited \<open>valueOf\<close> returns the
  object itself, so the conversion throws a \<open>TypeError\<close>; any other object is
  \<open>[object Object]\<close>.
\<close>

fun join_with :: "string \<Rightarrow> string list \<Rightarrow> string" where
  "join_with sep [] = []"
| "join_with sep [x] = x"
| "join_with sep (x # y # ys) = x @ sep @ join_with sep (y # ys)"

fun sequence :: "(error + 'a) list \<Rightarrow> error + 'a list" where
  "sequence [] = Inr []"
| "sequence (x # xs) =
     (case x of
        Inl e \<Rightarrow> Inl e
      | Inr v \<Rightarrow> (case sequence xs of Inl e \<Rightarrow> Inl e | Inr vs \<Rightarrow> Inr (v # vs)))"

fun js_ToString :: "(rat \<Rightarrow> string) \<Rightarrow> jsval \<Rightarrow> error + string" where
  "js_ToString nf JUndefined = Inr ''undefined''"
| "js_ToString nf JNull = Inr ''null''"
| "js_ToString nf (JBool b) = Inr (if b then ''true'' else ''false'')"
| "js_ToString nf (JNum n) = Inr (nf n)"
| "js_ToString nf (JStr s) = Inr s"
| "js_ToString nf (JArr xs) =
     (case sequence (map (\<lambda>x. if x = JUndefined \<or> x = JNull then Inr [] else js_ToString nf x) xs) of
        Inl e \<Rightarrow> Inl e
      | Inr ss \<Rightarrow> Inr (join_with '','' ss))"
| "js_ToString nf (JObj kvs) =
     (if map_of kvs ''toString'' \<noteq> None then Inl (Error ''Cannot convert object to primitive value'')
      else Inr ''[object Object]'')"
| "js_ToString nf (JHost h) = Inr h"


section \<open>The environment\<close>

text \<open>
  Everything the program reads from outside is a field of one record: the process
  environment, the clock, the built-in functions of the language that are not modelled
  here (\<open>JSON.parse\<close>, \<open>JSON.stringify\<close>, the rendering of a number, \<open>encodeURIComponent\<close>),
  the SDK calls of the three chat providers, the mail service, \<open>fetch\<close>, and whether a call
  of the agent store rejects. An SDK call answers with the part of its typed response that
  the program reads, or throws; model names and generation settings are constants of the
  request and are left out. Characters outside ASCII stand as their UTF-8 bytes.
\<close>

datatype role = System | User | Assistant

record Message =
  msg_role :: role
  msg_content :: string

record ChatResponse =
  content :: string
  provider :: string

datatype content_block = TextBlock string | OtherBlock

record http_response =
  ok :: bool
  statusText :: string
  json_body :: "error + jsval"

datatype storage_call = GetAgent | UpdateAgentStatus string | UpdateAgentMetrics | CreateAgentExecutionLog

record world =
  env :: "string \<Rightarrow> string option"
  now :: nat
  isoNow :: string
  num_format :: "rat \<Rightarrow> string"
  JSON_parse :: "string \<Rightarrow> error + jsval"
  JSON_stringify :: "jsval \<Rightarrow> string"
  encodeURIComponent :: "string \<Rightarrow> error + string"
  gemini_sendMessage :: "(string \<times> string) list \<Rightarrow> string \<Rightarrow> error + string"
  gemini_generateContent :: "string \<Rightarrow> error + string"
  openai_create :: "Message list \<Rightarrow> error + string option list"
  anthropic_create :: "string \<Rightarrow> Message list \<Rightarrow> error + content_block list"
  sendEmail :: "jsval \<Rightarrow> jsval \<Rightarrow> jsval \<Rightarrow> error + bool"
  fetch :: "string \<Rightarrow> error + http_response"
  storage_rejects :: "storage_call \<Rightarrow> error option"

text \<open>\<open>try { body } catch (error) { handler }\<close> and the sequencing of steps that may throw.\<close>

definition try_catch :: "error + 'a \<Rightarrow> (error \<Rightarrow> error + 'a) \<Rightarrow> error + 'a" where
  "try_catch body handler = (case body of Inl e \<Rightarrow> handler e | Inr v \<Rightarrow> Inr v)"

definition and_then :: "error + 'a \<Rightarrow> ('a \<Rightarrow> error + 'b) \<Rightarrow> error + 'b" where
  "and_then m f = (case m of Inl e \<Rightarrow> Inl e | Inr v \<Rightarrow> f v)"

text \<open>\<open>error instanceof Error ? error.message : dflt\<close>\<close>

definition error_message :: "error \<Rightarrow> string \<Rightarrow> string" where
  "error_message e dflt = (case e of Error m \<Rightarrow> m | NonError \<Rightarrow> dflt)"

section \<open>LLMProvider\<close>

text \<open>An environment variable counts as configured when it is set to a non-empty string.\<close>

definition configured :: "world \<Rightarrow> string \<Rightarrow> bool" where
  "configured w k = (case env w k of Some v \<Rightarrow> v \<noteq> [] | None \<Rightarrow> False)"

definition detectProvider :: "world \<Rightarrow> string" where
  "detectProvider w =
     (if configured w ''GEMINI_API_KEY'' then ''gemini''
      else if configured w ''OPENAI_API_KEY'' then ''openai''
      else if configured w ''ANTHROPIC_API_KEY'' then ''anthropic''
      else ''mock'')"

record LLMProvider =
  this_provider :: string

text \<open>The constructor, run once when the module is loaded.\<close>

definition new_LLMProvider :: "world \<Rightarrow> LLMProvider" where
  "new_LLMProvider w = \<lparr>this_provider = detectProvider w\<rparr>"

definition mockChat_response :: string where
  \<open>mockChat_response =
    ''**Summary**\<newline>'' @
    ''Running in mock mode (no LLM API configured). Limited responses available.\<newline>'' @
    ''\<newline>**Key Points**\<newline>'' @ [CHR 0xE2, CHR 0x80, CHR 0xA2] @
    '' Configure GEMINI_API_KEY for Google Gemini 2.0\<newline>'' @ [CHR 0xE2, CHR 0x80, CHR 0xA2] @
    '' Configure OPENAI_API_KEY for GPT-3.5 access\<newline>'' @ [CHR 0xE2, CHR 0x80, CHR 0xA2] @
    '' Configure ANTHROPIC_API_KEY for Claude access\<newline>\<newline>'' @
    ''**Recommended Action**\<newline>'' @
    ''Add an API key to environment variables for intelligent AI responses.''\<close>

definition mockChat :: "Message list \<Rightarrow> ChatResponse" where
  "mockChat messages = \<lparr>content = mockChat_response, provider = ''mock''\<rparr>"

definition concise_instructions :: string where
  \<open>concise_instructions =
    ''\<newline>\<newline>'' @
    ''IMPORTANT: Provide only the essential answer in under 120 words. Format your response in three sections:\<newline>'' @
    ''1. **Summary** (1-2 sentences)\<newline>'' @
    ''2. **Key Points** (bullet list, 3 items or fewer)\<newline>'' @
    ''3. **Recommended Action** (optional, only when relevant)\<newline>\<newline>'' @
    ''Omit internal reasoning and verbose explanations. Be concise and focused.''\<close>

definition chatWithGemini :: "world \<Rightarrow> Message list \<Rightarrow> error + ChatResponse" where
  "chatWithGemini w messages =
     try_catch
       (let systemMessage = (case find (\<lambda>m. msg_role m = System) messages of
                               Some m \<Rightarrow> msg_content m | None \<Rightarrow> []);
            userMessages = filter (\<lambda>m. msg_role m \<noteq> System) messages;
            enhancedSystemPrompt = systemMessage @ concise_instructions;
            chatHistory = map (\<lambda>msg. (if msg_role msg = User then ''user'' else ''model'', msg_content msg))
                            (butlast userMessages);
            lastUserMessage = (if userMessages = [] then [] else msg_content (last userMessages));
            fullPrompt = (if chatHistory = []
                          then enhancedSystemPrompt @ ''\<newline>\<newline>User: '' @ lastUserMessage
                          else lastUserMessage)
        in and_then (gemini_sendMessage w chatHistory fullPrompt)
             (\<lambda>text. Inr \<lparr>content = text, provider = ''gemini''\<rparr>))
       (\<lambda>error. Inr (mockChat messages))"

text \<open>\<open>response.choices[0]?.message?.content || dflt\<close>\<close>

definition first_choice_or :: "string option list \<Rightarrow> string \<Rightarrow> string" where
  "first_choice_or choices dflt =
     (case choices of Some c # _ \<Rightarrow> if c \<noteq> [] then c else dflt | _ \<Rightarrow> dflt)"

definition chatWithOpenAI :: "world \<Rightarrow> Message list \<Rightarrow> error + ChatResponse" where
  "chatWithOpenAI w messages =
     try_catch
       (let enhancedMessages =
              map (\<lambda>msg. if msg_role msg = System
                          then msg\<lparr>msg_content := msg_content msg @ concise_instructions\<rparr>
                          else msg) messages
        in and_then (openai_create w enhancedMessages)
             (\<lambda>choices. Inr \<lparr>content = first_choice_or choices ''No response'',
                               provider = ''openai''\<rparr>))
       (\<lambda>error. Inr (mockChat messages))"

definition chatWithAnthropic :: "world \<Rightarrow> Message list \<Rightarrow> error + ChatResponse" where
  "chatWithAnthropic w messages =
     try_catch
       (let systemMessage = (case find (\<lambda>m. msg_role m = System) messages of
                               Some m \<Rightarrow> msg_content m | None \<Rightarrow> []) @ concise_instructions;
            userMessages = filter (\<lambda>m. msg_role m \<noteq> System) messages
        in and_then (anthropic_create w systemMessage userMessages)
             (\<lambda>blocks. case blocks of
                          [] \<Rightarrow> Inl (Error ''Cannot read properties of undefined (reading 'type')'')
                        | TextBlock t # _ \<Rightarrow> Inr \<lparr>content = t, provider = ''anthropic''\<rparr>
                        | OtherBlock # _ \<Rightarrow> Inr \<lparr>content = ''No response'', provider = ''anthropic''\<rparr>))
       (\<lambda>error. Inr (mockChat messages))"

definition chat :: "LLMProvider \<Rightarrow> world \<Rightarrow> Message list \<Rightarrow> error + ChatResponse" where
  "chat this w messages =
     (if this_provider this = ''gemini'' \<and> configured w ''GEMINI_API_KEY'' then chatWithGemini w messages
      else if this_provider this = ''openai'' \<and> configured w ''OPENAI_API_KEY'' then chatWithOpenAI w messages
      else if this_provider this = ''anthropic'' \<and> configured w ''ANTHROPIC_API_KEY'' then chatWithAnthropic w messages
      else Inr (mockChat messages))"

text \<open>An optional \<open>goals\<close> argument adds its sentence to a prompt when it is a non-empty string.\<close>

definition goals_fragment :: "string \<Rightarrow> string option \<Rightarrow> string" where
  "goals_fragment label goals =
     (case goals of None \<Rightarrow> [] | Some g \<Rightarrow> if g \<noteq> [] then label @ g @ ''. '' else [])"

definition mockQuiz :: "world \<Rightarrow> string \<Rightarrow> ChatResponse" where
  \<open>mockQuiz w topic =
     \<lparr>content = JSON_stringify w
        (JObj [(''questions'', JArr [JObj
           [(''question'', JStr (''What is a key concept in '' @ topic @ ''?'')),
            (''options'', JArr
               [JStr ''Mock answer A (configure GEMINI_API_KEY for real questions)'',
                JStr ''Mock answer B'',
                JStr ''Mock answer C'',
                JStr ''Mock answer D'']),
            (''correctAnswer'', JNum 0),
            (''explanation'', JStr (''This is a mock quiz. Add GEMINI_API_KEY or OPENAI_API_KEY environment variable to generate real educational quizzes.''))]])]),
      provider = ''mock''\<rparr>\<close>

definition mockSchedule :: "world \<Rightarrow> string \<Rightarrow> string \<Rightarrow> ChatResponse" where
  \<open>mockSchedule w topic duration =
     \<lparr>content = JSON_stringify w
        (JObj [(''topic'', JStr topic),
               (''totalDuration'', JStr duration),
               (''estimatedHoursPerDay'', JNum 2),
               (''schedule'', JArr [JObj
                  [(''day'', JNum 1),
                   (''title'', JStr ''Getting Started''),
                   (''duration'', JStr ''2 hours''),
                   (''topics'', JArr [JStr ''Introduction'', JStr ''Basic Concepts'']),
                   (''description'', JStr (''This is a mock schedule. Add GEMINI_API_KEY or OPENAI_API_KEY to generate personalized AI-powered study schedules.'')),
                   (''completed'', JBool False)]]),
               (''tips'', JArr
                  [JStr ''Configure GEMINI_API_KEY for AI-generated schedules'',
                   JStr ''Set realistic daily study goals'',
                   JStr ''Take breaks between study sessions''])]),
      provider = ''mock''\<rparr>\<close>

definition quiz_prompt_gemini :: "world \<Rightarrow> string \<Rightarrow> string option \<Rightarrow> string" where
  \<open>quiz_prompt_gemini w topic goals =
    ''Generate 3 unique, educational multiple-choice quiz questions about "'' @ topic @ ''". '' @
    goals_fragment ''Focus on: '' goals @ ''\<newline>\<newline>'' @
    ''Generate DIFFERENT questions each time - avoid common questions. Include variety in difficulty and topics.\<newline>'' @
    ''\<newline>Timestamp for uniqueness: '' @ num_format w (of_nat (now w)) @
    ''\<newline>\<newline>'' @
    ''Return ONLY valid JSON in this exact format (no markdown, no backticks, no extra text):\<newline>'' @
    ''{\<newline>  "questions": [\<newline>    {\<newline>'' @
    ''      "question": "Question text here?",\<newline>'' @
    ''      "options": ["Option A", "Option B", "Option C", "Option D"],\<newline>'' @
    ''      "correctAnswer": 0,\<newline>'' @
    ''      "explanation": "Explanation of why this is correct"\<newline>    }\<newline>'' @
    ''  ]\<newline>}\<newline>\<newline>Rules:\<newline>'' @
    ''- correctAnswer is the index (0-3) of the correct option\<newline>'' @
    ''- Each question must be different and educational\<newline>'' @
    ''- Make questions practical and relevant\<newline>- Vary the difficulty level''\<close>

definition generateQuizWithGemini :: "world \<Rightarrow> string \<Rightarrow> string option \<Rightarrow> error + ChatResponse" where
  "generateQuizWithGemini w topic goals =
     try_catch
       (and_then (gemini_generateContent w (quiz_prompt_gemini w topic goals))
          (\<lambda>text. Inr \<lparr>content = clean_fences (trim text), provider = ''gemini''\<rparr>))
       (\<lambda>error. Inr (mockQuiz w topic))"

definition quiz_messages_openai :: "world \<Rightarrow> string \<Rightarrow> string option \<Rightarrow> Message list" where
  \<open>quiz_messages_openai w topic goals =
     [\<lparr>msg_role = System, msg_content =
       ''You are a quiz generator. Generate educational quiz questions in JSON format. Return ONLY valid JSON, no markdown code blocks, no extra text.''\<rparr>,
      \<lparr>msg_role = User, msg_content =
        (''Generate 3 unique multiple-choice quiz questions about "'' @ topic @ ''". '' @
         goals_fragment ''Focus on: '' goals @ ''Timestamp: '' @ num_format w (of_nat (now w)) @
         ''. Return valid JSON with format: {"questions": [{"question": "...", "options": ["A", "B", "C", "D"], "correctAnswer": 0, "explanation": "..."}]}'')\<rparr>]\<close>

definition generateQuizWithOpenAI :: "world \<Rightarrow> string \<Rightarrow> string option \<Rightarrow> error + ChatResponse" where
  "generateQuizWithOpenAI w topic goals =
     try_catch
       (and_then (openai_create w (quiz_messages_openai w topic goals))
          (\<lambda>choices. Inr \<lparr>content = clean_fences (trim (first_choice_or choices ''{}'')),
                            provider = ''openai''\<rparr>))
       (\<lambda>error. Inr (mockQuiz w topic))"

definition generateQuiz :: "LLMProvider \<Rightarrow> world \<Rightarrow> string \<Rightarrow> string option \<Rightarrow> error + ChatResponse" where
  "generateQuiz this w topic goals =
     (if this_provider this = ''gemini'' \<and> configured w ''GEMINI_API_KEY'' then generateQuizWithGemini w topic goals
      else if this_provider this = ''openai'' \<and> configured w ''OPENAI_API_KEY'' then generateQuizWithOpenAI w topic goals
      else Inr (mockQuiz w topic))"

definition schedule_prompt_gemini :: "world \<Rightarrow> string \<Rightarrow> string \<Rightarrow> string option \<Rightarrow> string" where
  \<open>schedule_prompt_gemini w topic duration goals =
    ''Create a personalized study schedule for learning "'' @ topic @ ''" over '' @ duration @
    ''. '' @ goals_fragment ''Learning goals: '' goals @ ''\<newline>\<newline>'' @
    ''Analyze the topic complexity and create a realistic day-by-day learning plan.\<newline>'' @
    ''\<newline>Timestamp for uniqueness: '' @ num_format w (of_nat (now w)) @
    ''\<newline>\<newline>'' @
    ''Return ONLY valid JSON in this exact format (no markdown, no backticks, no extra text):\<newline>'' @
    ''{\<newline>  "topic": "'' @ topic @ ''",\<newline>  "totalDuration": "'' @ duration @
    ''",\<newline>  "estimatedHoursPerDay": 2,\<newline>  "schedule": [\<newline>'' @
    ''    {\<newline>      "day": 1,\<newline>'' @
    ''      "title": "Introduction and Fundamentals",\<newline>'' @
    ''      "duration": "2 hours",\<newline>      "topics": ["Topic 1", "Topic 2"],\<newline>'' @
    ''      "description": "Detailed description of what to learn and practice",\<newline>'' @
    ''      "completed": false\<newline>    }\<newline>  ],\<newline>'' @
    ''  "tips": ["Helpful tip 1", "Helpful tip 2"]\<newline>}\<newline>\<newline>'' @
    ''Rules:\<newline>- Break down the learning journey into daily chunks\<newline>'' @
    ''- Each day should have realistic hours (1-3 hours per day)\<newline>'' @
    ''- Progress from fundamentals to advanced topics\<newline>'' @
    ''- Include practical exercises and projects\<newline>'' @
    ''- Provide 3-5 helpful study tips\<newline>- Make the schedule achievable and motivating''\<close>

definition generateScheduleWithGemini :: "world \<Rightarrow> string \<Rightarrow> string \<Rightarrow> string option \<Rightarrow> error + ChatResponse" where
  "generateScheduleWithGemini w topic duration goals =
     try_catch
       (and_then (gemini_generateContent w (schedule_prompt_gemini w topic duration goals))
          (\<lambda>text. Inr \<lparr>content = clean_fences (trim text), provider = ''gemini''\<rparr>))
       (\<lambda>error. Inr (mockSchedule w topic duration))"

definition schedule_messages_openai :: "world \<Rightarrow> string \<Rightarrow> string \<Rightarrow> string option \<Rightarrow> Message list" where
  \<open>schedule_messages_openai w topic duration goals =
     [\<lparr>msg_role = System, msg_content =
       ''You are a study schedule planner. Create personalized learning schedules in JSON format. Return ONLY valid JSON, no markdown code blocks, no extra text.''\<rparr>,
      \<lparr>msg_role = User, msg_content =
        (''Create a study schedule for "'' @ topic @ ''" over '' @ duration @ ''. '' @
         goals_fragment ''Goals: '' goals @ ''Timestamp: '' @ num_format w (of_nat (now w)) @
         ''. Return valid JSON with format: {"topic": "...", "totalDuration": "...", "estimatedHoursPerDay": 2, "schedule": [{"day": 1, "title": "...", "duration": "...", "topics": ["..."], "description": "...", "completed": false}], "tips": ["..."]}'')\<rparr>]\<close>

definition generateScheduleWithOpenAI :: "world \<Rightarrow> string \<Rightarrow> string \<Rightarrow> string option \<Rightarrow> error + ChatResponse" where
  "generateScheduleWithOpenAI w topic duration goals =
     try_catch
       (and_then (openai_create w (schedule_messages_openai w topic duration goals))
          (\<lambda>choices. Inr \<lparr>content = clean_fences (trim (first_choice_or choices ''{}'')),
                            provider = ''openai''\<rparr>))
       (\<lambda>error. Inr (mockSchedule w topic duration))"

definition generateSchedule :: "LLMProvider \<Rightarrow> world \<Rightarrow> string \<Rightarrow> string \<Rightarrow> string option \<Rightarrow> error + ChatResponse" where
  "generateSchedule this w topic duration goals =
     (if this_provider this = ''gemini'' \<and> configured w ''GEMINI_API_KEY'' then generateScheduleWithGemini w topic duration goals
      else if this_provider this = ''openai'' \<and> configured w ''OPENAI_API_KEY'' then generateScheduleWithOpenAI w topic duration goals
      else Inr (mockSchedule w topic duration))"

section \<open>ProjectGenerator\<close>

definition languageMap :: "(string \<times> string) list" where
  "languageMap =
     [(''html'', ''html''), (''css'', ''css''), (''js'', ''javascript''), (''ts'', ''typescript''),
      (''json'', ''json''), (''md'', ''markdown''), (''py'', ''python''), (''java'', ''java''),
      (''cpp'', ''cpp''), (''c'', ''c''), (''go'', ''go''), (''rs'', ''rust'')]"

text \<open>
  \<open>languageMap[key]\<close>: the table is an object literal, so a key that the table does not hold
  is looked up on \<open>Object.prototype\<close>, whose properties are built-in functions and objects.
\<close>

definition object_prototype_names :: "string list" where
  "object_prototype_names =
     [''constructor'', ''__defineGetter__'', ''__defineSetter__'', ''hasOwnProperty'',
      ''__lookupGetter__'', ''__lookupSetter__'', ''isPrototypeOf'', ''propertyIsEnumerable'',
      ''toString'', ''valueOf'', ''__proto__'', ''toLocaleString'']"

definition languageMap_lookup :: "string \<Rightarrow> jsval" where
  "languageMap_lookup key =
     (case map_of languageMap key of
        Some l \<Rightarrow> JStr l
      | None \<Rightarrow> if key \<in> set object_prototype_names then JHost key else JUndefined)"

text \<open>
  \<open>detectLanguage(filename)\<close> is called with \<open>file.path\<close> as it was parsed: anything but a
  string has no \<open>split\<close> method, and the call throws a \<open>TypeError\<close>.
\<close>

definition detectLanguage :: "jsval \<Rightarrow> error + jsval" where
  "detectLanguage filename =
     (case filename of
        JStr s \<Rightarrow>
          (let ext = toLowerCase (last_segment s)
           in Inr (js_or (languageMap_lookup ext) (JStr ''text'')))
      | JUndefined \<Rightarrow> Inl (Error ''Cannot read properties of undefined (reading 'split')'')
      | JNull \<Rightarrow> Inl (Error ''Cannot read properties of null (reading 'split')'')
      | _ \<Rightarrow> Inl (Error ''filename.split is not a function''))"

definition getFallbackProject :: "string \<Rightarrow> jsval" where
  \<open>getFallbackProject description =
     JObj
      [(''name'', JStr ''simple-project''),
       (''description'', JStr description),
       (''files'', JArr
         [JObj
           [(''path'', JStr ''index.html''),
            (''content'', JStr (
              ''<!DOCTYPE html>\<newline><html lang="en">\<newline><head>\<newline>'' @
              ''    <meta charset="UTF-8">\<newline>'' @
              ''    <meta name="viewport" content="width=device-width, initial-scale=1.0">\<newline>'' @
              ''    <title>'' @ description @
              ''</title>\<newline>    <link rel="stylesheet" href="style.css">\<newline>'' @
              ''</head>\<newline><body>\<newline>    <div class="container">\<newline>'' @
              ''        <h1>Welcome to Your Project</h1>\<newline>        <p>'' @ description @
              ''</p>\<newline>    </div>\<newline>    <script src="script.js"></script>\<newline>'' @
              ''</body>\<newline></html>'')),
            (''language'', JStr ''html'')],
          JObj
           [(''path'', JStr ''style.css''),
            (''content'', JStr (
              ''* {\<newline>    margin: 0;\<newline>    padding: 0;\<newline>'' @
              ''    box-sizing: border-box;\<newline>}\<newline>\<newline>body {\<newline>'' @
              ''    font-family: -apple-system, BlinkMacSystemFont, 'Segoe UI', Roboto, Oxygen, Ubuntu, Cantarell, sans-serif;\<newline>'' @
              ''    line-height: 1.6;\<newline>'' @
              ''    background: linear-gradient(135deg, #667eea 0%, #764ba2 100%);\<newline>'' @
              ''    min-height: 100vh;\<newline>    display: flex;\<newline>'' @
              ''    align-items: center;\<newline>    justify-content: center;\<newline>}\<newline>'' @
              ''\<newline>.container {\<newline>    background: white;\<newline>'' @
              ''    padding: 2rem;\<newline>    border-radius: 10px;\<newline>'' @
              ''    box-shadow: 0 10px 30px rgba(0,0,0,0.2);\<newline>    max-width: 600px;\<newline>'' @
              ''    text-align: center;\<newline>}\<newline>\<newline>h1 {\<newline>'' @
              ''    color: #333;\<newline>    margin-bottom: 1rem;\<newline>}\<newline>\<newline>'' @
              ''p {\<newline>    color: #666;\<newline>}'')),
            (''language'', JStr ''css'')],
          JObj
           [(''path'', JStr ''script.js''),
            (''content'', JStr (
              ''console.log('Project loaded successfully!');\<newline>\<newline>'' @
              ''document.addEventListener('DOMContentLoaded', () => {\<newline>'' @
              ''    console.log('DOM ready');\<newline>});'')),
            (''language'', JStr ''javascript'')],
          JObj
           [(''path'', JStr ''README.md''),
            (''content'', JStr (
              ''# '' @ description @ ''\<newline>\<newline>## Setup\<newline>\<newline>'' @
              ''1. Open `index.html` in a web browser\<newline>'' @
              ''2. That's it! The project is ready to use.\<newline>\<newline>## Files\<newline>'' @
              ''\<newline>- `index.html` - Main HTML file\<newline>- `style.css` - Styling\<newline>'' @
              ''- `script.js` - JavaScript functionality\<newline>\<newline>## Features\<newline>'' @
              ''\<newline>This is a simple web project. Customize it to fit your needs!'')),
            (''language'', JStr ''markdown'')]]),
       (''instructions'', JStr (
         ''Simply open index.html in a web browser to view the project. No build step required!''))]\<close>

definition project_prompt :: "string \<Rightarrow> string" where
  \<open>project_prompt description =
    ''You are a project generator. Create a complete, working project based on this description:\<newline>'' @
    ''\<newline>"'' @ description @ ''"\<newline>\<newline>'' @
    ''Generate a COMPLETE, production-ready project with all necessary files. Include:\<newline>'' @
    ''- All HTML, CSS, JavaScript files needed\<newline>'' @
    ''- Package configuration (package.json if applicable)\<newline>'' @
    ''- README with setup instructions\<newline>- Any config files needed\<newline>\<newline>'' @
    ''Return ONLY valid JSON in this exact format (no markdown, no code blocks):\<newline>'' @
    ''{\<newline>  "name": "project-name",\<newline>'' @
    ''  "description": "Brief project description",\<newline>  "files": [\<newline>'' @
    ''    {"path": "index.html", "content": "file content here", "language": "html"},\<newline>'' @
    ''    {"path": "style.css", "content": "file content here", "language": "css"},\<newline>'' @
    ''    {"path": "script.js", "content": "file content here", "language": "javascript"}\<newline>'' @
    ''  ],\<newline>  "instructions": "Step-by-step setup and run instructions"\<newline>'' @
    ''}\<newline>\<newline>IMPORTANT: \<newline>'' @
    ''1. Return ONLY the JSON object, no other text\<newline>'' @
    ''2. Include ALL file content, not placeholders\<newline>'' @
    ''3. Make the project actually work\<newline>4. Use modern, clean code\<newline>'' @
    ''5. Include at least 3-5 files for a complete project''\<close>

definition project_messages :: "string \<Rightarrow> Message list" where
  \<open>project_messages description =
     [\<lparr>msg_role = System, msg_content =
       ''You are an expert project generator. You create complete, working projects with all necessary files. Always return valid JSON only.''\<rparr>,
      \<lparr>msg_role = User, msg_content = project_prompt description\<rparr>]\<close>

text \<open>The object built for one entry of \<open>project.files\<close>.\<close>

definition normalize_file :: "jsval \<Rightarrow> error + jsval" where
  "normalize_file file =
     and_then (js_get file ''path'') (\<lambda>path.
     and_then (js_get file ''content'') (\<lambda>content.
     and_then (js_get file ''language'') (\<lambda>language.
     and_then (if truthy language then Inr language else detectLanguage path) (\<lambda>lang.
       Inr (JObj [(''path'', js_or path (JStr ''unnamed.txt'')),
                  (''content'', js_or content (JStr [])),
                  (''language'', lang)])))))"

text \<open>\<open>obj.key = v\<close> on a parsed object; on a primitive it throws (the module is strict).\<close>

fun obj_set :: "(string \<times> jsval) list \<Rightarrow> string \<Rightarrow> jsval \<Rightarrow> (string \<times> jsval) list" where
  "obj_set [] k v = [(k, v)]"
| "obj_set ((k', v') # kvs) k v = (if k' = k then (k, v) # kvs else (k', v') # obj_set kvs k v)"

definition js_set :: "jsval \<Rightarrow> string \<Rightarrow> jsval \<Rightarrow> error + jsval" where
  "js_set obj k v =
     (case obj of
        JObj kvs \<Rightarrow> Inr (JObj (obj_set kvs k v))
      | _ \<Rightarrow> Inl (Error (''Cannot create property '' @ [CHR 0x27] @ k @ [CHR 0x27])))"

text \<open>\<open>Array.isArray(v)\<close> and \<open>v.map(f)\<close> for an \<open>f\<close> that may throw.\<close>

definition isArray :: "jsval \<Rightarrow> bool" where
  "isArray v = (case v of JArr xs \<Rightarrow> True | _ \<Rightarrow> False)"

definition js_map :: "string \<Rightarrow> (jsval \<Rightarrow> error + 'a) \<Rightarrow> jsval \<Rightarrow> error + 'a list" where
  "js_map what f v =
     (case v of
        JArr xs \<Rightarrow> sequence (map f xs)
      | JUndefined \<Rightarrow> Inl (Error ''Cannot read properties of undefined (reading 'map')'')
      | JNull \<Rightarrow> Inl (Error ''Cannot read properties of null (reading 'map')'')
      | _ \<Rightarrow> Inl (Error (what @ ''.map is not a function'')))"

text \<open>The code-fence clean-up of \<open>generateProject\<close>: no trim after the replacements.\<close>

definition strip_project_fences :: "string \<Rightarrow> string" where
  "strip_project_fences jsonContent =
     (if startsWith jsonContent fence then remove_fence fence (remove_fence fence_json jsonContent)
      else jsonContent)"

text \<open>The body of the \<open>try\<close> block of \<open>generateProject\<close>.\<close>

definition generateProject_try :: "LLMProvider \<Rightarrow> world \<Rightarrow> string \<Rightarrow> error + jsval" where
  "generateProject_try llm w description =
     and_then (chat llm w (project_messages description)) (\<lambda>response.
     and_then (JSON_parse w (strip_project_fences (trim (content response)))) (\<lambda>project.
     and_then (js_get project ''name'') (\<lambda>name.
       if \<not> truthy name then Inl (Error ''Invalid project structure from AI'')
       else
     and_then (js_get project ''files'') (\<lambda>files.
       if \<not> truthy files \<or> \<not> isArray files then Inl (Error ''Invalid project structure from AI'')
       else
     and_then (js_map ''project.files'' normalize_file files) (\<lambda>fs.
       js_set project ''files'' (JArr fs))))))"

definition generateProject :: "LLMProvider \<Rightarrow> world \<Rightarrow> string \<Rightarrow> error + jsval" where
  "generateProject llm w description =
     try_catch (generateProject_try llm w description)
       (\<lambda>error. Inr (getFallbackProject description))"

section \<open>Message classification\<close>

definition learningKeywords :: "string list" where
  "learningKeywords = [''learn'', ''study'', ''quiz'', ''teach'', ''explain'', ''course'', ''lesson'']"

definition bookingKeywords :: "string list" where
  "bookingKeywords = [''book'', ''reserve'', ''hotel'', ''flight'', ''restaurant'', ''travel'']"

definition codeKeywords :: "string list" where
  "codeKeywords = [''code'', ''program'', ''debug'', ''function'', ''syntax'', ''error'', ''bug'']"

definition projectKeywords :: "string list" where
  "projectKeywords = [''create a project'', ''build a project'', ''generate a project'',
     ''make a project'', ''create project'', ''build project'']"

definition isLearningQuery :: "string \<Rightarrow> bool" where
  "isLearningQuery message = list_ex (\<lambda>keyword. str_includes (toLowerCase message) keyword) learningKeywords"

definition isBookingQuery :: "string \<Rightarrow> bool" where
  "isBookingQuery message = list_ex (\<lambda>keyword. str_includes (toLowerCase message) keyword) bookingKeywords"

definition isCodeQuery :: "string \<Rightarrow> bool" where
  "isCodeQuery message = list_ex (\<lambda>keyword. str_includes (toLowerCase message) keyword) codeKeywords"

definition isProjectGenerationQuery :: "string \<Rightarrow> bool" where
  "isProjectGenerationQuery message = list_ex (\<lambda>keyword. str_includes (toLowerCase message) keyword) projectKeywords"

section \<open>UnifiedAgentCoordinator\<close>

record CoordinatorResult =
  response :: string
  agentsUsed :: "string list"
  projectId :: "string option"
  projectData :: "jsval option"

definition learning_specialization :: string where
  \<open>learning_specialization =
    ''You excel at educational content, breaking down complex topics, creating study plans, and generating quiz questions. ''\<close>

definition booking_specialization :: string where
  \<open>booking_specialization =
    ''You specialize in travel and booking assistance, helping users find flights, hotels, restaurants, and events. ''\<close>

definition code_specialization :: string where
  \<open>code_specialization =
    ''You are expert at programming, debugging, explaining code concepts, and providing code examples. ''\<close>

definition general_specialization :: string where
  \<open>general_specialization =
    ''You are a knowledgeable general assistant capable of answering any question. ''\<close>

definition coordinator_messages :: "string list \<Rightarrow> string \<Rightarrow> string \<Rightarrow> Message list" where
  \<open>coordinator_messages used specialization message =
     [\<lparr>msg_role = System, msg_content =
       (''You are an intelligent AI assistant coordinating specialized capabilities: '' @
        join_with '', '' used @ ''.\<newline>\<newline>'' @ specialization @
        ''\<newline>\<newline>CRITICAL INSTRUCTIONS:\<newline>'' @
        ''1. Answer ALL questions directly and concisely\<newline>'' @
        ''2. Keep responses under 120 words\<newline>'' @
        ''3. Use proper formatting with these sections:\<newline>'' @
        ''   - **Summary** (1-2 sentences)\<newline>'' @
        ''   - **Key Points** (bulleted list, 3 items max)\<newline>'' @
        ''   - **Recommended Action** (only when relevant)\<newline>'' @
        ''4. Omit verbose explanations and internal reasoning\<newline>'' @
        ''5. Focus only on essential information\<newline>\<newline>'' @
        ''Your goal is to provide clear, focused answers that deliver maximum value with minimal words.'')\<rparr>,
      \<lparr>msg_role = User, msg_content = message\<rparr>]\<close>

text \<open>
  The response text of the project branch: a template literal over \<open>project.name\<close>,
  \<open>project.description\<close> and the path of every file, each converted by \<open>ToString\<close>.
\<close>

definition project_summary :: "world \<Rightarrow> jsval \<Rightarrow> error + string" where
  \<open>project_summary w project =
     and_then (js_get project ''name'') (\<lambda>name.
     and_then (js_ToString (num_format w) name) (\<lambda>name_s.
     and_then (js_get project ''description'') (\<lambda>description.
     and_then (js_ToString (num_format w) description) (\<lambda>description_s.
     and_then (js_get project ''files'') (\<lambda>files.
     and_then (js_map ''project.files''
                 (\<lambda>f. and_then (js_get f ''path'') (\<lambda>path.
                       and_then (js_ToString (num_format w) path) (\<lambda>path_s. Inr (''- '' @ path_s))))
                 files) (\<lambda>lines.
       Inr (
         ''**Project Generated: '' @ name_s @ ''**\<newline>\<newline>'' @ description_s @
         ''\<newline>\<newline>I've created a complete project with the following files:\<newline>'' @
         join_with ''\<newline>'' lines @ ''\<newline>\<newline>'' @
         ''You can download this project as a zip file using the download button.'')))))))\<close>

text \<open>
  The classification into specializations: each keyword set is tested on its own, in the
  order learning, booking, code; the general assistant stands in when none matched.
\<close>

definition select_agents :: "string \<Rightarrow> string list \<times> string" where
  "select_agents message =
     (let (agentsUsed1, specialization1) =
            (if isLearningQuery message
             then ([] @ [''Learning Assistant''], [] @ learning_specialization)
             else ([], []));
          (agentsUsed2, specialization2) =
            (if isBookingQuery message
             then (agentsUsed1 @ [''Booking Navigator''], specialization1 @ booking_specialization)
             else (agentsUsed1, specialization1));
          (agentsUsed3, specialization3) =
            (if isCodeQuery message
             then (agentsUsed2 @ [''Code Helper''], specialization2 @ code_specialization)
             else (agentsUsed2, specialization2))
      in if length agentsUsed3 = 0
         then (agentsUsed3 @ [''General Assistant''], general_specialization)
         else (agentsUsed3, specialization3))"

definition handleMessage :: "LLMProvider \<Rightarrow> world \<Rightarrow> string \<Rightarrow> error + CoordinatorResult" where
  \<open>handleMessage llm w message =
     (if isProjectGenerationQuery message then
        (let used = [] @ [''Project Generator'']
         in try_catch
              (and_then (generateProject llm w message) (\<lambda>project.
                 let projectId = ''proj-'' @ num_format w (of_nat (now w))
                 in and_then (project_summary w project) (\<lambda>summary.
                      Inr \<lparr>response = summary, agentsUsed = used,
                           projectId = Some projectId, projectData = Some project\<rparr>)))
              (\<lambda>error.
                 Inr \<lparr>response =
                   (''I encountered an error generating your project: '' @
                    (case error of Error m \<Rightarrow> m | NonError \<Rightarrow> ''undefined'')),
                      agentsUsed = used, projectId = None, projectData = None\<rparr>))
      else
        (let (used, specialization) = select_agents message
         in and_then (chat llm w (coordinator_messages used specialization message)) (\<lambda>r.
              Inr \<lparr>response = content r, agentsUsed = used,
                   projectId = None, projectData = None\<rparr>)))\<close>

section \<open>AgentManager\<close>

record Agent =
  agent_id :: string
  agent_name :: string
  agent_description :: string
  agent_createdAt :: nat

record AgentManager =
  agents :: "string \<rightharpoonup> Agent"

text \<open>The constructor fills the map with three default agents, created at the time \<open>t\<close>.\<close>

definition initializeDefaultAgents :: "nat \<Rightarrow> AgentManager" where
  "initializeDefaultAgents t =
     \<lparr>agents =
        [''learning-assistant'' \<mapsto>
           \<lparr>agent_id = ''learning-assistant'', agent_name = ''Learning Assistant'',
            agent_description = ''Helps with study plans, quizzes, and learning goals'',
            agent_createdAt = t\<rparr>,
         ''booking-navigator'' \<mapsto>
           \<lparr>agent_id = ''booking-navigator'', agent_name = ''Booking Navigator'',
            agent_description = ''Assists with travel bookings and reservations'',
            agent_createdAt = t\<rparr>,
         ''code-helper'' \<mapsto>
           \<lparr>agent_id = ''code-helper'', agent_name = ''Code Helper'',
            agent_description = ''Provides coding assistance and debugging help'',
            agent_createdAt = t\<rparr>]\<rparr>"

text \<open>
  \<open>executeTask\<close> and \<open>chatWithAgent\<close> read the map and never write it; the manager is
  returned beside the outcome, \<open>Inl\<close> for the thrown error.
\<close>

definition executeTask :: "AgentManager \<Rightarrow> string \<Rightarrow> string \<Rightarrow> AgentManager \<times> (error + string)" where
  "executeTask am agentId task =
     (case agents am agentId of
        None \<Rightarrow> (am, Inl (Error (''Agent '' @ agentId @ '' not found'')))
      | Some agent \<Rightarrow> (am, Inr (''Agent '' @ agent_name agent @ '' executed task: '' @ task)))"

definition chatWithAgent :: "AgentManager \<Rightarrow> string \<Rightarrow> string \<Rightarrow> AgentManager \<times> (error + string)" where
  "chatWithAgent am agentId message =
     (case agents am agentId of
        None \<Rightarrow> (am, Inl (Error (''Agent '' @ agentId @ '' not found'')))
      | Some agent \<Rightarrow> (am, Inr (''Agent '' @ agent_name agent @ '' response to: '' @ message)))"

section \<open>The agent store\<close>

text \<open>
  Modelled from the spec: the agent record and the execution log entry of \<open>shared/schema\<close>,
  with the fields that the spec's data model lists and the executor reads or writes. The
  two counters are integers that start at zero and are written by the executor only.
\<close>

record DbAgent =
  db_id :: string
  db_name :: string
  db_description :: "string option"
  db_templateId :: "string option"
  db_status :: string
  tasksCompleted :: nat
  successRate :: nat

record ExecutionLog =
  log_agentId :: string
  log_status :: string
  log_message :: string
  log_result :: jsval

record store =
  db_agents :: "string \<rightharpoonup> DbAgent"
  db_logs :: "ExecutionLog list"

text \<open>
  Modelled from the spec: the agent store (\<open>storage.js\<close>), a persisted collection of agent
  records with read and update operations and an append-only execution log, one entry per
  execution attempt. Every call is awaited and may reject, which the environment decides;
  a rejected call changes nothing. The time stamp that \<open>updateAgentStatus\<close> receives
  beside the status \<open>executing\<close> has no field in the spec's agent record and is dropped.
\<close>

definition getAgent :: "world \<Rightarrow> store \<Rightarrow> string \<Rightarrow> error + DbAgent option" where
  "getAgent w st agentId =
     (case storage_rejects w GetAgent of
        Some e \<Rightarrow> Inl e
      | None \<Rightarrow> Inr (db_agents st agentId))"

definition updateAgentStatus :: "world \<Rightarrow> store \<Rightarrow> string \<Rightarrow> string \<Rightarrow> error + store" where
  "updateAgentStatus w st agentId status =
     (case storage_rejects w (UpdateAgentStatus status) of
        Some e \<Rightarrow> Inl e
      | None \<Rightarrow>
          Inr (case db_agents st agentId of
                 None \<Rightarrow> st
               | Some a \<Rightarrow> st\<lparr>db_agents := (db_agents st)(agentId \<mapsto> a\<lparr>db_status := status\<rparr>)\<rparr>))"

definition updateAgentMetrics :: "world \<Rightarrow> store \<Rightarrow> string \<Rightarrow> nat \<Rightarrow> nat \<Rightarrow> error + store" where
  "updateAgentMetrics w st agentId newTasksCompleted newSuccessRate =
     (case storage_rejects w UpdateAgentMetrics of
        Some e \<Rightarrow> Inl e
      | None \<Rightarrow>
          Inr (case db_agents st agentId of
                 None \<Rightarrow> st
               | Some a \<Rightarrow>
                   st\<lparr>db_agents := (db_agents st)(agentId \<mapsto>
                        a\<lparr>tasksCompleted := newTasksCompleted, successRate := newSuccessRate\<rparr>)\<rparr>))"

definition createAgentExecutionLog :: "world \<Rightarrow> store \<Rightarrow> ExecutionLog \<Rightarrow> error + store" where
  "createAgentExecutionLog w st entry =
     (case storage_rejects w CreateAgentExecutionLog of
        Some e \<Rightarrow> Inl e
      | None \<Rightarrow> Inr (st\<lparr>db_logs := db_logs st @ [entry]\<rparr>))"

section \<open>AgentExecutor\<close>

record AgentExecutionResult =
  success :: bool
  message :: string
  data :: jsval

definition failure :: "string \<Rightarrow> AgentExecutionResult" where
  "failure msg = \<lparr>success = False, message = msg, data = JUndefined\<rparr>"

text \<open>
  A destructured parameter with a default (\<open>{ country = "in" }\<close>) takes the default only
  when the property is \<open>undefined\<close>.
\<close>

definition with_default :: "jsval \<Rightarrow> jsval \<Rightarrow> jsval" where
  "with_default v dflt = (if v = JUndefined then dflt else v)"

definition executeAutoEmailAgent :: "world \<Rightarrow> DbAgent \<Rightarrow> jsval \<Rightarrow> error + AgentExecutionResult" where
  \<open>executeAutoEmailAgent w agent params =
     (let p = js_or params (JObj []);
          to = js_get_opt p ''to'';
          subject = js_get_opt p ''subject'';
          body = js_get_opt p ''body''
      in if \<not> truthy to \<or> \<not> truthy subject \<or> \<not> truthy body then
           Inr (failure (''Missing required parameters: to, subject, body''))
         else
           try_catch
             (and_then (sendEmail w to subject body) (\<lambda>sent.
                if sent then
                  and_then (js_ToString (num_format w) to) (\<lambda>to_s.
                    Inr \<lparr>success = True,
                         message = ''Email sent successfully to '' @ to_s,
                         data = JObj [(''to'', to), (''subject'', subject)]\<rparr>)
                else
                  Inr (failure (''Email service failed to send email''))))
             (\<lambda>error. Inr (failure (
               ''Failed to send email: '' @ error_message error ''Unknown error''))))\<close>

definition executeWeatherReportAgent :: "world \<Rightarrow> DbAgent \<Rightarrow> jsval \<Rightarrow> error + AgentExecutionResult" where
  \<open>executeWeatherReportAgent w agent params =
     (let p = js_or params (JObj []);
          location = js_get_opt p ''location'';
          apiKey = js_get_opt p ''apiKey''
      in if \<not> truthy location then
           Inr (failure (''Missing required parameter: location''))
         else if \<not> truthy apiKey then
           Inr (failure (''Missing required parameter: apiKey (OpenWeatherMap API key)''))
         else
           try_catch
             (and_then (js_ToString (num_format w) location) (\<lambda>location_s.
              and_then (encodeURIComponent w location_s) (\<lambda>location_enc.
              and_then (js_ToString (num_format w) apiKey) (\<lambda>apiKey_s.
              and_then (fetch w (
                ''https://api.openweathermap.org/data/2.5/weather?q='' @ location_enc @
                ''&appid='' @ apiKey_s @ ''&units=metric'')) (\<lambda>response.
                if \<not> ok response then
                  Inr (failure (''Weather API error: '' @ statusText response))
                else
              and_then (json_body response) (\<lambda>data.
              and_then (js_get data ''name'') (\<lambda>name.
              and_then (js_get data ''main'') (\<lambda>main.
              and_then (js_get main ''temp'') (\<lambda>temp.
              and_then (js_get main ''feels_like'') (\<lambda>feels_like.
              and_then (js_get main ''humidity'') (\<lambda>humidity.
              and_then (js_get data ''weather'') (\<lambda>weather.
              and_then (js_first weather) (\<lambda>weather0.
              and_then (js_get weather0 ''description'') (\<lambda>description.
              and_then (js_get weather0 ''icon'') (\<lambda>icon.
                Inr \<lparr>success = True,
                     message = ''Weather fetched successfully for '' @ location_s,
                     data = JObj [(''location'', name), (''temperature'', temp),
                                  (''feelsLike'', feels_like), (''humidity'', humidity),
                                  (''description'', description), (''icon'', icon)]\<rparr>)))))))))))))))
             (\<lambda>error. Inr (failure (
               ''Failed to fetch weather: '' @ error_message error ''Unknown error''))))\<close>

text \<open>The five fields kept of one article, and its paragraph of the text sent to the model.\<close>

definition structure_article :: "jsval \<Rightarrow> error + jsval" where
  "structure_article article =
     and_then (js_get article ''title'') (\<lambda>title.
     and_then (js_get article ''source'') (\<lambda>source.
     and_then (js_get article ''url'') (\<lambda>url.
     and_then (js_get article ''publishedAt'') (\<lambda>publishedAt.
     and_then (js_get article ''description'') (\<lambda>description.
       Inr (JObj [(''title'', js_or title (JStr ''Untitled'')),
                  (''source'', js_or (js_get_opt source ''name'') (JStr ''Unknown'')),
                  (''url'', js_or url JNull),
                  (''publishedAt'', js_or publishedAt JNull),
                  (''description'', js_or description JNull)]))))))"

definition article_text :: "world \<Rightarrow> nat \<times> jsval \<Rightarrow> error + string" where
  \<open>article_text w = (\<lambda>(idx, article).
     and_then (js_ToString (num_format w) (js_get_opt article ''title'')) (\<lambda>title_s.
     and_then (js_ToString (num_format w) (js_or (js_get_opt article ''description'') (JStr []))) (\<lambda>description_s.
     and_then (js_ToString (num_format w) (js_get_opt article ''source'')) (\<lambda>source_s.
     and_then (js_ToString (num_format w) (js_or (js_get_opt article ''publishedAt'') (JStr ''Unknown''))) (\<lambda>publishedAt_s.
       Inr (
         num_format w (of_nat (idx + 1)) @ ''. '' @ title_s @ ''\<newline>'' @ description_s @
         ''\<newline>Source: '' @ source_s @ ''\<newline>Published: '' @ publishedAt_s))))))\<close>

text \<open>
  \<open>Array.from(new Set(xs))\<close>: the first occurrence of each value, where two primitives are
  the same value when they are equal and two parsed objects never are.
\<close>

fun same_value_zero :: "jsval \<Rightarrow> jsval \<Rightarrow> bool" where
  "same_value_zero (JArr xs) y = False"
| "same_value_zero (JObj kvs) y = False"
| "same_value_zero (JHost h) y = False"
| "same_value_zero x y = (x = y)"

definition js_uniq :: "jsval list \<Rightarrow> jsval list" where
  "js_uniq xs = fold (\<lambda>x acc. if list_ex (same_value_zero x) acc then acc else acc @ [x]) xs []"

definition executeNewsSummarizerAgent ::
  "LLMProvider \<Rightarrow> world \<Rightarrow> DbAgent \<Rightarrow> jsval \<Rightarrow> error + AgentExecutionResult" where
  \<open>executeNewsSummarizerAgent llm w agent params =
     (let p = js_or params (JObj []);
          topic = js_get_opt p ''topic'';
          country = with_default (js_get_opt p ''country'') (JStr ''in'');
          pageSize = with_default (js_get_opt p ''pageSize'') (JNum 5);
          apiKey = js_get_opt p ''apiKey''
      in if \<not> truthy topic then
           Inr (failure (
             ''Missing required parameter: topic (e.g., 'technology', 'business', 'sports')''))
         else if \<not> truthy apiKey then
           Inr (failure (''Missing required parameter: apiKey (News API key)''))
         else
           try_catch
             (and_then (js_ToString (num_format w) topic) (\<lambda>topic_s.
              and_then (encodeURIComponent w topic_s) (\<lambda>topic_enc.
              and_then (js_ToString (num_format w) country) (\<lambda>country_s.
              and_then (js_ToString (num_format w) pageSize) (\<lambda>pageSize_s.
              and_then (js_ToString (num_format w) apiKey) (\<lambda>apiKey_s.
              and_then (fetch w (
                ''https://newsapi.org/v2/top-headlines?q='' @ topic_enc @ ''&country='' @
                country_s @ ''&pageSize='' @ pageSize_s @ ''&apiKey='' @ apiKey_s)) (\<lambda>response.
                if \<not> ok response then
                  (let errorData = (case json_body response of Inl e \<Rightarrow> JObj [] | Inr v \<Rightarrow> v)
                   in and_then (js_get errorData ''message'') (\<lambda>m.
                      and_then (js_ToString (num_format w) (js_or m (JStr (statusText response)))) (\<lambda>m_s.
                        Inr (failure (''News API error: '' @ m_s)))))
                else
              and_then (json_body response) (\<lambda>data.
              and_then (js_get data ''status'') (\<lambda>status.
                if status = JStr ''error'' then
                  and_then (js_get data ''message'') (\<lambda>m.
                  and_then (js_ToString (num_format w) (js_or m (JStr ''Unknown error''))) (\<lambda>m_s.
                  and_then (js_get data ''code'') (\<lambda>c.
                  and_then (js_ToString (num_format w) (js_or c (JStr ''N/A''))) (\<lambda>c_s.
                    Inr (failure (''News API error: '' @ m_s @ ''. Code: '' @ c_s))))))
                else
              and_then (js_get data ''articles'') (\<lambda>articles0.
                let articles_v = js_or articles0 (JArr [])
                in
              and_then (js_get articles_v ''length'') (\<lambda>len.
                if len = JNum 0 then
                  Inr (failure (''No news articles found for topic: '' @ topic_s))
                else
              and_then (js_map ''articles'' structure_article articles_v) (\<lambda>structuredArticles.
                let articles = structuredArticles
                in
              and_then (sequence (map (article_text w) (enumerate 0 structuredArticles))) (\<lambda>texts.
                let articlesText = join_with ''\<newline>\<newline>'' texts
                in
              and_then (chat llm w
                  [\<lparr>msg_role = System, msg_content =
                    ''You are a news summarizer. Create a concise, informative summary of the news articles provided. Focus on key facts and trends.''\<rparr>,
                   \<lparr>msg_role = User, msg_content =
                     (''Summarize these '' @ num_format w (of_nat (length articles)) @
                      '' news articles about "'' @ topic_s @ ''":\<newline>\<newline>'' @
                      articlesText)\<rparr>]) (\<lambda>llmResponse.
                let uniqueSources =
                      filter (\<lambda>s. s \<noteq> JStr ''Unknown'')
                        (js_uniq (map (\<lambda>a. js_get_opt a ''source'') structuredArticles))
                in Inr \<lparr>success = True,
                        message =
                          (''Successfully summarized '' @ num_format w (of_nat (length articles)) @
                           '' news articles about "'' @ topic_s @ ''"''),
                        data = JObj [(''topic'', topic),
                                     (''articlesCount'', JNum (of_nat (length articles))),
                                     (''summary'', JStr (content llmResponse)),
                                     (''llmProvider'', JStr (provider llmResponse)),
                                     (''articles'', JArr structuredArticles),
                                     (''sources'', JArr uniqueSources)]\<rparr>))))))))))))))
             (\<lambda>error. Inr (failure (
               ''Failed to fetch and summarize news: '' @ error_message error ''Unknown error''))))\<close>

definition executeTaskReminderAgent :: "world \<Rightarrow> DbAgent \<Rightarrow> jsval \<Rightarrow> error + AgentExecutionResult" where
  \<open>executeTaskReminderAgent w agent params =
     (let p = js_or params (JObj []);
          task = js_get_opt p ''task'';
          dueDate = js_get_opt p ''dueDate'';
          reminderEmail = js_get_opt p ''reminderEmail'';
          reminderTime = with_default (js_get_opt p ''reminderTime'') (JStr ''09:00 UTC'');
          timezone = with_default (js_get_opt p ''timezone'') (JStr ''UTC'')
      in if \<not> truthy task then
           Inr (failure (''Missing required parameter: task (description of what to remind)''))
         else if \<not> truthy reminderEmail then
           Inr (failure (''Missing required parameter: reminderEmail (where to send reminder)''))
         else
           try_catch
             (and_then (js_ToString (num_format w) task) (\<lambda>task_s.
              and_then (js_ToString (num_format w) dueDate) (\<lambda>dueDate_s.
              and_then (js_ToString (num_format w) reminderTime) (\<lambda>reminderTime_s.
              and_then (js_ToString (num_format w) timezone) (\<lambda>timezone_s.
                let reminderSubject =
                      (if truthy dueDate then
          ''Task Reminder: '' @ task_s @ '' (Due: '' @ dueDate_s @ '')''
                       else
          ''Task Reminder: '' @ task_s);
                    reminderBody = trim (
                      ''\<newline>Hello!\<newline>\<newline>This is a reminder about your task:\<newline>'' @
                      ''\<newline>TASK: '' @ task_s @ ''\<newline>'' @
                      (if truthy dueDate then ''DUE DATE: '' @ dueDate_s else []) @
                      ''\<newline>REMINDER TIME: '' @ reminderTime_s @ '' ('' @ timezone_s @
                      '')\<newline>\<newline>Don't forget to complete this task on time!\<newline>\<newline>'' @
                      ''Best regards,\<newline>Your Agentverse Task Reminder Agent\<newline>      '')
                in
              and_then (sendEmail w reminderEmail (JStr reminderSubject) (JStr reminderBody)) (\<lambda>sent.
                if sent then
                  and_then (js_ToString (num_format w) reminderEmail) (\<lambda>reminderEmail_s.
                    Inr \<lparr>success = True,
                         message = ''Task reminder sent successfully to '' @ reminderEmail_s,
                         data = JObj [(''task'', task), (''dueDate'', dueDate),
                                      (''reminderEmail'', reminderEmail),
                                      (''reminderTime'', reminderTime), (''timezone'', timezone),
                                      (''sentAt'', JStr (isoNow w))]\<rparr>)
                else
                  Inr (failure (''Failed to send task reminder email''))))))))
             (\<lambda>error. Inr (failure (
               ''Failed to send task reminder: '' @ error_message error ''Unknown error''))))\<close>

definition executeSocialMonitorAgent :: "DbAgent \<Rightarrow> jsval \<Rightarrow> error + AgentExecutionResult" where
  \<open>executeSocialMonitorAgent agent params =
     Inr (failure (''Social Monitor agent not yet implemented. Coming soon!''))\<close>

definition executeDataBackupAgent :: "DbAgent \<Rightarrow> jsval \<Rightarrow> error + AgentExecutionResult" where
  \<open>executeDataBackupAgent agent params =
     Inr (failure (''Data Backup agent not yet implemented. Coming soon!''))\<close>

text \<open>The \<open>switch\<close> on the agent's template id.\<close>

definition dispatch :: "LLMProvider \<Rightarrow> world \<Rightarrow> DbAgent \<Rightarrow> jsval \<Rightarrow> error + AgentExecutionResult" where
  \<open>dispatch llm w agent params =
     (if db_templateId agent = Some ''auto-email'' then executeAutoEmailAgent w agent params
      else if db_templateId agent = Some ''weather-report'' then executeWeatherReportAgent w agent params
      else if db_templateId agent = Some ''news-summarizer'' then executeNewsSummarizerAgent llm w agent params
      else if db_templateId agent = Some ''task-reminder'' then executeTaskReminderAgent w agent params
      else if db_templateId agent = Some ''social-monitor'' then executeSocialMonitorAgent agent params
      else if db_templateId agent = Some ''data-backup'' then executeDataBackupAgent agent params
      else Inr (failure (
        ''Unknown agent template: '' @
        (case db_templateId agent of Some t \<Rightarrow> t | None \<Rightarrow> ''null''))))\<close>

text \<open>
  \<open>Math.round(a / n)\<close> for a non-negative integer \<open>a\<close> and a positive integer \<open>n\<close>:
  \<open>Math.round\<close> is the floor of its argument plus one half. The counters are natural numbers
  here and their arithmetic is exact. The code computes in double precision, which is exact
  on these integers and rounds the quotient to the same integer as long as
  \<open>tasksCompleted + 1\<close> and \<open>successRate * tasksCompleted + 100\<close> stay below \<open>2^50\<close>; from
  \<open>2^53\<close> on, adding 1 to \<open>tasksCompleted\<close> would no longer change it. A counter that grows
  by one with every execution does not leave this range.
\<close>

definition Math_round_div :: "nat \<Rightarrow> nat \<Rightarrow> nat" where
  "Math_round_div a n = (2 * a + n) div (2 * n)"

text \<open>
  The \<open>try\<close> block of \<open>executeAgent\<close>: the store as it stands when the block is left, and
  the result or the exception that leaves it.
\<close>

definition executeAgent_try ::
  "LLMProvider \<Rightarrow> world \<Rightarrow> store \<Rightarrow> DbAgent \<Rightarrow> string \<Rightarrow> jsval \<Rightarrow> store \<times> (error + AgentExecutionResult)" where
  "executeAgent_try llm w st agent agentId params =
     (case dispatch llm w agent params of
        Inl e \<Rightarrow> (st, Inl e)
      | Inr result \<Rightarrow>
          (let newTasksCompleted = tasksCompleted agent + 1;
               newSuccessRate =
                 (if success result
                  then Math_round_div (successRate agent * tasksCompleted agent + 100) newTasksCompleted
                  else Math_round_div (successRate agent * tasksCompleted agent) newTasksCompleted)
           in case updateAgentMetrics w st agentId newTasksCompleted newSuccessRate of
                Inl e \<Rightarrow> (st, Inl e)
              | Inr st1 \<Rightarrow>
                  (case updateAgentStatus w st1 agentId (if success result then ''idle'' else ''error'') of
                     Inl e \<Rightarrow> (st1, Inl e)
                   | Inr st2 \<Rightarrow>
                       (case createAgentExecutionLog w st2
                               \<lparr>log_agentId = agentId,
                                log_status = (if success result then ''success'' else ''error''),
                                log_message = message result,
                                log_result = data result\<rparr> of
                          Inl e \<Rightarrow> (st2, Inl e)
                        | Inr st3 \<Rightarrow> (st3, Inr result)))))"

text \<open>The \<open>catch\<close> block of \<open>executeAgent\<close>; a rejection inside it leaves \<open>executeAgent\<close>.\<close>

definition executeAgent_catch ::
  "world \<Rightarrow> store \<Rightarrow> string \<Rightarrow> error \<Rightarrow> store \<times> (error + AgentExecutionResult)" where
  "executeAgent_catch w st agentId error =
     (case updateAgentStatus w st agentId ''error'' of
        Inl e \<Rightarrow> (st, Inl e)
      | Inr st1 \<Rightarrow>
          (case createAgentExecutionLog w st1
                  \<lparr>log_agentId = agentId,
                   log_status = ''error'',
                   log_message = error_message error ''Unknown error occurred'',
                   log_result = JNull\<rparr> of
             Inl e \<Rightarrow> (st1, Inl e)
           | Inr st2 \<Rightarrow> (st2, Inr (failure (error_message error ''Unknown error occurred'')))))"

definition executeAgent ::
  "LLMProvider \<Rightarrow> world \<Rightarrow> store \<Rightarrow> string \<Rightarrow> jsval \<Rightarrow> store \<times> (error + AgentExecutionResult)" where
  \<open>executeAgent llm w st agentId params =
     (case getAgent w st agentId of
        Inl e \<Rightarrow> (st, Inl e)
      | Inr None \<Rightarrow> (st, Inr (failure (''Agent not found'')))
      | Inr (Some agent) \<Rightarrow>
          (case updateAgentStatus w st agentId ''executing'' of
             Inl e \<Rightarrow> (st, Inl e)
           | Inr st1 \<Rightarrow>
               (case executeAgent_try llm w st1 agent agentId params of
                  (st2, Inr result) \<Rightarrow> (st2, Inr result)
                | (st2, Inl error) \<Rightarrow> executeAgent_catch w st2 agentId error)))\<close>

section \<open>Notions of the specification\<close>

text \<open>
  Equality up to the case of the ASCII letters: the two strings have the same length and,
  byte by byte, the same byte or the two cases of one of the letters \<open>A\<close> to \<open>Z\<close>.
\<close>

definition ascii_letter_pairs :: "(char \<times> char) list" where
  "ascii_letter_pairs = zip ''ABCDEFGHIJKLMNOPQRSTUVWXYZ'' ''abcdefghijklmnopqrstuvwxyz''"

definition same_ascii_letter :: "char \<Rightarrow> char \<Rightarrow> bool" where
  "same_ascii_letter c d =
     (c = d \<or> (c, d) \<in> set ascii_letter_pairs \<or> (d, c) \<in> set ascii_letter_pairs)"

definition equal_up_to_ascii_case :: "string \<Rightarrow> string \<Rightarrow> bool" where
  "equal_up_to_ascii_case m m' = list_all2 same_ascii_letter m m'"

text \<open>
  Equality up to letter case: the two strings have the same number of characters and,
  character by character, the same character or the capital and the small form of one
  letter. The pairs of forms are the 26 pairs of ASCII and, outside ASCII, the pairs of
  Unicode in which one form is an ASCII letter and each form is a single character: the
  long s U+017F and the dotless i U+0131, small letters with the capitals \<open>S\<close> and \<open>I\<close>, and
  the Kelvin sign U+212A, a capital letter with the small form \<open>k\<close>.
\<close>

definition kelvin_sign :: string where
  "kelvin_sign = [CHR 0xE2, CHR 0x84, CHR 0xAA]"

definition long_s :: string where
  "long_s = [CHR 0xC5, CHR 0xBF]"

definition dotless_i :: string where
  "dotless_i = [CHR 0xC4, CHR 0xB1]"

definition case_pairs :: "(string \<times> string) list" where
  "case_pairs =
     map (\<lambda>(u, l). ([u], [l])) ascii_letter_pairs @
     [(''S'', long_s), (''I'', dotless_i), (kelvin_sign, ''k'')]"

definition same_letter :: "string \<Rightarrow> string \<Rightarrow> bool" where
  "same_letter c d = (c = d \<or> (c, d) \<in> set case_pairs \<or> (d, c) \<in> set case_pairs)"

definition equal_up_to_case :: "string \<Rightarrow> string \<Rightarrow> bool" where
  "equal_up_to_case m m' = list_all2 same_letter (utf8_chars m) (utf8_chars m')"

text \<open>No provider credential is configured.\<close>

definition no_credentials :: "world \<Rightarrow> bool" where
  "no_credentials w =
     (\<not> (configured w ''GEMINI_API_KEY'' \<or> configured w ''OPENAI_API_KEY'' \<or> configured w ''ANTHROPIC_API_KEY''))"


text \<open>A parsed project fails validation: it has no name, or its files are absent or not an array.\<close>

definition invalid_project :: "jsval \<Rightarrow> bool" where
  "invalid_project p = (\<not> (truthy (js_get_opt p ''name'') \<and> isArray (js_get_opt p ''files'')))"

text \<open>The files of a project and the path and language of a file, as they are read back.\<close>

definition project_files :: "jsval \<Rightarrow> jsval list" where
  "project_files p = (case js_get_opt p ''files'' of JArr fs \<Rightarrow> fs | _ \<Rightarrow> [])"

definition file_path :: "jsval \<Rightarrow> jsval" where
  "file_path f = js_get_opt f ''path''"

definition file_language :: "jsval \<Rightarrow> jsval" where
  "file_language f = js_get_opt f ''language''"

text \<open>The text that the project generator hands to \<open>JSON.parse\<close>.\<close>

definition upstream_json :: "LLMProvider \<Rightarrow> world \<Rightarrow> string \<Rightarrow> string" where
  "upstream_json llm w description =
     (case chat llm w (project_messages description) of
        Inl e \<Rightarrow> []
      | Inr r \<Rightarrow> strip_project_fences (trim (content r)))"


section \<open>Sample environments\<close>

text \<open>
  The demonstration mode: no credential is set, no provider and no web API can be reached,
  the mail service accepts every mail without sending it, the store accepts every call,
  and nothing that is not JSON parses. The renderings of numbers and of JSON are
  placeholders.
\<close>

definition demo_world :: world where
  "demo_world =
     \<lparr>env = (\<lambda>k. None),
      now = 1700000000000,
      isoNow = ''2023-11-14T22:13:20.000Z'',
      num_format = (\<lambda>n. ''1700000000000''),
      JSON_parse = (\<lambda>s. Inl (Error ''Unexpected token'')),
      JSON_stringify = (\<lambda>v. ''{}''),
      encodeURIComponent = (\<lambda>s. Inr s),
      gemini_sendMessage = (\<lambda>history prompt. Inl (Error ''fetch failed'')),
      gemini_generateContent = (\<lambda>prompt. Inl (Error ''fetch failed'')),
      openai_create = (\<lambda>messages. Inl (Error ''Connection error.'')),
      anthropic_create = (\<lambda>system messages. Inl (Error ''Connection error.'')),
      sendEmail = (\<lambda>to subject body. Inr True),
      fetch = (\<lambda>url. Inl (Error ''fetch failed'')),
      storage_rejects = (\<lambda>c. None)\<rparr>"

text \<open>
  An environment where Gemini is configured and answers every request with \<open>text\<close>, which
  \<open>JSON.parse\<close> reads as \<open>parsed\<close>.
\<close>

definition gemini_world :: "string \<Rightarrow> jsval \<Rightarrow> world" where
  "gemini_world text parsed =
     demo_world
      \<lparr>env := (\<lambda>k. if k = ''GEMINI_API_KEY'' then Some ''key'' else None),
       JSON_parse := (\<lambda>s. if s = text then Inr parsed else Inl (Error ''Unexpected token'')),
       gemini_sendMessage := (\<lambda>history prompt. Inr text),
       gemini_generateContent := (\<lambda>prompt. Inr text)\<rparr>"

text \<open>An environment where only Anthropic is configured, and answers.\<close>

definition anthropic_world :: world where
  "anthropic_world =
     demo_world
      \<lparr>env := (\<lambda>k. if k = ''ANTHROPIC_API_KEY'' then Some ''key'' else None),
       anthropic_create := (\<lambda>system messages. Inr [TextBlock ''{}''])\<rparr>"

text \<open>An environment where the store rejects the write of the status \<open>idle\<close>.\<close>

definition idle_down_world :: world where
  "idle_down_world =
     demo_world
      \<lparr>storage_rejects :=
         (\<lambda>c. if c = UpdateAgentStatus ''idle'' then Some (Error ''connection terminated'') else None)\<rparr>"

text \<open>A store with one agent of the \<open>auto-email\<close> template that has run three tasks.\<close>

definition mailer :: DbAgent where
  "mailer =
     \<lparr>db_id = ''a1'', db_name = ''Mailer'', db_description = None,
      db_templateId = Some ''auto-email'', db_status = ''idle'',
      tasksCompleted = 3, successRate = 67\<rparr>"

definition one_agent_store :: store where
  "one_agent_store = \<lparr>db_agents = [''a1'' \<mapsto> mailer], db_logs = []\<rparr>"

definition mail_params :: jsval where
  "mail_params = JObj [(''to'', JStr ''a@b.c''), (''subject'', JStr ''Hi''), (''body'', JStr ''Hello'')]"



definition odd_name_text :: string where
  \<open>odd_name_text = ''{"name":{"toString":1},"files":[]}''\<close>

definition odd_name_project :: jsval where
  "odd_name_project = JObj [(''name'', JObj [(''toString'', JNum 1)]), (''files'', JArr [])]"

definition fenced_text :: string where
  \<open>fenced_text = ''```json\<newline>{"questions":[]}\<newline>```''\<close>

definition nameless_text :: string where
  \<open>nameless_text = ''{"files":[]}''\<close>

definition nameless_project :: jsval where
  "nameless_project = JObj [(''files'', JArr [])]"



text \<open>The capital and the small e with acute accent, U+00C9 and U+00E9.\<close>

definition capital_e_acute :: string where
  "capital_e_acute = [CHR 0xC3, CHR 0x89]"

definition small_e_acute :: string where
  "small_e_acute = [CHR 0xC3, CHR 0xA9]"

text \<open>
  Two Greek words in capitals, the first ending in a sigma, and their lower-case forms, the
  first with the final small sigma.
\<close>

definition greek_capitals :: string where
  "greek_capitals =
     [CHR 0xCE, CHR 0x9F, CHR 0xCE, CHR 0x94, CHR 0xCE, CHR 0x9F, CHR 0xCE, CHR 0xA3,
      CHR 0x20, CHR 0xCE, CHR 0xA3, CHR 0xCE, CHR 0x9F]"

definition greek_small :: string where
  "greek_small =
     [CHR 0xCE, CHR 0xBF, CHR 0xCE, CHR 0xB4, CHR 0xCE, CHR 0xBF, CHR 0xCF, CHR 0x82,
      CHR 0x20, CHR 0xCF, CHR 0x83, CHR 0xCE, CHR 0xBF]"

section \<open>Auxiliary facts\<close>

lemma try_catch_Inr: "try_catch b (\<lambda>e. Inr (h e)) = Inr (case b of Inl e \<Rightarrow> h e | Inr v \<Rightarrow> v)"
  by (simp add: try_catch_def split: sum.splits)

lemma chat_total: "\<exists>r. chat llm w ms = Inr r"
  by (simp add: chat_def chatWithGemini_def chatWithOpenAI_def chatWithAnthropic_def try_catch_Inr)

lemma generateProject_total: "\<exists>p. generateProject llm w d = Inr p"
  by (simp add: generateProject_def try_catch_Inr)

lemma ascii_char:
  assumes "(of_char c :: nat) < 128"
  shows "lower_char_of [c] = [lower_char c]"
    and "case_ignorable [c] = ((of_char c :: nat) \<in> {0x27, 0x2E, 0x3A, 0x5E, 0x60})"
    and "cased [c] =
           ((0x41 \<le> (of_char c :: nat) \<and> (of_char c :: nat) \<le> 0x5A) \<or>
            (0x61 \<le> (of_char c :: nat) \<and> (of_char c :: nat) \<le> 0x7A))"
  using assms by (simp_all add: lower_char_of_def case_ignorable_def cased_def)

lemma long_s_kept: "lower_char_of long_s = long_s"
  by (simp add: lower_char_of_def long_s_def continuation_bits_def lower_code_def lower_pairs_def
      utf8_encode_def char_of_eq_iff)

lemma kelvin_sign_lower: "lower_char_of kelvin_sign = ''k''"
  by (simp add: lower_char_of_def kelvin_sign_def continuation_bits_def lower_code_def lower_pairs_def
      utf8_encode_def char_of_eq_iff)

lemma capital_e_acute_lower: "lower_char_of capital_e_acute = small_e_acute" "lower_char_of small_e_acute = small_e_acute"
  by (simp_all add: lower_char_of_def capital_e_acute_def small_e_acute_def continuation_bits_def lower_code_def
      lower_pairs_def utf8_encode_def char_of_eq_iff)

lemma greek_lower: "toLowerCase greek_capitals = greek_small"
  by (simp add: greek_capitals_def greek_small_def toLowerCase_def ascii_char capital_sigma_def lower_char_def
      is_upper_def is_continuation_def lower_char_of_def case_ignorable_def cased_def continuation_bits_def
      lower_code_def lower_pairs_def utf8_encode_def in_ranges_def case_ignorable_ranges_def cased_ranges_def
      small_sigma_def final_sigma_def char_of_eq_iff)

lemma startsWith_str_includes: "startsWith s k \<Longrightarrow> str_includes s k"
  by (cases s) (simp_all add: startsWith_def)

lemma str_includes_Nil: "str_includes s []"
  by (cases s) (simp_all add: startsWith_def)

lemma str_includes_append: "str_includes ys k \<Longrightarrow> str_includes (xs @ ys) k"
  by (induction xs) simp_all

lemma str_includes_skip:
  assumes "str_includes (x # xs) k" and "128 \<le> (of_char x :: nat)" and "\<forall>c\<in>set k. (of_char c :: nat) < 128"
  shows "str_includes xs k"
proof (cases k)
  case Nil
  then show ?thesis by (simp add: str_includes_Nil)
next
  case (Cons a k')
  with assms(2) assms(3) have "\<not> startsWith (x # xs) k"
    by (auto simp: startsWith_def)
  with assms(1) show ?thesis by simp
qed

lemma str_includes_dropWhile:
  assumes "str_includes cs k" and "\<forall>c\<in>set k. (of_char c :: nat) < 128"
  shows "str_includes (dropWhile is_continuation cs) k"
  using assms(1)
proof (induction cs)
  case Nil
  then show ?case by simp
next
  case (Cons x xs)
  show ?case
  proof (cases "is_continuation x")
    case True
    then have "128 \<le> (of_char x :: nat)"
      by (simp add: is_continuation_def)
    from str_includes_skip [OF Cons.prems this assms(2)] Cons.IH True show ?thesis
      by simp
  next
    case False
    with Cons.prems show ?thesis by simp
  qed
qed

lemma startsWith_lower:
  assumes "startsWith s k" and "\<forall>c\<in>set k. (of_char c :: nat) < 128 \<and> \<not> is_upper c"
  shows "startsWith (lower_chars f (utf8_chars s)) k"
  using assms
proof (induction k arbitrary: s f)
  case Nil
  then show ?case by (simp add: startsWith_def)
next
  case (Cons a k)
  then obtain s' where s: "s = a # s'" and r: "startsWith s' k"
    by (cases s) (auto simp: startsWith_def)
  from Cons.prems(2) have a: "(of_char a :: nat) < 128" "\<not> is_upper a"
    by simp_all
  from a(1) have l: "lower_char_of [a] = [lower_char a]"
    by (rule ascii_char)
  have "startsWith (lower_chars g (utf8_chars s')) k" for g
    using Cons.IH [OF r] Cons.prems(2) by simp
  with s a l show ?case
    by (simp add: startsWith_def capital_sigma_def lower_char_def)
qed

lemma str_includes_lower_chars:
  assumes "str_includes s k" and "\<forall>c\<in>set k. (of_char c :: nat) < 128 \<and> \<not> is_upper c"
  shows "str_includes (lower_chars f (utf8_chars s)) k"
  using assms(1)
proof (induction s arbitrary: f rule: utf8_chars.induct)
  case 1
  then show ?case by (simp add: str_includes_Nil)
next
  case (2 c cs)
  have ascii: "\<forall>c\<in>set k. (of_char c :: nat) < 128"
    using assms(2) by simp
  show ?case
  proof (cases "startsWith (c # cs) k")
    case True
    from startsWith_lower [OF True assms(2)] show ?thesis
      by (rule startsWith_str_includes)
  next
    case False
    with "2.prems" have in_rest: "str_includes cs k"
      by simp
    show ?thesis
    proof (cases "(of_char c :: nat) < 192")
      case True
      have "str_includes (lower_chars g (utf8_chars cs)) k" for g
        using "2.IH"(1) [OF True in_rest] .
      with True show ?thesis
        by (simp add: str_includes_append)
    next
      case False
      from str_includes_dropWhile [OF in_rest ascii]
      have "str_includes (lower_chars g (utf8_chars (dropWhile is_continuation cs))) k" for g
        using "2.IH"(2) [OF False] by simp
      with False show ?thesis
        by (simp add: str_includes_append)
    qed
  qed
qed

lemma str_includes_lower:
  assumes "str_includes s k" and "\<forall>c\<in>set k. (of_char c :: nat) < 128 \<and> \<not> is_upper c"
  shows "str_includes (toLowerCase s) k"
  unfolding toLowerCase_def using assms by (rule str_includes_lower_chars)

lemma try_catch_both:
  assumes "\<And>v. b = Inr v \<Longrightarrow> P v" and "\<And>e. b = Inl e \<Longrightarrow> \<exists>r. h e = Inr r \<and> P r"
  shows "\<exists>r. try_catch b h = Inr r \<and> P r"
  using assms by (cases b) (auto simp: try_catch_def)

lemma handleMessage_agentsUsed:
  "\<exists>r. handleMessage llm w m = Inr r \<and>
        agentsUsed r = (if isProjectGenerationQuery m then [''Project Generator''] else fst (select_agents m))"
proof (cases "isProjectGenerationQuery m")
  case True
  have "\<exists>r. handleMessage llm w m = Inr r \<and> agentsUsed r = [''Project Generator'']"
    unfolding handleMessage_def if_P [OF True] Let_def
    by (rule try_catch_both) (auto simp: and_then_def split: sum.splits)
  with True show ?thesis by simp
next
  case False
  obtain used spec where s: "select_agents m = (used, spec)"
    by (cases "select_agents m")
  obtain r where "chat llm w (coordinator_messages used spec m) = Inr r"
    using chat_total by blast
  with False s show ?thesis
    by (simp add: handleMessage_def and_then_def)
qed

lemma select_agents_fst:
  "fst (select_agents m) =
     (let a = (if isLearningQuery m then [''Learning Assistant''] else []) @
              (if isBookingQuery m then [''Booking Navigator''] else []) @
              (if isCodeQuery m then [''Code Helper''] else [])
      in if a = [] then [''General Assistant''] else a)"
  by (simp add: select_agents_def Let_def)

lemmas kw_simps = toLowerCase_def ascii_char capital_sigma_def lower_char_def is_upper_def startsWith_def char_of_eq_iff
  learningKeywords_def bookingKeywords_def codeKeywords_def projectKeywords_def
  isLearningQuery_def isBookingQuery_def isCodeQuery_def isProjectGenerationQuery_def

lemma example_learning_and_booking: "isLearningQuery ''teach me about flights to book a hotel'' \<and> isBookingQuery ''teach me about flights to book a hotel''
  \<and> \<not> isCodeQuery ''teach me about flights to book a hotel'' \<and> \<not> isProjectGenerationQuery ''teach me about flights to book a hotel''"
  by (simp add: kw_simps)

lemma example_all_three: "isLearningQuery ''Explain this BUG before I book'' \<and> isBookingQuery ''Explain this BUG before I book'' \<and> isCodeQuery ''Explain this BUG before I book''
   \<and> \<not> isProjectGenerationQuery ''Explain this BUG before I book''"
  by (simp add: kw_simps)

lemma example_none: "\<not> isLearningQuery ''hello'' \<and> \<not> isBookingQuery ''hello'' \<and> \<not> isCodeQuery ''hello''
   \<and> \<not> isProjectGenerationQuery ''hello''"
  by (simp add: kw_simps)

lemma letter_pair_lower: "(c, d) \<in> set ascii_letter_pairs \<Longrightarrow> lower_char c = d \<and> lower_char d = d"
  by (auto simp: ascii_letter_pairs_def lower_char_def is_upper_def char_of_eq_iff)

lemma letter_pair_ascii:
  "(c, d) \<in> set ascii_letter_pairs \<Longrightarrow>
     (0x41 \<le> (of_char c :: nat) \<and> (of_char c :: nat) \<le> 0x5A) \<and>
     (0x61 \<le> (of_char d :: nat) \<and> (of_char d :: nat) \<le> 0x7A)"
  by (auto simp: ascii_letter_pairs_def)

lemma same_ascii_letter_cases:
  assumes "same_ascii_letter c d"
  obtains "c = d"
  | "lower_char c = lower_char d"
    "(0x41 \<le> (of_char c :: nat) \<and> (of_char c :: nat) \<le> 0x5A) \<or> (0x61 \<le> (of_char c :: nat) \<and> (of_char c :: nat) \<le> 0x7A)"
    "(0x41 \<le> (of_char d :: nat) \<and> (of_char d :: nat) \<le> 0x5A) \<or> (0x61 \<le> (of_char d :: nat) \<and> (of_char d :: nat) \<le> 0x7A)"
  using assms letter_pair_lower letter_pair_ascii unfolding same_ascii_letter_def by metis

lemma same_ascii_letter_high: "same_ascii_letter c d \<Longrightarrow> 128 \<le> (of_char c :: nat) \<Longrightarrow> d = c"
  by (erule same_ascii_letter_cases) auto

lemma same_ascii_letter_sym: "same_ascii_letter c d \<Longrightarrow> same_ascii_letter d c"
  by (auto simp: same_ascii_letter_def)

lemma same_ascii_letter_char:
  assumes "same_ascii_letter c d"
  shows "lower_char_of [c] = lower_char_of [d]" and "case_ignorable [c] = case_ignorable [d]"
    and "cased [c] = cased [d]" and "((of_char c :: nat) < 192) = ((of_char d :: nat) < 192)"
    and "is_continuation c = is_continuation d"
  using assms
  by (erule_tac [!] same_ascii_letter_cases) (auto simp: ascii_char is_continuation_def)

lemma related_takeWhile:
  "list_all2 same_ascii_letter xs ys \<Longrightarrow> takeWhile is_continuation xs = takeWhile is_continuation ys"
proof (induction xs ys rule: list_all2_induct)
  case Nil
  then show ?case by simp
next
  case (Cons x xs y ys)
  show ?case
  proof (cases "is_continuation x")
    case True
    then have "y = x"
      using same_ascii_letter_high [OF Cons.hyps(1)] by (simp add: is_continuation_def)
    with True Cons.IH show ?thesis by simp
  next
    case False
    with same_ascii_letter_char(5) [OF Cons.hyps(1)] show ?thesis by simp
  qed
qed

lemma related_dropWhile:
  "list_all2 same_ascii_letter xs ys \<Longrightarrow>
   list_all2 same_ascii_letter (dropWhile is_continuation xs) (dropWhile is_continuation ys)"
proof (induction xs ys rule: list_all2_induct)
  case Nil
  then show ?case by simp
next
  case (Cons x xs y ys)
  with same_ascii_letter_char(5) [OF Cons.hyps(1)] show ?case
    by simp
qed

lemma related_followed_by_cased:
  "list_all2 same_ascii_letter m m' \<Longrightarrow> followed_by_cased (utf8_chars m) = followed_by_cased (utf8_chars m')"
proof (induction m arbitrary: m' rule: utf8_chars.induct)
  case 1
  then show ?case by simp
next
  case (2 c cs)
  from "2.prems" obtain c' cs' where m': "m' = c' # cs'" and rel: "same_ascii_letter c c'"
      "list_all2 same_ascii_letter cs cs'"
    by (cases m') auto
  show ?case
  proof (cases "(of_char c :: nat) < 192")
    case True
    with same_ascii_letter_char(4) [OF rel(1)] have t': "(of_char c' :: nat) < 192"
      by simp
    from "2.IH"(1) [OF True rel(2)] True t' m' same_ascii_letter_char(2,3) [OF rel(1)] show ?thesis
      by simp
  next
    case False
    then have e: "c' = c"
      using same_ascii_letter_high [OF rel(1)] by simp
    from "2.IH"(2) [OF False related_dropWhile [OF rel(2)]] False e m' related_takeWhile [OF rel(2)]
    show ?thesis by simp
  qed
qed

lemma related_lower_chars:
  "list_all2 same_ascii_letter m m' \<Longrightarrow> lower_chars f (utf8_chars m) = lower_chars f (utf8_chars m')"
proof (induction m arbitrary: m' f rule: utf8_chars.induct)
  case 1
  then show ?case by simp
next
  case (2 c cs)
  from "2.prems" obtain c' cs' where m': "m' = c' # cs'" and rel: "same_ascii_letter c c'"
      "list_all2 same_ascii_letter cs cs'"
    by (cases m') auto
  show ?case
  proof (cases "(of_char c :: nat) < 192")
    case True
    with same_ascii_letter_char(4) [OF rel(1)] have t': "(of_char c' :: nat) < 192"
      by simp
    have "lower_chars g (utf8_chars cs) = lower_chars g (utf8_chars cs')" for g
      using "2.IH"(1) [OF True rel(2)] .
    with True t' m' same_ascii_letter_char(1,2,3) [OF rel(1)] show ?thesis
      by (simp add: capital_sigma_def)
  next
    case False
    then have e: "c' = c"
      using same_ascii_letter_high [OF rel(1)] by simp
    have "lower_chars g (utf8_chars (dropWhile is_continuation cs)) =
        lower_chars g (utf8_chars (dropWhile is_continuation cs'))" for g
      using "2.IH"(2) [OF False related_dropWhile [OF rel(2)]] .
    with False e m' related_takeWhile [OF rel(2)] related_followed_by_cased [OF related_dropWhile [OF rel(2)]]
    show ?thesis by simp
  qed
qed

lemma equal_up_to_ascii_case_lower:
  "equal_up_to_ascii_case m m' \<Longrightarrow> toLowerCase m = toLowerCase m'"
  unfolding equal_up_to_ascii_case_def toLowerCase_def by (rule related_lower_chars)

lemma no_credentials_mock: "no_credentials w \<Longrightarrow> detectProvider w = ''mock''"
  by (simp add: no_credentials_def detectProvider_def)

lemma and_then_Inr: "and_then (Inr v) f = f v"
  by (simp add: and_then_def)

lemma and_then_Inl: "and_then (Inl e) f = Inl e"
  by (simp add: and_then_def)

lemma try_catch_Inr_val: "try_catch (Inr v) h = Inr v"
  by (simp add: try_catch_def)

lemma try_catch_Inl: "try_catch (Inl e) h = h e"
  by (simp add: try_catch_def)

lemma detectProvider_cases:
  "detectProvider w = ''gemini'' \<longleftrightarrow> configured w ''GEMINI_API_KEY''"
  "detectProvider w = ''openai'' \<longleftrightarrow> \<not> configured w ''GEMINI_API_KEY'' \<and> configured w ''OPENAI_API_KEY''"
  "detectProvider w = ''anthropic'' \<longleftrightarrow>
     \<not> configured w ''GEMINI_API_KEY'' \<and> \<not> configured w ''OPENAI_API_KEY'' \<and> configured w ''ANTHROPIC_API_KEY''"
  "detectProvider w = ''mock'' \<longleftrightarrow> no_credentials w"
  by (simp_all add: detectProvider_def no_credentials_def)

lemma fenced_clean: "clean_fences (trim fenced_text) = ''{\"questions\":[]}''"
  by (simp add: fenced_text_def clean_fences_def trim_def trimStart_def trimEnd_def white_space_def startsWith_def fence_def fence_json_def)

lemma gemini_world_provider: "detectProvider (gemini_world t p) = ''gemini''"
  by (simp add: detectProvider_def configured_def gemini_world_def demo_world_def)

lemma generateProject_try_chat:
  "chat llm w (project_messages d) = Inr r \<Longrightarrow>
   generateProject_try llm w d =
     and_then (JSON_parse w (upstream_json llm w d)) (\<lambda>project.
     and_then (js_get project ''name'') (\<lambda>name.
       if \<not> truthy name then Inl (Error ''Invalid project structure from AI'')
       else
     and_then (js_get project ''files'') (\<lambda>files.
       if \<not> truthy files \<or> \<not> isArray files then Inl (Error ''Invalid project structure from AI'')
       else
     and_then (js_map ''project.files'' normalize_file files) (\<lambda>fs.
       js_set project ''files'' (JArr fs)))))"
  by (simp add: generateProject_try_def upstream_json_def and_then_Inr)

lemma invalid_project_try:
  assumes "invalid_project p"
  shows "\<exists>e. and_then (js_get p ''name'') (\<lambda>name.
       if \<not> truthy name then Inl (Error ''Invalid project structure from AI'')
       else
     and_then (js_get p ''files'') (\<lambda>files.
       if \<not> truthy files \<or> \<not> isArray files then Inl (Error ''Invalid project structure from AI'')
       else k files)) = Inl e"
  using assms
  by (auto simp: invalid_project_def js_get_opt_def and_then_def split: sum.splits)

lemma generateProject_fallback:
  assumes "(\<exists>e. JSON_parse w (upstream_json llm w d) = Inl e) \<or>
           (\<exists>p. JSON_parse w (upstream_json llm w d) = Inr p \<and> invalid_project p)"
  shows "generateProject llm w d = Inr (getFallbackProject d)"
proof -
  obtain r where r: "chat llm w (project_messages d) = Inr r"
    using chat_total by blast
  have "\<exists>e. generateProject_try llm w d = Inl e"
    using assms
  proof
    assume "\<exists>e. JSON_parse w (upstream_json llm w d) = Inl e"
    then show ?thesis
      by (auto simp: generateProject_try_chat [OF r] and_then_Inl)
  next
    assume "\<exists>p. JSON_parse w (upstream_json llm w d) = Inr p \<and> invalid_project p"
    then obtain p where p: "JSON_parse w (upstream_json llm w d) = Inr p" "invalid_project p"
      by blast
    show ?thesis
      unfolding generateProject_try_chat [OF r] p(1) and_then_Inr
      by (rule invalid_project_try [OF p(2)])
  qed
  then show ?thesis
    by (auto simp: generateProject_def try_catch_Inl)
qed

lemma fallback_paths:
  "map file_path (project_files (getFallbackProject d)) =
     [JStr ''index.html'', JStr ''style.css'', JStr ''script.js'', JStr ''README.md'']"
  by (simp add: getFallbackProject_def project_files_def js_get_opt_def file_path_def)

lemma fallback_languages:
  "map file_language (project_files (getFallbackProject d)) =
     [JStr ''html'', JStr ''css'', JStr ''javascript'', JStr ''markdown'']"
  by (simp add: getFallbackProject_def project_files_def js_get_opt_def file_language_def)


lemma demo_chat: "chat (new_LLMProvider demo_world) demo_world ms = Inr (mockChat ms)"
  by (simp add: chat_def new_LLMProvider_def detectProvider_def configured_def demo_world_def)

lemma gemini_chat_project:
  "chat (new_LLMProvider (gemini_world t p)) (gemini_world t p) (project_messages d) =
     Inr \<lparr>content = t, provider = ''gemini''\<rparr>"
  by (simp add: chat_def new_LLMProvider_def gemini_world_provider chatWithGemini_def project_messages_def
      try_catch_def and_then_def Let_def)
     (simp add: gemini_world_def demo_world_def configured_def)

lemma gemini_upstream_json:
  "strip_project_fences (trim t) = t \<Longrightarrow>
   JSON_parse (gemini_world t p) (upstream_json (new_LLMProvider (gemini_world t p)) (gemini_world t p) d) = Inr p"
  by (simp add: upstream_json_def gemini_chat_project) (simp add: gemini_world_def demo_world_def)

lemmas text_simps = trim_def trimStart_def trimEnd_def white_space_def strip_project_fences_def startsWith_def fence_def







lemma keyword_plain:
  "k \<in> set projectKeywords \<Longrightarrow> \<forall>c\<in>set k. (of_char c :: nat) < 128 \<and> \<not> is_upper c"
  by (auto simp: projectKeywords_def is_upper_def)

lemma phrasing_is_project_query:
  assumes "list_ex (\<lambda>keyword. str_includes m keyword) projectKeywords"
  shows "isProjectGenerationQuery m"
proof -
  from assms obtain k where k: "k \<in> set projectKeywords" "str_includes m k"
    by (auto simp: list_ex_iff)
  from k(2) keyword_plain [OF k(1)] have "str_includes (toLowerCase m) k"
    by (rule str_includes_lower)
  with k(1) show ?thesis
    by (auto simp: isProjectGenerationQuery_def list_ex_iff)
qed

lemma fallback_summary: "\<exists>s. project_summary w (getFallbackProject d) = Inr s"
  by (simp add: project_summary_def getFallbackProject_def js_map_def and_then_def)

lemma handleMessage_project:
  assumes "isProjectGenerationQuery m" and "generateProject llm w m = Inr project"
  shows "handleMessage llm w m =
     (case project_summary w project of
        Inr s \<Rightarrow> Inr \<lparr>response = s, agentsUsed = [''Project Generator''],
                       projectId = Some (''proj-'' @ num_format w (of_nat (now w))),
                       projectData = Some project\<rparr>
      | Inl e \<Rightarrow> Inr \<lparr>response = ''I encountered an error generating your project: '' @
                                   (case e of Error m \<Rightarrow> m | NonError \<Rightarrow> ''undefined''),
                       agentsUsed = [''Project Generator''], projectId = None, projectData = None\<rparr>)"
  using assms
  by (simp add: handleMessage_def Let_def and_then_def try_catch_def split: sum.splits)

lemma Math_round_div_round:
  assumes "0 < n"
  shows "int (Math_round_div a n) = round (real a / real n)"
proof -
  from assms have "real a / real n + 1 / 2 = real (2 * a + n) / real (2 * n)"
    by (simp add: field_simps)
  then have "round (real a / real n) = \<lfloor>real (2 * a + n) / real (2 * n)\<rfloor>"
    by (simp add: round_def)
  also have "\<dots> = int ((2 * a + n) div (2 * n))"
    by (rule floor_divide_of_nat_eq)
  finally show ?thesis
    by (simp add: Math_round_div_def)
qed

lemma executeAutoEmailAgent_total: "\<exists>r. executeAutoEmailAgent w agent params = Inr r"
  by (simp add: executeAutoEmailAgent_def Let_def try_catch_Inr)

lemma executeWeatherReportAgent_total: "\<exists>r. executeWeatherReportAgent w agent params = Inr r"
  by (simp add: executeWeatherReportAgent_def Let_def try_catch_Inr)

lemma executeNewsSummarizerAgent_total: "\<exists>r. executeNewsSummarizerAgent llm w agent params = Inr r"
  by (simp add: executeNewsSummarizerAgent_def Let_def try_catch_Inr)

lemma executeTaskReminderAgent_total: "\<exists>r. executeTaskReminderAgent w agent params = Inr r"
  by (simp add: executeTaskReminderAgent_def Let_def try_catch_Inr)

lemma dispatch_total: "\<exists>r. dispatch llm w agent params = Inr r"
  using executeAutoEmailAgent_total executeWeatherReportAgent_total executeNewsSummarizerAgent_total
    executeTaskReminderAgent_total
  by (simp add: dispatch_def executeSocialMonitorAgent_def executeDataBackupAgent_def)

lemma executeAgent_catch_counters:
  assumes "executeAgent_catch w st agentId e = (st', out)"
  shows "map_option tasksCompleted (db_agents st' i) = map_option tasksCompleted (db_agents st i) \<and>
         map_option successRate (db_agents st' i) = map_option successRate (db_agents st i)"
  using assms
  by (auto simp: executeAgent_catch_def updateAgentStatus_def createAgentExecutionLog_def
      split: option.splits sum.splits if_splits)

lemma executeAgent_try_counters:
  assumes "db_agents st agentId = Some a" and "storage_rejects w UpdateAgentMetrics = None"
    and "dispatch llm w agent params = Inr r"
    and "executeAgent_try llm w st agent agentId params = (st', out)"
  shows "map_option tasksCompleted (db_agents st' agentId) = Some (tasksCompleted agent + 1)"
    and "map_option successRate (db_agents st' agentId) =
           Some (Math_round_div (successRate agent * tasksCompleted agent + (if success r then 100 else 0))
                   (tasksCompleted agent + 1))"
  using assms
  by (auto simp: executeAgent_try_def updateAgentMetrics_def updateAgentStatus_def
      createAgentExecutionLog_def Let_def split: option.splits sum.splits if_splits)

lemma executeAgent_counters_kept:
  assumes a: "db_agents st agentId = Some agent"
    and g: "storage_rejects w GetAgent = None"
    and x: "storage_rejects w (UpdateAgentStatus ''executing'') = None"
    and m: "storage_rejects w UpdateAgentMetrics = None"
    and d: "dispatch llm w agent params = Inr r"
    and e: "executeAgent llm w st agentId params = (st', out)"
  shows "map_option tasksCompleted (db_agents st' agentId) = Some (tasksCompleted agent + 1) \<and>
         map_option successRate (db_agents st' agentId) =
           Some (Math_round_div (successRate agent * tasksCompleted agent + (if success r then 100 else 0))
                   (tasksCompleted agent + 1))"
proof -
  let ?st1 = "st\<lparr>db_agents := (db_agents st)(agentId \<mapsto> agent\<lparr>db_status := ''executing''\<rparr>)\<rparr>"
  have s1: "updateAgentStatus w st agentId ''executing'' = Inr ?st1"
    using a x by (simp add: updateAgentStatus_def)
  have a1: "db_agents ?st1 agentId = Some (agent\<lparr>db_status := ''executing''\<rparr>)"
    by simp
  obtain st2 o2 where t: "executeAgent_try llm w ?st1 agent agentId params = (st2, o2)"
    by (cases "executeAgent_try llm w ?st1 agent agentId params")
  note c2 = executeAgent_try_counters [OF a1 m d t]
  show ?thesis
  proof (cases o2)
    case (Inr result)
    with e a g s1 t have "st' = st2"
      by (simp add: executeAgent_def getAgent_def)
    with c2 show ?thesis by simp
  next
    case (Inl err)
    with e a g s1 t have "executeAgent_catch w st2 agentId err = (st', out)"
      by (simp add: executeAgent_def getAgent_def)
    from executeAgent_catch_counters [OF this, of agentId] c2 show ?thesis by simp
  qed
qed

lemma executeAgent_all_accepted:
  assumes a: "db_agents st agentId = Some agent"
    and g: "storage_rejects w GetAgent = None"
    and x: "storage_rejects w (UpdateAgentStatus ''executing'') = None"
    and m: "storage_rejects w UpdateAgentMetrics = None"
    and d: "dispatch llm w agent params = Inr r"
    and f: "storage_rejects w (UpdateAgentStatus (if success r then ''idle'' else ''error'')) = None"
    and l: "storage_rejects w CreateAgentExecutionLog = None"
    and e: "executeAgent llm w st agentId params = (st', out)"
  shows "out = Inr r \<and>
         map_option db_status (db_agents st' agentId) = Some (if success r then ''idle'' else ''error'') \<and>
         db_logs st' = db_logs st @
           [\<lparr>log_agentId = agentId, log_status = (if success r then ''success'' else ''error''),
             log_message = message r, log_result = data r\<rparr>]"
  using assms
  by (auto simp: executeAgent_def getAgent_def updateAgentStatus_def executeAgent_try_def
      updateAgentMetrics_def createAgentExecutionLog_def Let_def split: if_splits)

lemma executeAgent_final_status_rejected:
  assumes a: "db_agents st agentId = Some agent"
    and g: "storage_rejects w GetAgent = None"
    and x: "storage_rejects w (UpdateAgentStatus ''executing'') = None"
    and m: "storage_rejects w UpdateAgentMetrics = None"
    and d: "dispatch llm w agent params = Inr r"
    and s: "success r"
    and f: "storage_rejects w (UpdateAgentStatus ''idle'') = Some err"
    and c: "storage_rejects w (UpdateAgentStatus ''error'') = None"
    and l: "storage_rejects w CreateAgentExecutionLog = None"
    and e: "executeAgent llm w st agentId params = (st', out)"
  shows "out = Inr (failure (error_message err ''Unknown error occurred'')) \<and>
         map_option db_status (db_agents st' agentId) = Some ''error'' \<and>
         db_logs st' = db_logs st @
           [\<lparr>log_agentId = agentId, log_status = ''error'',
             log_message = error_message err ''Unknown error occurred'', log_result = JNull\<rparr>]"
  using assms
  by (auto simp: executeAgent_def getAgent_def updateAgentStatus_def executeAgent_try_def
      updateAgentMetrics_def createAgentExecutionLog_def executeAgent_catch_def Let_def split: if_splits)

section \<open>The claims\<close>

text \<open>
  C1. For an agent that the store holds and every parameter value, when the store answers
  the lookup, the write of the status \<open>executing\<close> and the write of the counters: the
  dispatch returns a result \<open>r\<close>, a success or a structured failure (no handler throws), and
  after \<open>executeAgent\<close> the agent's \<open>tasksCompleted\<close> has increased by exactly 1 and its
  \<open>successRate\<close> is \<open>round((oldRate * oldCount + (success ? 100 : 0)) / newCount)\<close>, with the
  \<open>success\<close> of \<open>r\<close>, whatever the outcome. When the store also accepts the write of the
  final status and of the log entry, \<open>executeAgent\<close> returns \<open>r\<close>, the status is \<open>idle\<close> or
  \<open>error\<close> and one log entry is appended. When the write of the status \<open>idle\<close> is rejected,
  the exception is caught at the outer boundary: the result is a failure, the status is
  \<open>error\<close>, an error entry is logged, and the counters stay as they were written. They also
  stay when a write of the catch block is rejected in its turn and \<open>executeAgent\<close> throws.
\<close>

theorem executeAgent_counters:
  "db_agents st agentId = Some agent \<Longrightarrow>
   storage_rejects w GetAgent = None \<Longrightarrow>
   storage_rejects w (UpdateAgentStatus ''executing'') = None \<Longrightarrow>
   storage_rejects w UpdateAgentMetrics = None \<Longrightarrow>
   \<exists>st' out r agent'.
     executeAgent llm w st agentId params = (st', out) \<and>
     dispatch llm w agent params = Inr r \<and>
     db_agents st' agentId = Some agent' \<and>
     tasksCompleted agent' = tasksCompleted agent + 1 \<and>
     int (successRate agent') =
       round ((real (successRate agent) * real (tasksCompleted agent) + (if success r then 100 else 0))
              / real (tasksCompleted agent + 1)) \<and>
     (storage_rejects w (UpdateAgentStatus (if success r then ''idle'' else ''error'')) = None \<and>
      storage_rejects w CreateAgentExecutionLog = None \<longrightarrow>
        out = Inr r \<and>
        db_status agent' = (if success r then ''idle'' else ''error'') \<and>
        db_logs st' = db_logs st @
          [\<lparr>log_agentId = agentId, log_status = (if success r then ''success'' else ''error''),
            log_message = message r, log_result = data r\<rparr>]) \<and>
     (\<forall>err. success r \<and>
        storage_rejects w (UpdateAgentStatus ''idle'') = Some err \<and>
        storage_rejects w (UpdateAgentStatus ''error'') = None \<and>
        storage_rejects w CreateAgentExecutionLog = None \<longrightarrow>
        out = Inr (failure (error_message err ''Unknown error occurred'')) \<and>
        db_status agent' = ''error'' \<and>
        db_logs st' = db_logs st @
          [\<lparr>log_agentId = agentId, log_status = ''error'',
            log_message = error_message err ''Unknown error occurred'', log_result = JNull\<rparr>])"
proof -
  assume a: "db_agents st agentId = Some agent"
    and g: "storage_rejects w GetAgent = None"
    and x: "storage_rejects w (UpdateAgentStatus ''executing'') = None"
    and m: "storage_rejects w UpdateAgentMetrics = None"
  obtain r where d: "dispatch llm w agent params = Inr r"
    using dispatch_total by blast
  obtain st' out where e: "executeAgent llm w st agentId params = (st', out)"
    by (cases "executeAgent llm w st agentId params")
  from executeAgent_counters_kept [OF a g x m d e]
  obtain agent' where a': "db_agents st' agentId = Some agent'"
    and n: "tasksCompleted agent' = tasksCompleted agent + 1"
    and s: "successRate agent' =
              Math_round_div (successRate agent * tasksCompleted agent + (if success r then 100 else 0))
                (tasksCompleted agent + 1)"
    by auto
  have rd: "int (successRate agent') =
      round ((real (successRate agent) * real (tasksCompleted agent) + (if success r then 100 else 0))
             / real (tasksCompleted agent + 1))"
    using Math_round_div_round [of "tasksCompleted agent + 1"
        "successRate agent * tasksCompleted agent + (if success r then 100 else 0)"] s
    by simp
  have accepted: "storage_rejects w (UpdateAgentStatus (if success r then ''idle'' else ''error'')) = None \<and>
      storage_rejects w CreateAgentExecutionLog = None \<longrightarrow>
        out = Inr r \<and>
        db_status agent' = (if success r then ''idle'' else ''error'') \<and>
        db_logs st' = db_logs st @
          [\<lparr>log_agentId = agentId, log_status = (if success r then ''success'' else ''error''),
            log_message = message r, log_result = data r\<rparr>]"
  proof
    assume "storage_rejects w (UpdateAgentStatus (if success r then ''idle'' else ''error'')) = None \<and>
      storage_rejects w CreateAgentExecutionLog = None"
    then have f: "storage_rejects w (UpdateAgentStatus (if success r then ''idle'' else ''error'')) = None"
      and l: "storage_rejects w CreateAgentExecutionLog = None"
      by simp_all
    from executeAgent_all_accepted [OF a g x m d f l e] a'
    show "out = Inr r \<and>
        db_status agent' = (if success r then ''idle'' else ''error'') \<and>
        db_logs st' = db_logs st @
          [\<lparr>log_agentId = agentId, log_status = (if success r then ''success'' else ''error''),
            log_message = message r, log_result = data r\<rparr>]"
      by simp
  qed
  have caught: "\<forall>err. success r \<and>
        storage_rejects w (UpdateAgentStatus ''idle'') = Some err \<and>
        storage_rejects w (UpdateAgentStatus ''error'') = None \<and>
        storage_rejects w CreateAgentExecutionLog = None \<longrightarrow>
        out = Inr (failure (error_message err ''Unknown error occurred'')) \<and>
        db_status agent' = ''error'' \<and>
        db_logs st' = db_logs st @
          [\<lparr>log_agentId = agentId, log_status = ''error'',
            log_message = error_message err ''Unknown error occurred'', log_result = JNull\<rparr>]"
  proof (intro allI impI)
    fix err
    assume "success r \<and>
        storage_rejects w (UpdateAgentStatus ''idle'') = Some err \<and>
        storage_rejects w (UpdateAgentStatus ''error'') = None \<and>
        storage_rejects w CreateAgentExecutionLog = None"
    then have s: "success r" and f: "storage_rejects w (UpdateAgentStatus ''idle'') = Some err"
      and c: "storage_rejects w (UpdateAgentStatus ''error'') = None"
      and l: "storage_rejects w CreateAgentExecutionLog = None"
      by simp_all
    from executeAgent_final_status_rejected [OF a g x m d s f c l e] a'
    show "out = Inr (failure (error_message err ''Unknown error occurred'')) \<and>
        db_status agent' = ''error'' \<and>
        db_logs st' = db_logs st @
          [\<lparr>log_agentId = agentId, log_status = ''error'',
            log_message = error_message err ''Unknown error occurred'', log_result = JNull\<rparr>]"
      by simp
  qed
  show ?thesis
    by (intro exI [of _ st'] exI [of _ out] exI [of _ r] exI [of _ agent'] conjI)
       (rule e d a' n rd accepted caught)+
qed

theorem executeAgent_counters_witness:
  "db_agents one_agent_store ''a1'' = Some mailer \<and>
   tasksCompleted mailer = 3 \<and> successRate mailer = 67 \<and>
   (\<exists>st' r agent'.
      executeAgent (new_LLMProvider demo_world) demo_world one_agent_store ''a1'' mail_params = (st', Inr r) \<and>
      success r \<and> db_agents st' ''a1'' = Some agent' \<and>
      tasksCompleted agent' = 4 \<and> successRate agent' = 75 \<and> db_status agent' = ''idle'') \<and>
   (\<exists>st' agent'.
      executeAgent (new_LLMProvider idle_down_world) idle_down_world one_agent_store ''a1'' mail_params =
        (st', Inr (failure ''connection terminated'')) \<and>
      db_agents st' ''a1'' = Some agent' \<and>
      tasksCompleted agent' = 4 \<and> successRate agent' = 75 \<and> db_status agent' = ''error'')"
proof -
  have a: "db_agents one_agent_store ''a1'' = Some mailer"
    by (simp add: one_agent_store_def)
  have m: "tasksCompleted mailer = 3" "successRate mailer = 67"
    by (simp_all add: mailer_def)
  have rd: "round ((real 67 * real 3 + 100) / real (3 + 1)) = 75"
    using Math_round_div_round [of 4 301] by (simp add: Math_round_div_def)
  have ok: "storage_rejects demo_world c = None" for c
    by (simp add: demo_world_def)
  have down: "storage_rejects idle_down_world GetAgent = None"
      "storage_rejects idle_down_world (UpdateAgentStatus ''executing'') = None"
      "storage_rejects idle_down_world UpdateAgentMetrics = None"
      "storage_rejects idle_down_world (UpdateAgentStatus ''idle'') = Some (Error ''connection terminated'')"
      "storage_rejects idle_down_world (UpdateAgentStatus ''error'') = None"
      "storage_rejects idle_down_world CreateAgentExecutionLog = None"
    by (simp_all add: idle_down_world_def demo_world_def)
  have d: "dispatch (new_LLMProvider demo_world) demo_world mailer mail_params =
      Inr \<lparr>success = True, message = ''Email sent successfully to a@b.c'',
           data = JObj [(''to'', JStr ''a@b.c''), (''subject'', JStr ''Hi'')]\<rparr>"
    by (simp add: dispatch_def mailer_def executeAutoEmailAgent_def mail_params_def js_or_def
        js_get_opt_def try_catch_def and_then_def demo_world_def)
  have d': "dispatch (new_LLMProvider idle_down_world) idle_down_world mailer mail_params =
      Inr \<lparr>success = True, message = ''Email sent successfully to a@b.c'',
           data = JObj [(''to'', JStr ''a@b.c''), (''subject'', JStr ''Hi'')]\<rparr>"
    by (simp add: dispatch_def mailer_def executeAutoEmailAgent_def mail_params_def js_or_def
        js_get_opt_def try_catch_def and_then_def idle_down_world_def demo_world_def)
  from executeAgent_counters [OF a ok ok ok, where llm = "new_LLMProvider demo_world" and params = mail_params]
  obtain st' out r agent' where
    h: "executeAgent (new_LLMProvider demo_world) demo_world one_agent_store ''a1'' mail_params = (st', out)"
       "dispatch (new_LLMProvider demo_world) demo_world mailer mail_params = Inr r"
       "db_agents st' ''a1'' = Some agent'"
       "tasksCompleted agent' = tasksCompleted mailer + 1"
       "int (successRate agent') =
           round ((real (successRate mailer) * real (tasksCompleted mailer) + (if success r then 100 else 0))
                  / real (tasksCompleted mailer + 1))"
       "storage_rejects demo_world (UpdateAgentStatus (if success r then ''idle'' else ''error'')) = None \<and>
        storage_rejects demo_world CreateAgentExecutionLog = None \<longrightarrow>
          out = Inr r \<and> db_status agent' = (if success r then ''idle'' else ''error'')"
    by blast
  from h(2) d have s: "success r" by auto
  from h(6) ok s have o: "out = Inr r" "db_status agent' = ''idle''"
    by simp_all
  from h(4) h(5) m rd s have
    "tasksCompleted agent' = 4 \<and> successRate agent' = 75"
    by simp
  with h(1) h(3) s o have first:
    "\<exists>st' r agent'.
      executeAgent (new_LLMProvider demo_world) demo_world one_agent_store ''a1'' mail_params = (st', Inr r) \<and>
      success r \<and> db_agents st' ''a1'' = Some agent' \<and>
      tasksCompleted agent' = 4 \<and> successRate agent' = 75 \<and> db_status agent' = ''idle''"
    by blast
  from executeAgent_counters [OF a down(1) down(2) down(3), where llm = "new_LLMProvider idle_down_world"
      and params = mail_params]
  obtain st2 out2 r2 agent2 where
    k: "executeAgent (new_LLMProvider idle_down_world) idle_down_world one_agent_store ''a1'' mail_params = (st2, out2)"
       "dispatch (new_LLMProvider idle_down_world) idle_down_world mailer mail_params = Inr r2"
       "db_agents st2 ''a1'' = Some agent2"
       "tasksCompleted agent2 = tasksCompleted mailer + 1"
       "int (successRate agent2) =
           round ((real (successRate mailer) * real (tasksCompleted mailer) + (if success r2 then 100 else 0))
                  / real (tasksCompleted mailer + 1))"
       "\<forall>err. success r2 \<and>
          storage_rejects idle_down_world (UpdateAgentStatus ''idle'') = Some err \<and>
          storage_rejects idle_down_world (UpdateAgentStatus ''error'') = None \<and>
          storage_rejects idle_down_world CreateAgentExecutionLog = None \<longrightarrow>
          out2 = Inr (failure (error_message err ''Unknown error occurred'')) \<and>
          db_status agent2 = ''error''"
    by blast
  from k(2) d' have s2: "success r2" by auto
  from k(6) s2 down have o2: "out2 = Inr (failure ''connection terminated'')" "db_status agent2 = ''error''"
    by (simp_all add: error_message_def)
  from k(4) k(5) m rd s2 have
    "tasksCompleted agent2 = 4 \<and> successRate agent2 = 75"
    by simp
  with k(1) k(3) o2 have second:
    "\<exists>st' agent'.
      executeAgent (new_LLMProvider idle_down_world) idle_down_world one_agent_store ''a1'' mail_params =
        (st', Inr (failure ''connection terminated'')) \<and>
      db_agents st' ''a1'' = Some agent' \<and>
      tasksCompleted agent' = 4 \<and> successRate agent' = 75 \<and> db_status agent' = ''error''"
    by blast
  from a m first second show ?thesis
    by blast
qed


text \<open>
  C2. For an agent id that the store does not hold (the lookup is answered with no agent),
  and for every parameter value, \<open>executeAgent\<close> returns a result whose \<open>success\<close> is
  false, without throwing, and the store, all counters included, is as before the call.
\<close>

theorem unknown_agent_fails_without_mutation:
  "db_agents st agentId = None \<Longrightarrow> storage_rejects w GetAgent = None \<Longrightarrow>
     \<exists>r. executeAgent llm w st agentId params = (st, Inr r) \<and> \<not> success r \<and> message r = ''Agent not found''"
proof -
  assume absent: "db_agents st agentId = None" and answered: "storage_rejects w GetAgent = None"
  then have "getAgent w st agentId = Inr None"
    by (simp add: getAgent_def)
  then have "executeAgent llm w st agentId params = (st, Inr (failure ''Agent not found''))"
    by (simp add: executeAgent_def)
  moreover have "\<not> success (failure ''Agent not found'')" "message (failure ''Agent not found'') = ''Agent not found''"
    by (simp_all add: failure_def)
  ultimately show ?thesis
    by blast
qed

theorem unknown_agent_fails_without_mutation_witness:
  "db_agents one_agent_store ''a2'' = None \<and> storage_rejects demo_world GetAgent = None \<and>
   (\<exists>r. executeAgent (new_LLMProvider demo_world) demo_world one_agent_store ''a2'' mail_params
           = (one_agent_store, Inr r) \<and> \<not> success r \<and> message r = ''Agent not found'')"
proof -
  have a: "db_agents one_agent_store ''a2'' = None"
    by (simp add: one_agent_store_def)
  have b: "storage_rejects demo_world GetAgent = None"
    by (simp add: demo_world_def)
  from unknown_agent_fails_without_mutation [OF a b] a b show ?thesis
    by blast
qed

text \<open>
  C3 as stated fails: with the Anthropic credential alone, Anthropic is the selected
  provider and answers every request, yet \<open>generateQuiz\<close> and \<open>generateSchedule\<close> return
  the mock payload tagged \<open>mock\<close>.
\<close>

theorem anthropic_selected_yields_mock:
  "detectProvider anthropic_world = ''anthropic'' \<and>
   anthropic_create anthropic_world [] [] = Inr [TextBlock ''{}''] \<and>
   generateQuiz (new_LLMProvider anthropic_world) anthropic_world ''algebra'' None =
     Inr (mockQuiz anthropic_world ''algebra'') \<and>
   provider (mockQuiz anthropic_world ''algebra'') = ''mock'' \<and>
   generateSchedule (new_LLMProvider anthropic_world) anthropic_world ''algebra'' ''2 weeks'' None =
     Inr (mockSchedule anthropic_world ''algebra'' ''2 weeks'') \<and>
   provider (mockSchedule anthropic_world ''algebra'' ''2 weeks'') = ''mock''"
proof -
  have a: "detectProvider anthropic_world = ''anthropic''"
    by (simp add: detectProvider_def configured_def anthropic_world_def demo_world_def)
  have b: "anthropic_create anthropic_world [] [] = Inr [TextBlock ''{}'']"
    by (simp add: anthropic_world_def demo_world_def)
  from a b show ?thesis
    by (simp add: generateQuiz_def generateSchedule_def new_LLMProvider_def mockQuiz_def mockSchedule_def)
qed

text \<open>
  C3, as the code has it. When Gemini or OpenAI is the selected provider, \<open>generateQuiz\<close>
  and \<open>generateSchedule\<close> ask that provider and return its text, trimmed and stripped of
  code fences, tagged with the provider's name; they return the canned mock payload when
  the upstream call fails. When Anthropic is the selected provider, as when none is, they
  return the canned mock payload tagged \<open>mock\<close> and ask no provider.
\<close>

theorem quiz_and_schedule_by_provider:
  "(detectProvider w = ''gemini'' \<longrightarrow>
      generateQuiz (new_LLMProvider w) w topic goals =
        (case gemini_generateContent w (quiz_prompt_gemini w topic goals) of
           Inr text \<Rightarrow> Inr \<lparr>content = clean_fences (trim text), provider = ''gemini''\<rparr>
         | Inl e \<Rightarrow> Inr (mockQuiz w topic)) \<and>
      generateSchedule (new_LLMProvider w) w topic duration goals =
        (case gemini_generateContent w (schedule_prompt_gemini w topic duration goals) of
           Inr text \<Rightarrow> Inr \<lparr>content = clean_fences (trim text), provider = ''gemini''\<rparr>
         | Inl e \<Rightarrow> Inr (mockSchedule w topic duration))) \<and>
   (detectProvider w = ''openai'' \<longrightarrow>
      generateQuiz (new_LLMProvider w) w topic goals =
        (case openai_create w (quiz_messages_openai w topic goals) of
           Inr choices \<Rightarrow> Inr \<lparr>content = clean_fences (trim (first_choice_or choices ''{}'')), provider = ''openai''\<rparr>
         | Inl e \<Rightarrow> Inr (mockQuiz w topic)) \<and>
      generateSchedule (new_LLMProvider w) w topic duration goals =
        (case openai_create w (schedule_messages_openai w topic duration goals) of
           Inr choices \<Rightarrow> Inr \<lparr>content = clean_fences (trim (first_choice_or choices ''{}'')), provider = ''openai''\<rparr>
         | Inl e \<Rightarrow> Inr (mockSchedule w topic duration))) \<and>
   (detectProvider w = ''anthropic'' \<or> detectProvider w = ''mock'' \<longrightarrow>
      generateQuiz (new_LLMProvider w) w topic goals = Inr (mockQuiz w topic) \<and>
      generateSchedule (new_LLMProvider w) w topic duration goals = Inr (mockSchedule w topic duration))"
proof (intro conjI impI)
  assume g: "detectProvider w = ''gemini''"
  then have c: "configured w ''GEMINI_API_KEY''" by (simp add: detectProvider_cases)
  from g c show "generateQuiz (new_LLMProvider w) w topic goals =
        (case gemini_generateContent w (quiz_prompt_gemini w topic goals) of
           Inr text \<Rightarrow> Inr \<lparr>content = clean_fences (trim text), provider = ''gemini''\<rparr>
         | Inl e \<Rightarrow> Inr (mockQuiz w topic))"
    by (simp add: generateQuiz_def new_LLMProvider_def generateQuizWithGemini_def try_catch_def and_then_def
        split: sum.splits)
  from g c show "generateSchedule (new_LLMProvider w) w topic duration goals =
        (case gemini_generateContent w (schedule_prompt_gemini w topic duration goals) of
           Inr text \<Rightarrow> Inr \<lparr>content = clean_fences (trim text), provider = ''gemini''\<rparr>
         | Inl e \<Rightarrow> Inr (mockSchedule w topic duration))"
    by (simp add: generateSchedule_def new_LLMProvider_def generateScheduleWithGemini_def try_catch_def and_then_def
        split: sum.splits)
next
  assume g: "detectProvider w = ''openai''"
  then have c: "configured w ''OPENAI_API_KEY''" by (simp add: detectProvider_cases)
  from g c show "generateQuiz (new_LLMProvider w) w topic goals =
        (case openai_create w (quiz_messages_openai w topic goals) of
           Inr choices \<Rightarrow> Inr \<lparr>content = clean_fences (trim (first_choice_or choices ''{}'')), provider = ''openai''\<rparr>
         | Inl e \<Rightarrow> Inr (mockQuiz w topic))"
    by (simp add: generateQuiz_def new_LLMProvider_def generateQuizWithOpenAI_def try_catch_def and_then_def
        split: sum.splits)
  from g c show "generateSchedule (new_LLMProvider w) w topic duration goals =
        (case openai_create w (schedule_messages_openai w topic duration goals) of
           Inr choices \<Rightarrow> Inr \<lparr>content = clean_fences (trim (first_choice_or choices ''{}'')), provider = ''openai''\<rparr>
         | Inl e \<Rightarrow> Inr (mockSchedule w topic duration))"
    by (simp add: generateSchedule_def new_LLMProvider_def generateScheduleWithOpenAI_def try_catch_def and_then_def
        split: sum.splits)
next
  assume "detectProvider w = ''anthropic'' \<or> detectProvider w = ''mock''"
  then show "generateQuiz (new_LLMProvider w) w topic goals = Inr (mockQuiz w topic)"
    by (auto simp: generateQuiz_def new_LLMProvider_def)
next
  assume "detectProvider w = ''anthropic'' \<or> detectProvider w = ''mock''"
  then show "generateSchedule (new_LLMProvider w) w topic duration goals = Inr (mockSchedule w topic duration)"
    by (auto simp: generateSchedule_def new_LLMProvider_def)
qed

theorem quiz_and_schedule_by_provider_witness:
  "detectProvider (gemini_world fenced_text (JObj [(''questions'', JArr [])])) = ''gemini'' \<and>
   generateQuiz (new_LLMProvider (gemini_world fenced_text (JObj [(''questions'', JArr [])])))
       (gemini_world fenced_text (JObj [(''questions'', JArr [])])) ''algebra'' None =
     Inr \<lparr>content = ''{\"questions\":[]}'', provider = ''gemini''\<rparr> \<and>
   detectProvider anthropic_world = ''anthropic'' \<and>
   generateSchedule (new_LLMProvider anthropic_world) anthropic_world ''algebra'' ''2 weeks'' None =
     Inr (mockSchedule anthropic_world ''algebra'' ''2 weeks'')"
proof -
  have a: "detectProvider anthropic_world = ''anthropic''"
    by (simp add: detectProvider_def configured_def anthropic_world_def demo_world_def)
  have t: "gemini_generateContent (gemini_world fenced_text p) q = Inr fenced_text" for p q
    by (simp add: gemini_world_def demo_world_def)
  from quiz_and_schedule_by_provider [of "gemini_world fenced_text (JObj [(''questions'', JArr [])])" "''algebra''" None]
       quiz_and_schedule_by_provider [of anthropic_world "''algebra''" None "''2 weeks''"]
       a gemini_world_provider t fenced_clean
  show ?thesis by simp
qed

text \<open>
  C4 as stated fails: this upstream answer is a valid project whose name is an object with
  a property \<open>toString\<close> of its own; building the response text throws on it, and the
  result of the catch path carries neither a project id nor project data.
\<close>

theorem project_result_without_id:
  "str_includes ''create a project for my shop'' ''create a project'' \<and>
   handleMessage (new_LLMProvider (gemini_world odd_name_text odd_name_project))
       (gemini_world odd_name_text odd_name_project) ''create a project for my shop'' =
     Inr \<lparr>response = ''I encountered an error generating your project: Cannot convert object to primitive value'',
          agentsUsed = [''Project Generator''], projectId = None, projectData = None\<rparr>"
proof -
  let ?w = "gemini_world odd_name_text odd_name_project"
  have k: "str_includes ''create a project for my shop'' ''create a project''"
    by (simp add: startsWith_def)
  then have q: "isProjectGenerationQuery ''create a project for my shop''"
    by (intro phrasing_is_project_query) (simp add: projectKeywords_def)
  have "strip_project_fences (trim odd_name_text) = odd_name_text"
    by (simp add: odd_name_text_def text_simps)
  then have "JSON_parse ?w (upstream_json (new_LLMProvider ?w) ?w ''create a project for my shop'') = Inr odd_name_project"
    by (rule gemini_upstream_json)
  then have "generateProject_try (new_LLMProvider ?w) ?w ''create a project for my shop'' = Inr odd_name_project"
    by (simp add: generateProject_try_chat [OF gemini_chat_project] and_then_Inr)
       (simp add: odd_name_project_def and_then_def js_map_def js_set_def isArray_def)
  then have g: "generateProject (new_LLMProvider ?w) ?w ''create a project for my shop'' = Inr odd_name_project"
    by (simp add: generateProject_def try_catch_Inr_val)
  have "project_summary ?w odd_name_project = Inl (Error ''Cannot convert object to primitive value'')"
    by (simp add: project_summary_def odd_name_project_def and_then_def)
  with handleMessage_project [OF q g] k show ?thesis
    by simp
qed

text \<open>
  C4, as the code has it. For every message that contains one of the project-generation
  phrasings, \<open>handleMessage\<close> returns a result whose agents are exactly the project
  generator. The result carries the project id and the generated project as its data
  whenever the response text can be built from the project, which is always so for the
  fallback scaffold; when building it throws, the result of the catch path carries
  neither.
\<close>

theorem project_phrasing_result:
  "list_ex (\<lambda>keyword. str_includes m keyword) projectKeywords \<Longrightarrow>
     \<exists>r project. handleMessage llm w m = Inr r \<and> generateProject llm w m = Inr project \<and>
       agentsUsed r = [''Project Generator''] \<and>
       (case project_summary w project of
          Inr s \<Rightarrow> response r = s \<and> projectId r = Some (''proj-'' @ num_format w (of_nat (now w))) \<and>
                    projectData r = Some project
        | Inl e \<Rightarrow> projectId r = None \<and> projectData r = None) \<and>
       (\<exists>s. project_summary w (getFallbackProject m) = Inr s)"
proof -
  assume "list_ex (\<lambda>keyword. str_includes m keyword) projectKeywords"
  then have q: "isProjectGenerationQuery m"
    by (rule phrasing_is_project_query)
  obtain project where g: "generateProject llm w m = Inr project"
    using generateProject_total by blast
  show ?thesis
    using handleMessage_project [OF q g] g fallback_summary [of w m]
    by (cases "project_summary w project") auto
qed

theorem project_phrasing_result_witness:
  "list_ex (\<lambda>keyword. str_includes ''Please build a project for a todo list'' keyword) projectKeywords \<and>
   (\<exists>r. handleMessage (new_LLMProvider demo_world) demo_world ''Please build a project for a todo list'' = Inr r \<and>
        agentsUsed r = [''Project Generator''] \<and>
        projectId r = Some ''proj-1700000000000'' \<and>
        projectData r = Some (getFallbackProject ''Please build a project for a todo list''))"
proof -
  let ?m = "''Please build a project for a todo list''"
  have k: "list_ex (\<lambda>keyword. str_includes ?m keyword) projectKeywords"
    by (simp add: projectKeywords_def startsWith_def)
  have "\<exists>e. JSON_parse demo_world (upstream_json (new_LLMProvider demo_world) demo_world ?m) = Inl e"
    by (simp add: demo_world_def)
  then have g: "generateProject (new_LLMProvider demo_world) demo_world ?m = Inr (getFallbackProject ?m)"
    by (intro generateProject_fallback disjI1)
  have n: "num_format demo_world (of_nat (now demo_world)) = ''1700000000000''"
    by (simp add: demo_world_def)
  from project_phrasing_result [OF k, of "new_LLMProvider demo_world" demo_world]
  obtain r project where
    h: "handleMessage (new_LLMProvider demo_world) demo_world ?m = Inr r"
       "generateProject (new_LLMProvider demo_world) demo_world ?m = Inr project"
       "agentsUsed r = [''Project Generator'']"
       "(case project_summary demo_world project of
          Inr s \<Rightarrow> response r = s \<and>
                    projectId r = Some (''proj-'' @ num_format demo_world (of_nat (now demo_world))) \<and>
                    projectData r = Some project
        | Inl e \<Rightarrow> projectId r = None \<and> projectData r = None)"
    by blast
  from h(2) g have p: "project = getFallbackProject ?m"
    by simp
  obtain s where "project_summary demo_world (getFallbackProject ?m) = Inr s"
    using fallback_summary by blast
  with h(4) p n have "projectId r = Some ''proj-1700000000000'' \<and> projectData r = Some (getFallbackProject ?m)"
    by simp
  with h(1) h(3) k show ?thesis
    by blast
qed

text \<open>
  C5. Away from the project branch, the agents used are the specializations whose keyword
  sets match, each set tested on its own, or the general assistant when none matches
  (the result is stated for every message \<open>m\<close>). The message
  \<open>teach me about flights to book a hotel\<close> matches the learning and the booking set, and
  its result names both agents; there is a message that matches all three sets and one
  that matches none.
\<close>

theorem classification_non_exclusive:
  "(\<not> isProjectGenerationQuery m \<longrightarrow>
      (\<exists>r. handleMessage llm w m = Inr r \<and>
            agentsUsed r =
              (let a = (if isLearningQuery m then [''Learning Assistant''] else []) @
                       (if isBookingQuery m then [''Booking Navigator''] else []) @
                       (if isCodeQuery m then [''Code Helper''] else [])
               in if a = [] then [''General Assistant''] else a))) \<and>
   isLearningQuery ''teach me about flights to book a hotel'' \<and>
   isBookingQuery ''teach me about flights to book a hotel'' \<and>
   (\<exists>r. handleMessage llm w ''teach me about flights to book a hotel'' = Inr r \<and>
         ''Learning Assistant'' \<in> set (agentsUsed r) \<and> ''Booking Navigator'' \<in> set (agentsUsed r)) \<and>
   (isLearningQuery ''Explain this BUG before I book'' \<and> isBookingQuery ''Explain this BUG before I book'' \<and>
    isCodeQuery ''Explain this BUG before I book'') \<and>
   (\<not> isLearningQuery ''hello'' \<and> \<not> isBookingQuery ''hello'' \<and> \<not> isCodeQuery ''hello'')"
proof -
  have general: "\<And>m. \<not> isProjectGenerationQuery m \<Longrightarrow>
      \<exists>r. handleMessage llm w m = Inr r \<and>
            agentsUsed r =
              (let a = (if isLearningQuery m then [''Learning Assistant''] else []) @
                       (if isBookingQuery m then [''Booking Navigator''] else []) @
                       (if isCodeQuery m then [''Code Helper''] else [])
               in if a = [] then [''General Assistant''] else a)"
    using handleMessage_agentsUsed select_agents_fst by (metis (no_types, lifting))
  have "\<exists>r. handleMessage llm w ''teach me about flights to book a hotel'' = Inr r \<and>
         ''Learning Assistant'' \<in> set (agentsUsed r) \<and> ''Booking Navigator'' \<in> set (agentsUsed r)"
    using general [of "''teach me about flights to book a hotel''"] example_learning_and_booking by (auto simp: Let_def)
  with general [of m] example_learning_and_booking example_all_three example_none show ?thesis by blast
qed

theorem classification_non_exclusive_witness:
  "\<exists>r. handleMessage (new_LLMProvider demo_world) demo_world ''please debug my program'' = Inr r \<and>
        agentsUsed r = [''Code Helper'']"
proof -
  have c: "\<not> isProjectGenerationQuery ''please debug my program'' \<and> \<not> isLearningQuery ''please debug my program''
      \<and> \<not> isBookingQuery ''please debug my program'' \<and> isCodeQuery ''please debug my program''"
    by (simp add: kw_simps)
  with classification_non_exclusive [of "''please debug my program''" "new_LLMProvider demo_world" demo_world]
  show ?thesis by (simp add: Let_def)
qed

text \<open>
  C6. When no provider credential is configured as the adapter is constructed (environment
  \<open>w0\<close>), or none is configured as the call is made (environment \<open>w\<close>), \<open>chat\<close>,
  \<open>generateQuiz\<close> and \<open>generateSchedule\<close> return (they do not throw), and the result is
  tagged with the provider \<open>mock\<close>.
\<close>

theorem mock_without_credentials:
  "no_credentials w0 \<or> no_credentials w \<Longrightarrow>
     (\<exists>r. chat (new_LLMProvider w0) w messages = Inr r \<and> provider r = ''mock'') \<and>
     (\<exists>r. generateQuiz (new_LLMProvider w0) w topic goals = Inr r \<and> provider r = ''mock'') \<and>
     (\<exists>r. generateSchedule (new_LLMProvider w0) w topic duration goals' = Inr r \<and> provider r = ''mock'')"
proof -
  assume "no_credentials w0 \<or> no_credentials w"
  then have "this_provider (new_LLMProvider w0) = ''mock'' \<or> no_credentials w"
    by (auto simp: new_LLMProvider_def no_credentials_mock)
  then show ?thesis
    by (auto simp: chat_def generateQuiz_def generateSchedule_def no_credentials_def
        mockChat_def mockQuiz_def mockSchedule_def)
qed

theorem mock_without_credentials_witness:
  "no_credentials demo_world \<and>
   (\<exists>r. chat (new_LLMProvider demo_world) demo_world [\<lparr>msg_role = User, msg_content = ''hi''\<rparr>] = Inr r \<and>
        provider r = ''mock'') \<and>
   (\<exists>r. generateQuiz (new_LLMProvider demo_world) demo_world ''algebra'' None = Inr r \<and> provider r = ''mock'') \<and>
   (\<exists>r. generateSchedule (new_LLMProvider demo_world) demo_world ''algebra'' ''2 weeks'' (Some ''pass the exam'') = Inr r \<and>
        provider r = ''mock'')"
proof -
  have n: "no_credentials demo_world"
    by (simp add: no_credentials_def configured_def demo_world_def)
  then have "no_credentials demo_world \<or> no_credentials demo_world" by simp
  from mock_without_credentials [OF this] n show ?thesis by blast
qed

text \<open>
  C7. \<open>generateProject\<close> returns for every description (it never throws). Whenever the
  upstream output does not parse as JSON, or parses to a project that fails validation (no
  name, or files absent or not an array), the result is the fallback scaffold, which has
  exactly the four files \<open>index.html\<close>, \<open>style.css\<close>, \<open>script.js\<close> and \<open>README.md\<close>.
\<close>

theorem generateProject_total_with_fallback:
  "(\<exists>p. generateProject llm w description = Inr p) \<and>
   ((\<exists>e. JSON_parse w (upstream_json llm w description) = Inl e) \<or>
    (\<exists>p. JSON_parse w (upstream_json llm w description) = Inr p \<and> invalid_project p)
      \<longrightarrow> generateProject llm w description = Inr (getFallbackProject description)) \<and>
   length (project_files (getFallbackProject description)) = 4 \<and>
   map file_path (project_files (getFallbackProject description)) =
     [JStr ''index.html'', JStr ''style.css'', JStr ''script.js'', JStr ''README.md'']"
proof (intro conjI impI)
  show "\<exists>p. generateProject llm w description = Inr p"
    by (rule generateProject_total)
  show "length (project_files (getFallbackProject description)) = 4"
    using arg_cong [OF fallback_paths [of description], of length] by simp
  show "map file_path (project_files (getFallbackProject description)) =
     [JStr ''index.html'', JStr ''style.css'', JStr ''script.js'', JStr ''README.md'']"
    by (rule fallback_paths)
next
  assume "(\<exists>e. JSON_parse w (upstream_json llm w description) = Inl e) \<or>
    (\<exists>p. JSON_parse w (upstream_json llm w description) = Inr p \<and> invalid_project p)"
  then show "generateProject llm w description = Inr (getFallbackProject description)"
    by (rule generateProject_fallback)
qed

theorem generateProject_total_with_fallback_witness:
  "generateProject (new_LLMProvider demo_world) demo_world ''a todo list'' = Inr (getFallbackProject ''a todo list'') \<and>
   invalid_project nameless_project \<and>
   generateProject (new_LLMProvider (gemini_world nameless_text nameless_project))
       (gemini_world nameless_text nameless_project) ''a todo list'' = Inr (getFallbackProject ''a todo list'') \<and>
   length (project_files (getFallbackProject ''a todo list'')) = 4"
proof -
  have a: "\<exists>e. JSON_parse demo_world (upstream_json (new_LLMProvider demo_world) demo_world ''a todo list'') = Inl e"
    by (simp add: demo_world_def)
  have i: "invalid_project nameless_project"
    by (simp add: invalid_project_def nameless_project_def js_get_opt_def)
  have "strip_project_fences (trim nameless_text) = nameless_text"
    by (simp add: nameless_text_def text_simps)
  then have b: "JSON_parse (gemini_world nameless_text nameless_project)
      (upstream_json (new_LLMProvider (gemini_world nameless_text nameless_project))
         (gemini_world nameless_text nameless_project) ''a todo list'') = Inr nameless_project"
    by (rule gemini_upstream_json)
  from generateProject_total_with_fallback [of "new_LLMProvider demo_world" demo_world "''a todo list''"]
       generateProject_total_with_fallback [of "new_LLMProvider (gemini_world nameless_text nameless_project)"
         "gemini_world nameless_text nameless_project" "''a todo list''"]
       a b i
  show ?thesis by simp
qed





text \<open>
  C9 as stated fails outside ASCII. The long s U+017F is a small letter whose capital is
  \<open>S\<close>, so \<open>LESSON\<close> written with a long s for its first \<open>S\<close> equals \<open>LESSON\<close> up to letter case.
  \<open>toLowerCase\<close> keeps the long s, the lower-case form does not contain \<open>lesson\<close>, and the
  message is no learning query, while \<open>LESSON\<close> is one: \<open>handleMessage\<close> selects the general
  assistant for the one and the learning assistant for the other.
\<close>

theorem long_s_changes_classification:
  "equal_up_to_case ''LESSON'' (''LE'' @ long_s @ ''SON'') \<and>
   toLowerCase ''LESSON'' = ''lesson'' \<and>
   toLowerCase (''LE'' @ long_s @ ''SON'') = ''le'' @ long_s @ ''son'' \<and>
   isLearningQuery ''LESSON'' \<and>
   \<not> isLearningQuery (''LE'' @ long_s @ ''SON'') \<and>
   handleMessage (new_LLMProvider demo_world) demo_world ''LESSON'' =
     Inr \<lparr>response = mockChat_response, agentsUsed = [''Learning Assistant''],
          projectId = None, projectData = None\<rparr> \<and>
   handleMessage (new_LLMProvider demo_world) demo_world (''LE'' @ long_s @ ''SON'') =
     Inr \<lparr>response = mockChat_response, agentsUsed = [''General Assistant''],
          projectId = None, projectData = None\<rparr>"
proof -
  have e: "equal_up_to_case ''LESSON'' (''LE'' @ long_s @ ''SON'')"
    by (simp add: equal_up_to_case_def same_letter_def case_pairs_def long_s_def is_continuation_def
        ascii_letter_pairs_def kelvin_sign_def dotless_i_def)
  have l: "toLowerCase ''LESSON'' = ''lesson''"
      "toLowerCase (''LE'' @ long_s @ ''SON'') = ''le'' @ long_s @ ''son''"
    by (simp_all add: toLowerCase_def ascii_char capital_sigma_def lower_char_def is_upper_def char_of_eq_iff
        is_continuation_def long_s_def long_s_kept [unfolded long_s_def])
  have q: "isLearningQuery ''LESSON''" "\<not> isBookingQuery ''LESSON''" "\<not> isCodeQuery ''LESSON''"
      "\<not> isProjectGenerationQuery ''LESSON''"
    by (simp_all add: kw_simps)
  have q': "\<not> isLearningQuery (''LE'' @ long_s @ ''SON'')" "\<not> isBookingQuery (''LE'' @ long_s @ ''SON'')"
      "\<not> isCodeQuery (''LE'' @ long_s @ ''SON'')" "\<not> isProjectGenerationQuery (''LE'' @ long_s @ ''SON'')"
    by (simp_all add: kw_simps is_continuation_def long_s_def long_s_kept [unfolded long_s_def])
  have h: "handleMessage (new_LLMProvider demo_world) demo_world ''LESSON'' =
     Inr \<lparr>response = mockChat_response, agentsUsed = [''Learning Assistant''],
          projectId = None, projectData = None\<rparr>"
    using q by (simp add: handleMessage_def select_agents_def Let_def demo_chat and_then_def mockChat_def)
  have h': "handleMessage (new_LLMProvider demo_world) demo_world (''LE'' @ long_s @ ''SON'') =
     Inr \<lparr>response = mockChat_response, agentsUsed = [''General Assistant''],
          projectId = None, projectData = None\<rparr>"
    using q' by (simp add: handleMessage_def select_agents_def Let_def demo_chat and_then_def mockChat_def)
  from e l q(1) q'(1) h h' show ?thesis
    by simp
qed

text \<open>
  C9, as the code has it. Two messages that are equal up to the case of the ASCII letters,
  or that have the same lower-case form, are classified alike by \<open>isLearningQuery\<close>,
  \<open>isBookingQuery\<close>, \<open>isCodeQuery\<close> and \<open>isProjectGenerationQuery\<close>, so \<open>handleMessage\<close> takes
  the same branch for both, selects the same specializations and reports the same agents.
\<close>

theorem classification_case_insensitive:
  "equal_up_to_ascii_case m m' \<or> toLowerCase m = toLowerCase m' \<Longrightarrow>
     isLearningQuery m = isLearningQuery m' \<and>
     isBookingQuery m = isBookingQuery m' \<and>
     isCodeQuery m = isCodeQuery m' \<and>
     isProjectGenerationQuery m = isProjectGenerationQuery m' \<and>
     select_agents m = select_agents m' \<and>
     (\<exists>r r'. handleMessage llm w m = Inr r \<and> handleMessage llm w m' = Inr r' \<and>
             agentsUsed r = agentsUsed r')"
proof -
  assume "equal_up_to_ascii_case m m' \<or> toLowerCase m = toLowerCase m'"
  then have low: "toLowerCase m = toLowerCase m'"
    using equal_up_to_ascii_case_lower by blast
  then have q: "isLearningQuery m = isLearningQuery m'" "isBookingQuery m = isBookingQuery m'"
      "isCodeQuery m = isCodeQuery m'" "isProjectGenerationQuery m = isProjectGenerationQuery m'"
    by (simp_all add: isLearningQuery_def isBookingQuery_def isCodeQuery_def isProjectGenerationQuery_def)
  then have s: "select_agents m = select_agents m'"
    by (simp add: select_agents_def)
  obtain r where r: "handleMessage llm w m = Inr r"
      "agentsUsed r = (if isProjectGenerationQuery m then [''Project Generator''] else fst (select_agents m))"
    using handleMessage_agentsUsed by blast
  obtain r' where r': "handleMessage llm w m' = Inr r'"
      "agentsUsed r' = (if isProjectGenerationQuery m' then [''Project Generator''] else fst (select_agents m'))"
    using handleMessage_agentsUsed by blast
  from r r' q s have "agentsUsed r = agentsUsed r'" by simp
  with q s r(1) r'(1) show ?thesis by blast
qed

theorem classification_case_insensitive_witness:
  "equal_up_to_ascii_case ''Teach me to BOOK'' ''teach ME to book'' \<and>
   isLearningQuery ''Teach me to BOOK'' = isLearningQuery ''teach ME to book'' \<and>
   isBookingQuery ''Teach me to BOOK'' = isBookingQuery ''teach ME to book'' \<and>
   (\<exists>r r'. handleMessage (new_LLMProvider demo_world) demo_world ''Teach me to BOOK'' = Inr r \<and>
           handleMessage (new_LLMProvider demo_world) demo_world ''teach ME to book'' = Inr r' \<and>
           agentsUsed r = agentsUsed r') \<and>
   toLowerCase (''BOO'' @ kelvin_sign) = toLowerCase ''book'' \<and>
   isBookingQuery (''BOO'' @ kelvin_sign) = isBookingQuery ''book'' \<and>
   select_agents (''BOO'' @ kelvin_sign) = select_agents ''book'' \<and>
   toLowerCase (''D'' @ capital_e_acute @ ''BUG'') = toLowerCase (''d'' @ small_e_acute @ ''bug'') \<and>
   isCodeQuery (''D'' @ capital_e_acute @ ''BUG'') = isCodeQuery (''d'' @ small_e_acute @ ''bug'') \<and>
   select_agents (''D'' @ capital_e_acute @ ''BUG'') = select_agents (''d'' @ small_e_acute @ ''bug'')"
proof -
  have e: "equal_up_to_ascii_case ''Teach me to BOOK'' ''teach ME to book''"
    by (simp add: equal_up_to_ascii_case_def same_ascii_letter_def ascii_letter_pairs_def)
  have k: "toLowerCase (''BOO'' @ kelvin_sign) = toLowerCase ''book''"
    by (simp add: toLowerCase_def ascii_char capital_sigma_def lower_char_def is_upper_def char_of_eq_iff
        is_continuation_def kelvin_sign_def kelvin_sign_lower [unfolded kelvin_sign_def])
  have a: "toLowerCase (''D'' @ capital_e_acute @ ''BUG'') = toLowerCase (''d'' @ small_e_acute @ ''bug'')"
    by (simp add: toLowerCase_def ascii_char capital_sigma_def lower_char_def is_upper_def char_of_eq_iff
        is_continuation_def capital_e_acute_def small_e_acute_def
        capital_e_acute_lower [unfolded capital_e_acute_def small_e_acute_def])
  from e have "equal_up_to_ascii_case ''Teach me to BOOK'' ''teach ME to book'' \<or>
      toLowerCase ''Teach me to BOOK'' = toLowerCase ''teach ME to book''"
    by simp
  note first = classification_case_insensitive [OF this, of "new_LLMProvider demo_world" demo_world]
  from k have "equal_up_to_ascii_case (''BOO'' @ kelvin_sign) ''book'' \<or>
      toLowerCase (''BOO'' @ kelvin_sign) = toLowerCase ''book''"
    by simp
  note second = classification_case_insensitive [OF this, of "new_LLMProvider demo_world" demo_world]
  from a have "equal_up_to_ascii_case (''D'' @ capital_e_acute @ ''BUG'') (''d'' @ small_e_acute @ ''bug'') \<or>
      toLowerCase (''D'' @ capital_e_acute @ ''BUG'') = toLowerCase (''d'' @ small_e_acute @ ''bug'')"
    by simp
  note third = classification_case_insensitive [OF this, of "new_LLMProvider demo_world" demo_world]
  from e k a first second third show ?thesis
    by blast
qed


text \<open>
  C10. \<open>AgentManager.executeTask\<close> and \<open>AgentManager.chatWithAgent\<close> throw exactly when the
  agent id is not in the agent map; for an id in the map they return the formatted string;
  in both cases the map is left as it was. \<open>AgentExecutor.executeAgent\<close>, by contrast,
  answers an id that its store does not hold with the failure result \<open>Agent not found\<close>.
\<close>

theorem agentManager_throws_iff_absent:
  "((\<exists>e. snd (executeTask am agentId task) = Inl e) \<longleftrightarrow> agents am agentId = None) \<and>
   ((\<exists>e. snd (chatWithAgent am agentId msg) = Inl e) \<longleftrightarrow> agents am agentId = None) \<and>
   (\<forall>agent. agents am agentId = Some agent \<longrightarrow>
      snd (executeTask am agentId task) = Inr (''Agent '' @ agent_name agent @ '' executed task: '' @ task) \<and>
      snd (chatWithAgent am agentId msg) = Inr (''Agent '' @ agent_name agent @ '' response to: '' @ msg)) \<and>
   fst (executeTask am agentId task) = am \<and>
   fst (chatWithAgent am agentId msg) = am \<and>
   (db_agents st agentId = None \<and> storage_rejects w GetAgent = None \<longrightarrow>
      executeAgent llm w st agentId params = (st, Inr (failure ''Agent not found'')))"
  by (cases "agents am agentId")
     (simp_all add: executeTask_def chatWithAgent_def executeAgent_def getAgent_def)

theorem agentManager_throws_iff_absent_witness:
  "snd (executeTask (initializeDefaultAgents 0) ''code-helper'' ''lint'') = Inr ''Agent Code Helper executed task: lint'' \<and>
   snd (chatWithAgent (initializeDefaultAgents 0) ''code-helper'' ''hi'') = Inr ''Agent Code Helper response to: hi'' \<and>
   (\<exists>e. snd (executeTask (initializeDefaultAgents 0) ''nobody'' ''lint'') = Inl e) \<and>
   (\<exists>e. snd (chatWithAgent (initializeDefaultAgents 0) ''nobody'' ''hi'') = Inl e) \<and>
   executeAgent (new_LLMProvider demo_world) demo_world one_agent_store ''nobody'' mail_params
     = (one_agent_store, Inr (failure ''Agent not found''))"
  using agentManager_throws_iff_absent
          [of "initializeDefaultAgents 0" "''code-helper''" "''lint''" "''hi''" one_agent_store demo_world
              "new_LLMProvider demo_world" mail_params]
        agentManager_throws_iff_absent
          [of "initializeDefaultAgents 0" "''nobody''" "''lint''" "''hi''" one_agent_store demo_world
              "new_LLMProvider demo_world" mail_params]
  by (simp add: initializeDefaultAgents_def one_agent_store_def demo_world_def)

end
